theory Spec2Isabelle
  imports Main "HOL-Library.Char_ord" "HOL-Library.List_Lexorder" "HOL-Library.AList"
    "HOL-Library.Multiset"
begin

section \<open>Read objects\<close>

text \<open>
  The analyzer of \<^verbatim>\<open>core/parse.go\<close> consumes read objects and produces expressions.
  The object model itself (\<^verbatim>\<open>Object\<close>, \<^verbatim>\<open>Seq\<close>, \<^verbatim>\<open>Vector\<close>, \<^verbatim>\<open>Symbol\<close>, the
  namespace registry) is declared outside the analyzer; here it is only as large as the
  analyzer's code needs: every object carries optional position info and optional
  metadata, and is one of the reader's variants, a type handle or a var handle.
\<close>

record Position =
  endLine :: nat
  endColumn :: nat
  startLine :: nat
  startColumn :: nat
  filename :: "string option"

datatype Type = Type string

datatype Object = Object (GetInfo: "Position option") (GetMeta: "(Object \<times> Object) list option") (val: Val)
and Val =
    NilVal
  | BooleanVal bool
  | IntVal int
  | StringVal string
  | CharVal char
  | KeywordVal "string option" string
  | SymbolVal "string option" string
  | ListVal "Object list"
  | VectorVal "Object list"
  | ArrayMapVal "(Object \<times> Object) list"
  | MapSetVal "Object list"
  | TypeVal Type
  | VarVal nat

definition NIL :: Object where
  "NIL = Object None None NilVal"

definition zeroPosition :: Position where
  "zeroPosition = \<lparr>endLine = 0, endColumn = 0, startLine = 0, startColumn = 0, filename = None\<rparr>"

definition GetPosition :: "Object \<Rightarrow> Position" where
  "GetPosition obj = (case GetInfo obj of Some info \<Rightarrow> info | None \<Rightarrow> zeroPosition)"

definition MakeSymbolObj :: "string \<Rightarrow> Object" where
  "MakeSymbolObj n = Object None None (SymbolVal None n)"

definition MakeKeyword :: "string \<Rightarrow> Object" where
  "MakeKeyword n = Object None None (KeywordVal None n)"

fun IsSymbol :: "Object \<Rightarrow> bool" where
  "IsSymbol (Object i m (SymbolVal n s)) = True"
| "IsSymbol _ = False"

fun IsVector :: "Object \<Rightarrow> bool" where
  "IsVector (Object i m (VectorVal xs)) = True"
| "IsVector _ = False"

fun IsSeq :: "Object \<Rightarrow> bool" where
  "IsSeq (Object i m (ListVal xs)) = True"
| "IsSeq _ = False"

fun sym_ns :: "Object \<Rightarrow> string option" where
  "sym_ns (Object i m (SymbolVal n s)) = n"
| "sym_ns _ = None"

fun sym_name :: "Object \<Rightarrow> string" where
  "sym_name (Object i m (SymbolVal n s)) = s"
| "sym_name _ = []"

text \<open>
  Modelled from the spec: \<^verbatim>\<open>Equals\<close> of the absent object model. Two objects are equal
  when their values are; position info and metadata do not take part (a symbol is its
  optional namespace and its interned local name).
\<close>

definition Equals :: "Object \<Rightarrow> Object \<Rightarrow> bool" where
  "Equals a b = (val a = val b)"

text \<open>
  Modelled from the spec: the \<^verbatim>\<open>Seq\<close> capability (first / rest / is-empty) of the absent
  object model, which the spec gives to lists. \<^verbatim>\<open>First\<close> of an exhausted sequence is
  \<^verbatim>\<open>NIL\<close> and its \<^verbatim>\<open>Rest\<close> is exhausted again (this is how \<^verbatim>\<open>(if c p)\<close> gets its nil
  negative branch through \<^verbatim>\<open>Fourth\<close>); the rest of a list is a list cell of its own,
  without position info or metadata.
\<close>

fun elems :: "Object \<Rightarrow> Object list" where
  "elems (Object i m (ListVal xs)) = xs"
| "elems _ = []"

definition IsEmpty :: "Object \<Rightarrow> bool" where
  "IsEmpty s = (elems s = [])"

definition First :: "Object \<Rightarrow> Object" where
  "First s = (case elems s of [] \<Rightarrow> NIL | x # xs \<Rightarrow> x)"

definition Rest :: "Object \<Rightarrow> Object" where
  "Rest s = Object None None (ListVal (tl (elems s)))"

definition Second :: "Object \<Rightarrow> Object" where
  "Second s = First (Rest s)"

definition Third :: "Object \<Rightarrow> Object" where
  "Third s = First (Rest (Rest s))"

definition Fourth :: "Object \<Rightarrow> Object" where
  "Fourth s = First (Rest (Rest (Rest s)))"

definition SeqCount :: "Object \<Rightarrow> nat" where
  "SeqCount s = length (elems s)"

fun vec_elems :: "Object \<Rightarrow> Object list" where
  "vec_elems (Object i m (VectorVal xs)) = xs"
| "vec_elems _ = []"

text \<open>The interned names of \<^verbatim>\<open>SYMBOLS\<close> and \<^verbatim>\<open>KEYWORDS\<close> that the analyzer compares with.\<close>

definition SYMBOLS_amp :: Object where "SYMBOLS_amp = MakeSymbolObj ''&''"
definition SYMBOLS_catch :: Object where "SYMBOLS_catch = MakeSymbolObj ''catch''"
definition SYMBOLS_finally :: Object where "SYMBOLS_finally = MakeSymbolObj ''finally''"
definition KEYWORDS_tag :: Object where "KEYWORDS_tag = MakeKeyword ''tag''"
definition KEYWORDS_skipUnused :: Object where "KEYWORDS_skipUnused = MakeKeyword ''skip-unused''"

text \<open>
  Modelled from the spec: \<^verbatim>\<open>Map.Get\<close> of the absent object model on a metadata map
  (keys compared with \<^verbatim>\<open>Equals\<close>), and \<^verbatim>\<open>ToBool\<close> (everything but nil and false is true).
\<close>

fun map_Get :: "(Object \<times> Object) list \<Rightarrow> Object \<Rightarrow> Object option" where
  "map_Get [] k = None"
| "map_Get ((k', v) # kvs) k = (if Equals k' k then Some v else map_Get kvs k)"

definition ToBool :: "Object \<Rightarrow> bool" where
  "ToBool obj = (case val obj of NilVal \<Rightarrow> False | BooleanVal b \<Rightarrow> b | _ \<Rightarrow> True)"

section \<open>Expressions\<close>

record Binding =
  b_name :: Object
  b_index :: nat
  b_frame :: nat
  isUsed :: bool
  inferredType :: "Type option"

datatype Expr =
    LiteralExpr Position Object bool
  | VectorExpr Position "Expr list"
  | MapExprE MapExpr
  | SetExpr Position "Expr list"
  | IfExpr Position Expr Expr Expr
  | DefExpr Position nat Object "Expr option" "Expr option" bool
  | CallExpr Position Expr "Expr list"
  | RecurExpr Position "Expr list"
  | VarRefExpr Position nat
  | BindingExpr Position Binding
  | MetaExpr Position MapExpr Expr
  | DoExpr Position "Expr list" bool
  | FnExprE FnExpr
  | LetExpr Position "Object list" "Expr list" "Expr list"
  | LoopExpr Position "Object list" "Expr list" "Expr list"
  | ThrowExpr Position Expr
  | CatchExprE CatchExpr
  | TryExprE TryExpr
  | SetMacroExpr Position nat
and MapExpr = MapExpr Position "Expr list" "Expr list"
and FnArityExpr = FnArityExpr (arity_pos: Position) (arity_args: "Object list")
    (arity_body: "Expr list") (taggedType: "Type option")
and FnExpr = FnExpr (fn_pos: Position) (arities: "FnArityExpr list")
    (variadic: "FnArityExpr option") (self: "Object option")
and CatchExpr = CatchExpr (catch_pos: Position) (excType: Type) (excSymbol: Object)
    (catch_body: "Expr list")
and TryExpr = TryExpr (try_pos: Position) (try_body: "Expr list") (catches: "CatchExpr list")
    (finallyExpr: "Expr list option")

definition NewLiteralExpr :: "Object \<Rightarrow> Expr" where
  "NewLiteralExpr obj = LiteralExpr (GetPosition obj) obj False"

definition NewSurrogateExpr :: "Object \<Rightarrow> Expr" where
  "NewSurrogateExpr obj = LiteralExpr (GetPosition obj) obj True"

section \<open>Errors, parse state and the host\<close>

text \<open>
  A panic of the source is a value. \<^verbatim>\<open>ParseError\<close> is the analyzer's own; \<^verbatim>\<open>EvalError\<close>
  stands for what the evaluator raises during macro expansion; \<^verbatim>\<open>RuntimePanic\<close> is a
  panic of the Go runtime (a failed type assertion, a nil dereference). \<^verbatim>\<open>Diverge\<close> is
  not a panic: it is the outcome of a parse that does not return (macro expansion that
  never reaches a fixpoint), reached in the model when the fuel is used up.
\<close>

datatype error = ParseError Object string | EvalError string | RuntimePanic string

datatype 'a outcome = Return 'a | Panic error | Diverge

datatype Bindings = Bindings (bindings: "(string \<times> Binding) list") (parent: "Bindings option") (frame: nat)

text \<open>
  \<^verbatim>\<open>ParseContext\<close> together with the process-wide variables the analyzer writes:
  the diagnostic sink \<^verbatim>\<open>Stderr\<close> and \<^verbatim>\<open>PROBLEM_COUNT\<close>. The global environment is owned
  by the registry; its state is the parameter \<open>'g\<close>.
\<close>

record 'g ParseContext =
  GlobalEnv :: 'g
  localBindings :: "Bindings option"
  loopBindings :: "Object list list"
  linterBindings :: "Bindings option"
  recur :: bool
  noRecurAllowed :: bool
  isUnknownCallableScope :: bool
  Stderr :: "string list"
  PROBLEM_COUNT :: nat

record Warnings =
  ifWithoutElse :: bool
  unusedFnParameters :: bool
  fnWithEmptyBody :: bool
  ignoredUnusedNamespaces :: "Object list option"
  entryPoints :: "Object list"

text \<open>
  Modelled from the spec: the \<^verbatim>\<open>Var\<close> and \<^verbatim>\<open>Namespace\<close> of the registry (spec 3.4), with
  the fields that the whole-program warnings read. A namespace is identified by its
  address \<open>ns_ptr\<close>; \<open>v_ns\<close> of a var is the address of the namespace that owns it
  (a mapping may also refer to a var of another namespace).
\<close>

record Var =
  v_ns :: nat
  v_name :: Object
  v_isUsed :: bool
  v_isGloballyUsed :: bool
  v_isPrivate :: bool
  v_info :: "Position option"

record Namespace =
  ns_ptr :: nat
  ns_Name :: Object
  ns_isUsed :: bool
  ns_isGloballyUsed :: bool
  mappings :: "(string \<times> Var) list"

text \<open>
  The struct \<^verbatim>\<open>Str\<close> of interned names that \<^verbatim>\<open>parseList\<close> switches on. Its values are
  assigned where the object model is initialised, so they are a parameter here.
\<close>

record Str =
  STR_if :: string
  STR_quote :: string
  STR_fn' :: string
  STR_let' :: string
  STR_letfn' :: string
  STR_loop' :: string
  STR_recur :: string
  STR_setMacro' :: string
  STR_def :: string
  STR_defLinter :: string
  STR_var :: string
  STR_do :: string
  STR_throw :: string
  STR_try :: string
  STR_coreFilename :: string

type_synonym ('a, 'g) M = "'g ParseContext \<Rightarrow> 'a outcome \<times> 'g ParseContext"

text \<open>
  The host: the global switches the analyzer reads (\<^verbatim>\<open>LINTER_MODE\<close>, \<^verbatim>\<open>DIALECT\<close>,
  \<^verbatim>\<open>WARNINGS\<close>, \<^verbatim>\<open>TYPES\<close>) and the operations of the collaborators whose code is outside
  the analyzer: the registry (resolve, intern-fake, namespaces), the evaluator that runs
  a macro, the printer, symbol generation, type inference. A var and a namespace are
  handles (\<open>nat\<close>) into the registry state \<open>'g\<close>. Four fields are parts of \<^verbatim>\<open>parseList\<close>
  that work on the registry's vars and that no property below reads: \<^verbatim>\<open>def\<close>, \<^verbatim>\<open>var\<close>,
  \<^verbatim>\<open>set-macro__\<close>, and what the call path does in linter mode once the callable is parsed
  (\<open>linterCall\<close>). Each gets the parser to recurse with, so every theorem holds whatever
  they do.
\<close>

record 'g Host =
  LINTER_MODE :: bool
  DIALECT_CLJS :: bool
  WARNINGS :: Warnings
  STR_names :: Str
  TYPES :: "string \<Rightarrow> Type option"
  ToString :: "Object \<Rightarrow> string"
  generateSymbol :: "string \<Rightarrow> 'g \<Rightarrow> Object \<times> 'g"
  Resolve :: "'g \<Rightarrow> Object \<Rightarrow> nat option"
  var_isMacro :: "'g \<Rightarrow> nat \<Rightarrow> bool"
  var_hasValue :: "'g \<Rightarrow> nat \<Rightarrow> bool"
  var_ns :: "'g \<Rightarrow> nat \<Rightarrow> nat option"
  var_nameString :: "'g \<Rightarrow> nat \<Rightarrow> string"
  Var_Name :: "Var \<Rightarrow> string"
  setVarUsed :: "nat \<Rightarrow> 'g \<Rightarrow> 'g"
  setNsUsed :: "nat \<Rightarrow> 'g \<Rightarrow> 'g"
  CurrentNamespace :: "'g \<Rightarrow> nat"
  FindNamespace :: "'g \<Rightarrow> Object \<Rightarrow> nat option"
  ns_alias :: "'g \<Rightarrow> nat \<Rightarrow> string \<Rightarrow> nat option"
  NamespaceFor :: "'g \<Rightarrow> nat \<Rightarrow> Object \<Rightarrow> nat option"
  InternFake :: "nat \<Rightarrow> Object \<Rightarrow> 'g \<Rightarrow> nat \<times> 'g"
  MakeSymbol :: "string \<Rightarrow> Object"
  fullClassNameRe :: "string \<Rightarrow> bool"
  EvalMacro :: "nat \<Rightarrow> Object \<Rightarrow> Bindings option \<Rightarrow> 'g \<Rightarrow> Object outcome \<times> 'g"
  DeriveReadObject :: "Object \<Rightarrow> Object \<Rightarrow> Object"
  parseDef :: "(Object \<Rightarrow> (Expr, 'g) M) \<Rightarrow> Object \<Rightarrow> bool \<Rightarrow> (Expr, 'g) M"
  parseVar :: "(Object \<Rightarrow> (Expr, 'g) M) \<Rightarrow> Object \<Rightarrow> (Expr, 'g) M"
  parseSetMacro :: "(Object \<Rightarrow> (Expr, 'g) M) \<Rightarrow> Object \<Rightarrow> (Expr, 'g) M"
  InferType :: "Expr \<Rightarrow> Type option"
  linterCall :: "(Object \<Rightarrow> (Expr, 'g) M) \<Rightarrow> Object \<Rightarrow> Expr \<Rightarrow> (Expr, 'g) M"

subsection \<open>Sequencing, panics and deferred calls\<close>

definition returnM :: "'a \<Rightarrow> ('a, 'g) M" where
  "returnM x s = (Return x, s)"

definition panicM :: "error \<Rightarrow> ('a, 'g) M" where
  "panicM e s = (Panic e, s)"

definition bindM :: "('a, 'g) M \<Rightarrow> ('a \<Rightarrow> ('b, 'g) M) \<Rightarrow> ('b, 'g) M" where
  "bindM m f s =
     (case m s of
        (Return x, s') \<Rightarrow> f x s'
      | (Panic e, s') \<Rightarrow> (Panic e, s')
      | (Diverge, s') \<Rightarrow> (Diverge, s'))"

definition modifyM :: "('g ParseContext \<Rightarrow> 'g ParseContext) \<Rightarrow> (unit, 'g) M" where
  "modifyM f s = (Return (), f s)"

text \<open>\<^verbatim>\<open>defer\<close>: the deferred update runs when the guarded code leaves, by return or by panic.\<close>

definition deferM :: "('g ParseContext \<Rightarrow> 'g ParseContext) \<Rightarrow> ('a, 'g) M \<Rightarrow> ('a, 'g) M" where
  "deferM g m s = (case m s of (r, s') \<Rightarrow> (r, g s'))"

definition assertSeq :: "Object \<Rightarrow> (Object, 'g) M" where
  "assertSeq obj =
     (if IsSeq obj then returnM obj
      else panicM (RuntimePanic ''interface conversion: Object is not Seq''))"

definition assertVector :: "Object \<Rightarrow> (Object, 'g) M" where
  "assertVector obj =
     (if IsVector obj then returnM obj
      else panicM (RuntimePanic ''interface conversion: Object is not *Vector''))"

subsection \<open>Diagnostics\<close>

fun showNat :: "nat \<Rightarrow> string" where
  "showNat n =
     (if n < 10 then [char_of (48 + n)]
      else showNat (n div 10) @ [char_of (48 + n mod 10)])"

declare showNat.simps [simp del]

text \<open>Modelled from the spec: \<^verbatim>\<open>Position.Filename\<close>, the file name or a placeholder.\<close>

definition Filename :: "Position \<Rightarrow> string" where
  "Filename pos = (case filename pos of None \<Rightarrow> ''<file>'' | Some f \<Rightarrow> f)"

text \<open>The line that \<^verbatim>\<open>printError\<close> formats with \<^verbatim>\<open>"%s:%d:%d: %s\\n"\<close>.\<close>

definition errorLine :: "Position \<Rightarrow> string \<Rightarrow> string" where
  "errorLine pos msg =
     Filename pos @ '':'' @ showNat (startLine pos) @ '':'' @ showNat (startColumn pos)
       @ '': '' @ msg @ [CHR 0x0A]"

definition printError :: "Position \<Rightarrow> string \<Rightarrow> 'g ParseContext \<Rightarrow> 'g ParseContext" where
  "printError pos msg s =
     s\<lparr>PROBLEM_COUNT := PROBLEM_COUNT s + 1, Stderr := Stderr s @ [errorLine pos msg]\<rparr>"

definition printParseWarning :: "Position \<Rightarrow> string \<Rightarrow> 'g ParseContext \<Rightarrow> 'g ParseContext" where
  "printParseWarning pos msg = printError pos (''Parse warning: '' @ msg)"

definition printParseError :: "Position \<Rightarrow> string \<Rightarrow> 'g ParseContext \<Rightarrow> 'g ParseContext" where
  "printParseError pos msg = printError pos (''Parse error: '' @ msg)"

section \<open>Parameter vectors\<close>

definition generateSymbolM :: "'g Host \<Rightarrow> string \<Rightarrow> (Object, 'g) M" where
  "generateSymbolM h prefix s =
     (case generateSymbol h prefix (GlobalEnv s) of (smb, g') \<Rightarrow> (Return smb, s\<lparr>GlobalEnv := g'\<rparr>))"

text \<open>
  \<^verbatim>\<open>parseParams\<close>. The source walks the vector by index \<open>i\<close>; the model walks the
  elements from index \<open>i\<close> on, so \<^verbatim>\<open>v.count > i+2\<close> is "at least two elements after this
  one" and \<^verbatim>\<open>v.count == i+2\<close> is "exactly one".
\<close>

definition symbolOrGenerated :: "'g Host \<Rightarrow> Object \<Rightarrow> (Object, 'g) M" where
  "symbolOrGenerated h ro =
     (if \<not> IsSymbol ro then
        (if LINTER_MODE h then generateSymbolM h ''linter''
         else panicM (ParseError ro (''Unsupported binding form: '' @ ToString h ro)))
      else returnM ro)"

fun parseParams_loop :: "'g Host \<Rightarrow> Object list \<Rightarrow> Object list \<Rightarrow> (Object list \<times> bool, 'g) M" where
  "parseParams_loop h [] res = returnM (res, False)"
| "parseParams_loop h (ro # rest) res =
     bindM (symbolOrGenerated h ro) (\<lambda>smb.
       if Equals SYMBOLS_amp smb then
         (case rest of
            x1 # x2 # xs \<Rightarrow> panicM (ParseError x2 (''Unexpected parameter: '' @ ToString h x2))
          | [x1] \<Rightarrow>
              bindM (symbolOrGenerated h x1) (\<lambda>v. returnM (res @ [v], True))
          | [] \<Rightarrow> returnM (res, False))
       else parseParams_loop h rest (res @ [smb]))"

definition parseParams :: "'g Host \<Rightarrow> Object \<Rightarrow> (Object list \<times> bool, 'g) M" where
  "parseParams h params = bindM (assertVector params) (\<lambda>v. parseParams_loop h (vec_elems v) [])"

section \<open>Scope stack\<close>

text \<open>
  \<^verbatim>\<open>loopBindings\<close> is a stack of parameter vectors. Every vector pushed by the analyzer
  is allocated (never the nil slice), so "\<^verbatim>\<open>GetLoopBindings\<close> returns nil" is "the stack
  is empty". A pop always follows its push; the deferred pops are total here.
\<close>

definition PushLoopBindings :: "Object list \<Rightarrow> 'g ParseContext \<Rightarrow> 'g ParseContext" where
  "PushLoopBindings b s = s\<lparr>loopBindings := loopBindings s @ [b]\<rparr>"

definition PopLoopBindings :: "'g ParseContext \<Rightarrow> 'g ParseContext" where
  "PopLoopBindings s = s\<lparr>loopBindings := butlast (loopBindings s)\<rparr>"

definition GetLoopBindings :: "'g ParseContext \<Rightarrow> Object list option" where
  "GetLoopBindings s =
     (let n = length (loopBindings s) in
      if n = 0 then None else Some (loopBindings s ! (n - 1)))"

definition PushFrame :: "Bindings option \<Rightarrow> Bindings" where
  "PushFrame b = Bindings [] b (case b of None \<Rightarrow> 0 | Some p \<Rightarrow> frame p + 1)"

definition PopFrame :: "Bindings option \<Rightarrow> Bindings option" where
  "PopFrame b = (case b of None \<Rightarrow> None | Some f \<Rightarrow> parent f)"

definition HasPrefix :: "string \<Rightarrow> string \<Rightarrow> bool" where
  "HasPrefix str p = (take (length p) str = p)"

definition isSkipUnused :: "Object \<Rightarrow> bool" where
  "isSkipUnused obj =
     (case GetMeta obj of
        Some m \<Rightarrow> (case map_Get m KEYWORDS_skipUnused of Some v \<Rightarrow> ToBool v | None \<Rightarrow> False)
      | None \<Rightarrow> False)"

definition needsUnusedWarning :: "Binding \<Rightarrow> bool" where
  "needsUnusedWarning b =
     (\<not> isUsed b \<and>
      \<not> HasPrefix (sym_name (b_name b)) ''_'' \<and>
      \<not> HasPrefix (sym_name (b_name b)) ''&form'' \<and>
      \<not> HasPrefix (sym_name (b_name b)) ''&env'' \<and>
      \<not> isSkipUnused (b_name b))"

text \<open>
  \<^verbatim>\<open>AddBinding\<close> on a frame. The map \<^verbatim>\<open>bindings\<close> is keyed by the interned local name;
  it is an association list with one entry per name.
\<close>

definition AddBinding ::
  "'g Host \<Rightarrow> Object \<Rightarrow> nat \<Rightarrow> bool \<Rightarrow> Type option \<Rightarrow> Bindings \<Rightarrow> 'g ParseContext
     \<Rightarrow> Bindings \<times> 'g ParseContext" where
  "AddBinding h smb index skipUnused ity b s =
     (let s1 =
        (if LINTER_MODE h \<and> \<not> skipUnused then
           (case map_of (bindings b) (sym_name smb) of
              Some old \<Rightarrow>
                if needsUnusedWarning old
                then printParseWarning (GetPosition (b_name old))
                       (''Unused binding: '' @ ToString h (b_name old)) s
                else s
            | None \<Rightarrow> s)
         else s)
      in (Bindings
            (AList.update (sym_name smb)
               \<lparr>b_name = smb, b_index = index, b_frame = frame b, isUsed = False,
                inferredType = ity\<rparr> (bindings b))
            (parent b) (frame b), s1))"

definition PushEmptyLocalFrame :: "'g ParseContext \<Rightarrow> 'g ParseContext" where
  "PushEmptyLocalFrame s = s\<lparr>localBindings := Some (PushFrame (localBindings s))\<rparr>"

fun addBindings :: "'g Host \<Rightarrow> Object list \<Rightarrow> nat \<Rightarrow> Bindings \<Rightarrow> 'g ParseContext
    \<Rightarrow> Bindings \<times> 'g ParseContext" where
  "addBindings h [] i b s = (b, s)"
| "addBindings h (smb # names) i b s =
     (case AddBinding h smb i True None b s of (b', s') \<Rightarrow> addBindings h names (i + 1) b' s')"

definition PushLocalFrame :: "'g Host \<Rightarrow> Object list \<Rightarrow> 'g ParseContext \<Rightarrow> 'g ParseContext" where
  "PushLocalFrame h names s =
     (case addBindings h names 0 (PushFrame (localBindings s)) s of
        (b', s') \<Rightarrow> s'\<lparr>localBindings := Some b'\<rparr>)"

definition PopLocalFrame :: "'g ParseContext \<Rightarrow> 'g ParseContext" where
  "PopLocalFrame s = s\<lparr>localBindings := PopFrame (localBindings s)\<rparr>"

fun GetBinding_frame :: "Bindings \<Rightarrow> Object \<Rightarrow> Binding option" where
  "GetBinding_frame (Bindings bs p f) smb =
     (case map_of bs (sym_name smb) of
        Some b \<Rightarrow> Some b
      | None \<Rightarrow> (case p of None \<Rightarrow> None | Some env \<Rightarrow> GetBinding_frame env smb))"

definition GetBinding :: "Bindings option \<Rightarrow> Object \<Rightarrow> Binding option" where
  "GetBinding b smb = (case b of None \<Rightarrow> None | Some env \<Rightarrow> GetBinding_frame env smb)"

definition GetLocalBinding :: "'g ParseContext \<Rightarrow> Object \<Rightarrow> Binding option" where
  "GetLocalBinding s smb =
     (if sym_ns smb \<noteq> None then None else GetBinding (localBindings s) smb)"

text \<open>\<^verbatim>\<open>b.isUsed = true\<close> through the pointer that \<^verbatim>\<open>GetBinding\<close> returned.\<close>

fun markUsed_frame :: "Bindings \<Rightarrow> Object \<Rightarrow> Bindings" where
  "markUsed_frame (Bindings bs p f) smb =
     (case map_of bs (sym_name smb) of
        Some b \<Rightarrow> Bindings (AList.update (sym_name smb) (b\<lparr>isUsed := True\<rparr>) bs) p f
      | None \<Rightarrow>
          Bindings bs (case p of None \<Rightarrow> None | Some env \<Rightarrow> Some (markUsed_frame env smb)) f)"

section \<open>Sequences, vectors, maps, sets\<close>

fun parseSeq_loop :: "(Object \<Rightarrow> (Expr, 'g) M) \<Rightarrow> Object list \<Rightarrow> Expr list \<Rightarrow> (Expr list, 'g) M" where
  "parseSeq_loop P [] res = returnM res"
| "parseSeq_loop P (x # xs) res = bindM (P x) (\<lambda>e. parseSeq_loop P xs (res @ [e]))"

definition parseSeq :: "(Object \<Rightarrow> (Expr, 'g) M) \<Rightarrow> Object \<Rightarrow> (Expr list, 'g) M" where
  "parseSeq P seq = parseSeq_loop P (elems seq) []"

definition parseVector :: "(Object \<Rightarrow> (Expr, 'g) M) \<Rightarrow> Object list \<Rightarrow> Position \<Rightarrow> (Expr, 'g) M" where
  "parseVector P v pos = bindM (parseSeq_loop P v []) (\<lambda>r. returnM (VectorExpr pos r))"

fun parseMap_loop :: "(Object \<Rightarrow> (Expr, 'g) M) \<Rightarrow> (Object \<times> Object) list \<Rightarrow> Position
    \<Rightarrow> Expr list \<Rightarrow> Expr list \<Rightarrow> (MapExpr, 'g) M" where
  "parseMap_loop P [] pos ks vs = returnM (MapExpr pos ks vs)"
| "parseMap_loop P ((k, v) # kvs) pos ks vs =
     bindM (P k) (\<lambda>k'. bindM (P v) (\<lambda>v'. parseMap_loop P kvs pos (ks @ [k']) (vs @ [v'])))"

definition parseMap :: "(Object \<Rightarrow> (Expr, 'g) M) \<Rightarrow> (Object \<times> Object) list \<Rightarrow> Position \<Rightarrow> (MapExpr, 'g) M" where
  "parseMap P m pos = parseMap_loop P m pos [] []"

definition parseSet :: "(Object \<Rightarrow> (Expr, 'g) M) \<Rightarrow> Object list \<Rightarrow> Position \<Rightarrow> (Expr, 'g) M" where
  "parseSet P xs pos = bindM (parseSeq_loop P xs []) (\<lambda>r. returnM (SetExpr pos r))"

definition checkForm :: "'g Host \<Rightarrow> Object \<Rightarrow> nat \<Rightarrow> nat \<Rightarrow> (nat, 'g) M" where
  "checkForm h obj mn mx =
     bindM (assertSeq obj) (\<lambda>seq.
       let c = SeqCount seq in
       if c < mn then panicM (ParseError obj (''Too few arguments to '' @ ToString h (First seq)))
       else if c > mx then panicM (ParseError obj (''Too many arguments to '' @ ToString h (First seq)))
       else returnM c)"

section \<open>Bodies\<close>

definition skipRedundantDo :: "Object \<Rightarrow> bool" where
  "skipRedundantDo obj =
     (case GetMeta obj of
        Some m \<Rightarrow>
          (case map_Get m (MakeKeyword ''skip-redundant-do'') of
             Some res \<Rightarrow> Equals res (Object None None (BooleanVal True))
           | None \<Rightarrow> False)
      | None \<Rightarrow> False)"

definition bodyWarnings :: "'g Host \<Rightarrow> Object \<Rightarrow> Expr \<Rightarrow> 'g ParseContext \<Rightarrow> 'g ParseContext" where
  "bodyWarnings h ro expr s =
     (if LINTER_MODE h then
        (case expr of
           DefExpr pos vr nm v m byMacro \<Rightarrow>
             if \<not> byMacro then printParseWarning pos ''inline def'' s else s
         | DoExpr pos b byMacro \<Rightarrow>
             if \<not> byMacro \<and> \<not> skipRedundantDo ro
             then printParseWarning pos ''redundant do form'' s else s
         | _ \<Rightarrow> s)
      else s)"

fun parseBody_loop :: "'g Host \<Rightarrow> (Object \<Rightarrow> (Expr, 'g) M) \<Rightarrow> Object list \<Rightarrow> Expr list
    \<Rightarrow> (Expr list, 'g) M" where
  "parseBody_loop h P [] res = returnM res"
| "parseBody_loop h P (ro # seq) res =
     bindM (P ro) (\<lambda>expr s.
       if recur s \<and> seq \<noteq> [] \<and> \<not> LINTER_MODE h
       then (Panic (ParseError ro ''Can only recur from tail position''), s)
       else parseBody_loop h P seq (res @ [expr]) (bodyWarnings h ro expr s))"

definition parseBody :: "'g Host \<Rightarrow> (Object \<Rightarrow> (Expr, 'g) M) \<Rightarrow> Object \<Rightarrow> (Expr list, 'g) M" where
  "parseBody h P seq s =
     deferM (\<lambda>s'. s'\<lparr>recur := recur s\<rparr>) (parseBody_loop h P (elems seq) []) (s\<lparr>recur := False\<rparr>)"

section \<open>The fn parser\<close>

definition getTaggedType :: "'g Host \<Rightarrow> Object \<Rightarrow> Type option" where
  "getTaggedType h obj =
     (case GetMeta obj of
        Some m \<Rightarrow>
          (case map_Get m KEYWORDS_tag of
             Some typeName \<Rightarrow> if IsSymbol typeName then TYPES h (sym_name typeName) else None
           | None \<Rightarrow> None)
      | None \<Rightarrow> None)"

text \<open>
  The arity checks of \<^verbatim>\<open>addArity\<close> (the two branches on \<^verbatim>\<open>isVariadic\<close>), on their own:
  they read and update only the \<^verbatim>\<open>FnExpr\<close> under construction.
\<close>

definition addArity_check :: "FnExpr \<Rightarrow> Object \<Rightarrow> FnArityExpr \<Rightarrow> bool \<Rightarrow> error + FnExpr" where
  "addArity_check fn params arity isVariadic =
     (if isVariadic then
        (if variadic fn \<noteq> None
         then Inl (ParseError params ''Can't have more than 1 variadic overload'')
         else if list_ex (\<lambda>a. length (arity_args a) \<ge> length (arity_args arity)) (arities fn)
         then Inl (ParseError params
                ''Can't have fixed arity function with more params than variadic function'')
         else Inr (FnExpr (fn_pos fn) (arities fn) (Some arity) (self fn)))
      else
        (if list_ex (\<lambda>a. length (arity_args a) = length (arity_args arity)) (arities fn)
         then Inl (ParseError params ''Can't have 2 overloads with same arity'')
         else if (case variadic fn of
                    Some v \<Rightarrow> length (arity_args arity) \<ge> length (arity_args v)
                  | None \<Rightarrow> False)
         then Inl (ParseError params
                ''Can't have fixed arity function with more params than variadic function'')
         else Inr (FnExpr (fn_pos fn) (arities fn @ [arity]) (variadic fn) (self fn))))"

text \<open>
  The linter block that ends \<^verbatim>\<open>addArity\<close>. \<^verbatim>\<open>BySymbolName\<close> orders symbols by their
  local name; the names of one frame are distinct.
\<close>

definition arityWarnings :: "'g Host \<Rightarrow> FnArityExpr \<Rightarrow> 'g ParseContext \<Rightarrow> 'g ParseContext" where
  "arityWarnings h arity s =
     (if LINTER_MODE h then
        (let s1 = (if fnWithEmptyBody (WARNINGS h) \<and> length (arity_body arity) = 0
                   then printParseWarning (arity_pos arity) ''fn form with empty body'' s
                   else s)
         in if unusedFnParameters (WARNINGS h) then
              (let unused = sort_key sym_name
                     (map (\<lambda>kb. b_name (snd kb))
                        (filter (\<lambda>kb. needsUnusedWarning (snd kb))
                           (case localBindings s1 of None \<Rightarrow> [] | Some b \<Rightarrow> bindings b)))
               in foldl (\<lambda>st u. printParseWarning (GetPosition u)
                                  (''unused parameter: '' @ ToString h u) st) s1 unused)
            else s1)
      else s)"

definition addArity :: "'g Host \<Rightarrow> (Object \<Rightarrow> (Expr, 'g) M) \<Rightarrow> FnExpr \<Rightarrow> Object \<Rightarrow> (FnExpr, 'g) M" where
  "addArity h P fn sig =
     (let params = First sig; body = Rest sig in
      bindM (parseParams h params) (\<lambda>(args, isVariadic).
      bindM (modifyM (PushLocalFrame h args)) (\<lambda>_.
      deferM PopLocalFrame (
      bindM (modifyM (PushLoopBindings args)) (\<lambda>_.
      deferM PopLoopBindings (\<lambda>s.
        deferM (\<lambda>s'. s'\<lparr>noRecurAllowed := noRecurAllowed s\<rparr>)
          (bindM (parseBody h P body) (\<lambda>b.
             let arity = FnArityExpr (GetPosition sig) args b (getTaggedType h params) in
             case addArity_check fn params arity isVariadic of
               Inl e \<Rightarrow> panicM e
             | Inr fn' \<Rightarrow> bindM (modifyM (arityWarnings h arity)) (\<lambda>_. returnM fn')))
          (s\<lparr>noRecurAllowed := False\<rparr>)))))))"

definition wrapWithMeta :: "(Object \<Rightarrow> (Expr, 'g) M) \<Rightarrow> FnExpr \<Rightarrow> Object \<Rightarrow> (Expr, 'g) M" where
  "wrapWithMeta P fnExpr obj =
     (case GetMeta obj of
        Some meta \<Rightarrow>
          bindM (parseMap P meta (fn_pos fnExpr)) (\<lambda>m.
            returnM (MetaExpr (fn_pos fnExpr) m (FnExprE fnExpr)))
      | None \<Rightarrow> returnM (FnExprE fnExpr))"

fun parseFn_loop :: "'g Host \<Rightarrow> (Object \<Rightarrow> (Expr, 'g) M) \<Rightarrow> Object list \<Rightarrow> FnExpr \<Rightarrow> (FnExpr, 'g) M" where
  "parseFn_loop h P [] res = returnM res"
| "parseFn_loop h P (body # bodies) res =
     (if IsSeq body then
        (let params = First body in
         if \<not> IsVector params
         then panicM (ParseError params
                (''Parameter declaration must be a vector. Got: '' @ ToString h params))
         else bindM (addArity h P res body) (\<lambda>res'. parseFn_loop h P bodies res'))
      else panicM (ParseError body (''Function body must be a list. Got: '' @ ToString h body)))"

definition parseFn_arities ::
  "'g Host \<Rightarrow> (Object \<Rightarrow> (Expr, 'g) M) \<Rightarrow> Object \<Rightarrow> FnExpr \<Rightarrow> Object \<Rightarrow> Object \<Rightarrow> (Expr, 'g) M" where
  "parseFn_arities h P obj res bodies p =
     (if IsVector p then bindM (addArity h P res bodies) (\<lambda>res'. wrapWithMeta P res' obj)
      else if IsEmpty bodies then panicM (ParseError p ''Parameter declaration missing'')
      else bindM (parseFn_loop h P (elems bodies) res) (\<lambda>res'. wrapWithMeta P res' obj))"

definition parseFn :: "'g Host \<Rightarrow> (Object \<Rightarrow> (Expr, 'g) M) \<Rightarrow> Object \<Rightarrow> (Expr, 'g) M" where
  "parseFn h P obj =
     bindM (assertSeq obj) (\<lambda>seq.
       let res = FnExpr (GetPosition obj) [] None None;
           bodies = Rest seq;
           p = First bodies
       in if IsSymbol p then
            bindM (modifyM (PushLocalFrame h [p])) (\<lambda>_.
              deferM PopLocalFrame
                (parseFn_arities h P obj (FnExpr (GetPosition obj) [] None (Some p))
                   (Rest bodies) (First (Rest bodies))))
          else parseFn_arities h P obj res bodies p)"

section \<open>recur\<close>

definition parseRecur :: "'g Host \<Rightarrow> (Object \<Rightarrow> (Expr, 'g) M) \<Rightarrow> Object \<Rightarrow> (Expr, 'g) M" where
  "parseRecur h P obj s =
     (if noRecurAllowed s then (Panic (ParseError obj ''Cannot recur across try''), s)
      else
        (case GetLoopBindings s of
           None \<Rightarrow> (Panic (ParseError obj ''No recursion point for recur''), s)
         | Some lb \<Rightarrow>
             bindM (assertSeq obj) (\<lambda>seq.
             bindM (parseSeq P (Rest seq)) (\<lambda>args.
               if length lb \<noteq> length args
               then panicM (ParseError obj
                      (''Mismatched argument count to recur, expected: '' @ showNat (length lb)
                         @ '' args, got: '' @ showNat (length args)))
               else bindM (modifyM (\<lambda>s'. s'\<lparr>recur := True\<rparr>)) (\<lambda>_.
                      returnM (RecurExpr (GetPosition obj) args)))) s))"

section \<open>try, catch, finally\<close>

definition TYPE_Error :: Type where
  "TYPE_Error = Type ''Error''"

definition isCatch :: "Object \<Rightarrow> bool" where
  "isCatch obj = (IsSeq obj \<and> Equals (First obj) SYMBOLS_catch)"

definition isFinally :: "Object \<Rightarrow> bool" where
  "isFinally obj = (IsSeq obj \<and> Equals (First obj) SYMBOLS_finally)"

definition resolveType :: "'g Host \<Rightarrow> (Object \<Rightarrow> (Expr, 'g) M) \<Rightarrow> Object \<Rightarrow> (Type, 'g) M" where
  "resolveType h P obj =
     bindM (P obj) (\<lambda>excType.
       case (case excType of
               LiteralExpr pos o' sur \<Rightarrow> (case val o' of TypeVal t \<Rightarrow> Some t | _ \<Rightarrow> None)
             | _ \<Rightarrow> None) of
         Some t \<Rightarrow> returnM t
       | None \<Rightarrow>
           if LINTER_MODE h then returnM TYPE_Error
           else panicM (ParseError obj (''Unable to resolve type: '' @ ToString h obj)))"

definition parseCatch :: "'g Host \<Rightarrow> (Object \<Rightarrow> (Expr, 'g) M) \<Rightarrow> Object \<Rightarrow> (CatchExpr, 'g) M" where
  "parseCatch h P obj =
     bindM (assertSeq obj) (\<lambda>o'.
       let seq = Rest o' in
       if IsEmpty seq \<or> IsEmpty (Rest seq)
       then panicM (ParseError obj
              ''catch requires at least two arguments: type symbol and binding symbol'')
       else
         (let excSym = Second seq in
          bindM (resolveType h P (First seq)) (\<lambda>excTy.
            if \<not> IsSymbol excSym
            then panicM (ParseError excSym
                   (''Bad binding form, expected symbol, got: '' @ ToString h excSym))
            else
              bindM (modifyM (PushLocalFrame h [excSym])) (\<lambda>_.
                deferM PopLocalFrame
                  (bindM (parseBody h P (Rest (Rest seq))) (\<lambda>b.
                     returnM (CatchExpr (GetPosition obj) excTy excSym b)))))))"

definition parseFinally :: "'g Host \<Rightarrow> (Object \<Rightarrow> (Expr, 'g) M) \<Rightarrow> Object \<Rightarrow> (Expr list, 'g) M" where
  "parseFinally h P body = parseBody h P body"

datatype lastType = Regular | Catch | Finally

fun parseTry_loop :: "'g Host \<Rightarrow> (Object \<Rightarrow> (Expr, 'g) M) \<Rightarrow> Object list \<Rightarrow> lastType \<Rightarrow> TryExpr
    \<Rightarrow> (TryExpr, 'g) M" where
  "parseTry_loop h P [] lt res = returnM res"
| "parseTry_loop h P (obj # seq) lt res =
     (if lt = Finally
      then panicM (ParseError obj ''finally clause must be last in try expression'')
      else if isCatch obj then
        bindM (parseCatch h P obj) (\<lambda>c.
          parseTry_loop h P seq Catch
            (TryExpr (try_pos res) (try_body res) (catches res @ [c]) (finallyExpr res)))
      else if isFinally obj then
        bindM (assertSeq obj) (\<lambda>o'.
        bindM (parseFinally h P (Rest o')) (\<lambda>f.
          parseTry_loop h P seq Finally
            (TryExpr (try_pos res) (try_body res) (catches res) (Some f))))
      else if lt = Catch
      then panicM (ParseError obj
             ''Only catch or finally clause can follow catch in try expression'')
      else
        bindM (P obj) (\<lambda>e.
          parseTry_loop h P seq lt
            (TryExpr (try_pos res) (try_body res @ [e]) (catches res) (finallyExpr res))))"

text \<open>
  The linter block that ends \<^verbatim>\<open>parseTry\<close>. The source reuses the variable \<^verbatim>\<open>obj\<close> for
  the child at hand, so after the loop it is the last child (\<open>lastObj\<close>).
\<close>

definition tryWarnings :: "'g Host \<Rightarrow> TryExpr \<Rightarrow> Object \<Rightarrow> 'g ParseContext \<Rightarrow> 'g ParseContext" where
  "tryWarnings h res lastObj s =
     (if LINTER_MODE h then
        (let s1 = (if try_body res = []
                   then printParseWarning (try_pos res) ''try form with empty body'' s else s);
             s2 = (if catches res = [] \<and> finallyExpr res = None
                   then printParseWarning (try_pos res) ''try form without catch or finally'' s1
                   else s1)
         in if finallyExpr res = Some []
            then printParseWarning (GetPosition lastObj) ''finally form with empty body'' s2
            else s2)
      else s)"

definition parseTry :: "'g Host \<Rightarrow> (Object \<Rightarrow> (Expr, 'g) M) \<Rightarrow> Object \<Rightarrow> (TryExpr, 'g) M" where
  "parseTry h P obj =
     bindM (assertSeq obj) (\<lambda>o' s.
       deferM (\<lambda>s'. s'\<lparr>noRecurAllowed := noRecurAllowed s\<rparr>)
         (bindM (parseTry_loop h P (elems (Rest o')) Regular (TryExpr (GetPosition obj) [] [] None))
            (\<lambda>res.
               bindM (modifyM (tryWarnings h res
                        (if elems (Rest o') = [] then obj else last (elems (Rest o')))))
                 (\<lambda>_. returnM res)))
         (s\<lparr>noRecurAllowed := True\<rparr>))"

section \<open>let, loop, letfn\<close>

definition bindingName :: "'g Host \<Rightarrow> Object \<Rightarrow> (Object, 'g) M" where
  "bindingName h sy =
     (if IsSymbol sy then
        (if sym_ns sy \<noteq> None then
           (if LINTER_MODE h then
              bindM (modifyM (printParseError (GetPosition sy)
                               (''Can't let qualified name: '' @ ToString h sy)))
                (\<lambda>_. returnM sy)
            else panicM (ParseError sy (''Can't let qualified name: '' @ ToString h sy)))
         else returnM sy)
      else if LINTER_MODE h then generateSymbolM h ''linter''
      else panicM (ParseError sy (''Unsupported binding form: '' @ ToString h sy)))"

definition addLocalBinding ::
  "'g Host \<Rightarrow> Object \<Rightarrow> nat \<Rightarrow> bool \<Rightarrow> Type option \<Rightarrow> 'g ParseContext \<Rightarrow> 'g ParseContext" where
  "addLocalBinding h nm i skipUnused ity s =
     (case localBindings s of
        None \<Rightarrow> s
      | Some b \<Rightarrow>
          (case AddBinding h nm i skipUnused ity b s of
             (b', s') \<Rightarrow> s'\<lparr>localBindings := Some b'\<rparr>))"

text \<open>
  The first loop of \<^verbatim>\<open>parseLetLoop\<close> over the pairs of the binding vector (the count
  is even when it runs): \<open>i\<close> is the index of the pair at hand.
\<close>

fun parseLetLoop_bindings ::
  "'g Host \<Rightarrow> (Object \<Rightarrow> (Expr, 'g) M) \<Rightarrow> string \<Rightarrow> bool \<Rightarrow> Object list \<Rightarrow> nat \<Rightarrow> Object list
     \<Rightarrow> Expr list \<Rightarrow> (Object list \<times> Expr list, 'g) M" where
  "parseLetLoop_bindings h P formName skipUnused (sy # v # rest) i names vals =
     bindM (bindingName h sy) (\<lambda>nm.
       if formName \<noteq> ''letfn'' then
         bindM (P v) (\<lambda>e.
         bindM (modifyM (addLocalBinding h nm i skipUnused
                          (if LINTER_MODE h then InferType h e else None))) (\<lambda>_.
           parseLetLoop_bindings h P formName skipUnused rest (i + 1) (names @ [nm]) (vals @ [e])))
       else
         bindM (modifyM (addLocalBinding h nm i skipUnused None)) (\<lambda>_.
           parseLetLoop_bindings h P formName skipUnused rest (i + 1) (names @ [nm]) vals))"
| "parseLetLoop_bindings h P formName skipUnused rest i names vals = returnM (names, vals)"

fun odd_elems :: "'a list \<Rightarrow> 'a list" where
  "odd_elems (x # y # rest) = y # odd_elems rest"
| "odd_elems rest = []"

definition letWarnings :: "'g Host \<Rightarrow> Object \<Rightarrow> string \<Rightarrow> bool \<Rightarrow> Expr list \<Rightarrow> 'g ParseContext
    \<Rightarrow> 'g ParseContext" where
  "letWarnings h obj formName skipUnused b s =
     (if LINTER_MODE h then
        (let s1 = (if length b = 0
                   then printParseWarning (GetPosition obj) (formName @ '' form with empty body'') s
                   else s)
         in if \<not> skipUnused then
              (let unused = sort_key sym_name
                     (map (\<lambda>kb. b_name (snd kb))
                        (filter (\<lambda>kb. needsUnusedWarning (snd kb))
                           (case localBindings s1 of None \<Rightarrow> [] | Some fr \<Rightarrow> bindings fr)))
               in foldl (\<lambda>st u. printParseWarning (GetPosition u)
                                  (''unused binding: '' @ ToString h u) st) s1 unused)
            else s1)
      else s)"

definition parseLetLoop ::
  "'g Host \<Rightarrow> (Object \<Rightarrow> (Expr, 'g) M) \<Rightarrow> Object \<Rightarrow> string \<Rightarrow> (Position \<times> Object list \<times> Expr list \<times> Expr list, 'g) M" where
  "parseLetLoop h P obj formName =
     bindM (assertSeq obj) (\<lambda>seq.
       let bnds = Second seq in
       if \<not> IsVector bnds
       then panicM (ParseError obj (formName @ '' requires a vector for its bindings''))
       else if length (vec_elems bnds) mod 2 \<noteq> 0
       then panicM (ParseError bnds
              (formName @ '' requires an even number of forms in binding vector''))
       else
         bindM (modifyM (\<lambda>s.
             if LINTER_MODE h \<and> formName \<noteq> ''loop'' \<and> length (vec_elems bnds) = 0
             then printParseWarning (GetPosition obj) (formName @ '' form with empty bindings vector'') s
             else s)) (\<lambda>_.
         bindM (modifyM PushEmptyLocalFrame) (\<lambda>_.
         deferM PopLocalFrame
           (bindM (parseLetLoop_bindings h P formName (isSkipUnused bnds) (vec_elems bnds) 0 [] [])
              (\<lambda>(names, vals0).
            bindM (if formName = ''letfn'' then parseSeq_loop P (odd_elems (vec_elems bnds)) []
                   else returnM vals0) (\<lambda>vals.
              let rest = bindM (parseBody h P (Rest (Rest seq))) (\<lambda>b.
                         bindM (modifyM (letWarnings h obj formName (isSkipUnused bnds) b)) (\<lambda>_.
                           returnM (GetPosition obj, names, vals, b)))
              in if formName = ''loop'' then
                   bindM (modifyM (PushLoopBindings names)) (\<lambda>_.
                     deferM PopLoopBindings (\<lambda>s.
                       deferM (\<lambda>s'. s'\<lparr>noRecurAllowed := noRecurAllowed s\<rparr>) rest
                         (s\<lparr>noRecurAllowed := False\<rparr>)))
                 else rest))))))"

definition parseLet :: "'g Host \<Rightarrow> (Object \<Rightarrow> (Expr, 'g) M) \<Rightarrow> Object \<Rightarrow> (Expr, 'g) M" where
  "parseLet h P obj =
     bindM (parseLetLoop h P obj ''let'') (\<lambda>(pos, names, vals, b). returnM (LetExpr pos names vals b))"

definition parseLoop :: "'g Host \<Rightarrow> (Object \<Rightarrow> (Expr, 'g) M) \<Rightarrow> Object \<Rightarrow> (Expr, 'g) M" where
  "parseLoop h P obj =
     bindM (parseLetLoop h P obj ''loop'') (\<lambda>(pos, names, vals, b). returnM (LoopExpr pos names vals b))"

definition parseLetfn :: "'g Host \<Rightarrow> (Object \<Rightarrow> (Expr, 'g) M) \<Rightarrow> Object \<Rightarrow> (Expr, 'g) M" where
  "parseLetfn h P obj =
     bindM (parseLetLoop h P obj ''letfn'') (\<lambda>(pos, names, vals, b). returnM (LoopExpr pos names vals b))"

section \<open>Macro expansion\<close>

definition resolveMacro :: "'g Host \<Rightarrow> Object \<Rightarrow> (nat option, 'g) M" where
  "resolveMacro h obj s =
     (if IsSymbol obj then
        (if GetLocalBinding s obj \<noteq> None then (Return None, s)
         else
           (case Resolve h (GlobalEnv s) obj of
              None \<Rightarrow> (Return None, s)
            | Some vr \<Rightarrow>
                if \<not> var_isMacro h (GlobalEnv s) vr \<or> \<not> var_hasValue h (GlobalEnv s) vr
                then (Return None, s)
                else
                  (let s1 = s\<lparr>GlobalEnv := setVarUsed h vr (GlobalEnv s)\<rparr> in
                   case var_ns h (GlobalEnv s1) vr of
                     None \<Rightarrow>
                       (Panic (ParseError obj
                          (''No namespace for '' @ var_nameString h (GlobalEnv s1) vr)), s1)
                   | Some n \<Rightarrow>
                       (Return (Some vr), s1\<lparr>GlobalEnv := setNsUsed h n (GlobalEnv s1)\<rparr>))))
      else (Return None, s))"

fun isContainerVal :: "Val \<Rightarrow> bool" where
  "isContainerVal (ListVal xs) = True"
| "isContainerVal (VectorVal xs) = True"
| "isContainerVal (ArrayMapVal kvs) = True"
| "isContainerVal _ = False"

primrec fixInfo :: "Position option \<Rightarrow> Object \<Rightarrow> Object"
  and fixInfo_val :: "Position option \<Rightarrow> Val \<Rightarrow> Val" where
  "fixInfo info (Object i m v) =
     Object (if isContainerVal v then (case i of Some oi \<Rightarrow> Some oi | None \<Rightarrow> info) else i) m
       (fixInfo_val info v)"
| "fixInfo_val info NilVal = NilVal"
| "fixInfo_val info (BooleanVal b) = BooleanVal b"
| "fixInfo_val info (IntVal n) = IntVal n"
| "fixInfo_val info (StringVal str) = StringVal str"
| "fixInfo_val info (CharVal c) = CharVal c"
| "fixInfo_val info (KeywordVal n k) = KeywordVal n k"
| "fixInfo_val info (SymbolVal n k) = SymbolVal n k"
| "fixInfo_val info (ListVal xs) = ListVal (map (fixInfo info) xs)"
| "fixInfo_val info (VectorVal xs) = VectorVal (map (fixInfo info) xs)"
| "fixInfo_val info (ArrayMapVal kvs) = ArrayMapVal (map (map_prod (fixInfo info) (fixInfo info)) kvs)"
| "fixInfo_val info (MapSetVal xs) = MapSetVal xs"
| "fixInfo_val info (TypeVal t) = TypeVal t"
| "fixInfo_val info (VarVal v) = VarVal v"

text \<open>
  \<^verbatim>\<open>macroexpand1\<close> returns the sequence itself when its head is no macro, and
  \<^verbatim>\<open>parseList\<close> compares the result with its input by identity. A macro's result has
  been through \<^verbatim>\<open>fixInfo\<close> and is never the identical object, so the model returns
  \<open>None\<close> for "the input itself" and \<open>Some\<close> for an expansion.
\<close>

definition macroexpand1 :: "'g Host \<Rightarrow> Object \<Rightarrow> (Object option, 'g) M" where
  "macroexpand1 h seq =
     bindM (resolveMacro h (First seq)) (\<lambda>vr.
       case vr of
         Some v \<Rightarrow> (\<lambda>s.
           case EvalMacro h v seq (localBindings s) (GlobalEnv s) of
             (Return obj', g') \<Rightarrow> (Return (Some (fixInfo (GetInfo seq) obj')), s\<lparr>GlobalEnv := g'\<rparr>)
           | (Panic e, g') \<Rightarrow> (Panic e, s\<lparr>GlobalEnv := g'\<rparr>)
           | (Diverge, g') \<Rightarrow> (Diverge, s\<lparr>GlobalEnv := g'\<rparr>))
       | None \<Rightarrow> returnM None)"

section \<open>Lists: special forms and calls\<close>

definition isCreatedByMacro :: "'g Host \<Rightarrow> Object \<Rightarrow> (bool, 'g) M" where
  "isCreatedByMacro h formSeq =
     (case GetInfo (First formSeq) of
        None \<Rightarrow> panicM (RuntimePanic ''invalid memory address or nil pointer dereference'')
      | Some info \<Rightarrow> returnM (filename info = Some (STR_coreFilename (STR_names h))))"

definition doWarnings :: "'g Host \<Rightarrow> Position \<Rightarrow> Expr list \<Rightarrow> 'g ParseContext \<Rightarrow> 'g ParseContext" where
  "doWarnings h pos b s =
     (if LINTER_MODE h then
        (if length b = 0 then printParseWarning pos ''do form with empty body'' s
         else if length b = 1 then printParseWarning pos ''redundant do form'' s
         else s)
      else s)"

text \<open>
  The call path of \<^verbatim>\<open>parseList\<close> (\<open>current\<close> is the saved
  \<^verbatim>\<open>currentIsUnknownCallableScope\<close>, which it starts by writing back). Outside linter
  mode \<^verbatim>\<open>isUnknownCallable\<close> is false and no check runs; in linter mode the host carries on
  from the parsed callable.
\<close>

definition parseCall ::
  "'g Host \<Rightarrow> (Object \<Rightarrow> (Expr, 'g) M) \<Rightarrow> Object \<Rightarrow> bool \<Rightarrow> (Expr, 'g) M" where
  "parseCall h P obj current =
     bindM (modifyM (\<lambda>s. s\<lparr>isUnknownCallableScope := current\<rparr>)) (\<lambda>_.
     bindM (P (First obj)) (\<lambda>callable.
       if LINTER_MODE h then linterCall h P obj callable
       else
         bindM (modifyM (\<lambda>s. s\<lparr>isUnknownCallableScope := False\<rparr>)) (\<lambda>_.
         bindM (parseSeq P (Rest obj)) (\<lambda>args.
           returnM (CallExpr (GetPosition obj) callable args)))))"

text \<open>
  The \<^verbatim>\<open>switch\<close> of \<^verbatim>\<open>parseList\<close> on the head symbol's name, in the order of its cases,
  and the fall-through to the call path.
\<close>

definition parseList_dispatch ::
  "'g Host \<Rightarrow> (Object \<Rightarrow> (Expr, 'g) M) \<Rightarrow> Object \<Rightarrow> bool \<Rightarrow> (Expr, 'g) M" where
  "parseList_dispatch h P obj current =
     (let pos = GetPosition obj; first = First obj; nm = sym_name first;
          call = parseCall h P obj current
      in
      if IsSymbol first \<and> sym_ns first = None then
        (if nm = STR_quote (STR_names h) then returnM (NewLiteralExpr (Second obj))
         else if nm = STR_if (STR_names h) then
           bindM (checkForm h obj 3 4) (\<lambda>_.
           bindM (modifyM (\<lambda>s.
               if LINTER_MODE h \<and> SeqCount obj < 4 \<and> ifWithoutElse (WARNINGS h)
               then printParseWarning pos ''missing else branch'' s else s)) (\<lambda>_.
           bindM (P (Second obj)) (\<lambda>c.
           bindM (P (Third obj)) (\<lambda>p.
           bindM (P (Fourth obj)) (\<lambda>n.
             returnM (IfExpr pos c p n))))))
         else if nm = STR_fn' (STR_names h) then parseFn h P obj
         else if nm = STR_let' (STR_names h) then parseLet h P obj
         else if nm = STR_letfn' (STR_names h) then parseLetfn h P obj
         else if nm = STR_loop' (STR_names h) then parseLoop h P obj
         else if nm = STR_recur (STR_names h) then parseRecur h P obj
         else if nm = STR_setMacro' (STR_names h) then parseSetMacro h P obj
         else if nm = STR_def (STR_names h) then parseDef h P obj False
         else if nm = STR_defLinter (STR_names h) then parseDef h P obj True
         else if nm = STR_var (STR_names h) then parseVar h P obj
         else if nm = STR_do (STR_names h) then
           bindM (parseBody h P (Rest obj)) (\<lambda>b.
           bindM (isCreatedByMacro h obj) (\<lambda>byMacro.
           bindM (modifyM (doWarnings h pos b)) (\<lambda>_.
             returnM (DoExpr pos b byMacro))))
         else if nm = STR_throw (STR_names h) then
           bindM (P (Second obj)) (\<lambda>e. returnM (ThrowExpr pos e))
         else if nm = STR_try (STR_names h) then
           bindM (parseTry h P obj) (\<lambda>t. returnM (TryExprE t))
         else call)
      else call)"

definition parseList :: "'g Host \<Rightarrow> (Object \<Rightarrow> (Expr, 'g) M) \<Rightarrow> Object \<Rightarrow> (Expr, 'g) M" where
  "parseList h P obj =
     bindM (assertSeq obj) (\<lambda>seq.
     bindM (macroexpand1 h seq) (\<lambda>expanded.
       case expanded of
         Some obj' \<Rightarrow> P obj'
       | None \<Rightarrow>
           if IsEmpty seq then returnM (NewLiteralExpr obj)
           else (\<lambda>s.
             deferM (\<lambda>s'. s'\<lparr>isUnknownCallableScope := isUnknownCallableScope s\<rparr>)
               (parseList_dispatch h P obj (isUnknownCallableScope s))
               (s\<lparr>isUnknownCallableScope := False\<rparr>))))"

section \<open>Symbols\<close>

fun Split :: "string \<Rightarrow> char \<Rightarrow> string list" where
  "Split [] c = [[]]"
| "Split (x # xs) c =
     (if x = c then [] # Split xs c
      else (case Split xs c of p # ps \<Rightarrow> (x # p) # ps | [] \<Rightarrow> [[x]]))"

fun Join :: "string list \<Rightarrow> string \<Rightarrow> string" where
  "Join [] sep = []"
| "Join [p] sep = p"
| "Join (p # q # ps) sep = p @ sep @ Join (q # ps) sep"

definition HasSuffix :: "string \<Rightarrow> string \<Rightarrow> bool" where
  "HasSuffix str p = (length p \<le> length str \<and> drop (length str - length p) str = p)"

definition isInteropSymbol :: "Object \<Rightarrow> bool" where
  "isInteropSymbol smb =
     (sym_ns smb = None \<and>
      (HasPrefix (sym_name smb) ''.'' \<or> HasSuffix (sym_name smb) ''.''
         \<or> CHR ''$'' \<in> set (sym_name smb)))"

definition isJavaSymbol :: "'g Host \<Rightarrow> Object \<Rightarrow> bool" where
  "isJavaSymbol h smb =
     fullClassNameRe h (case sym_ns smb of Some n \<Rightarrow> n | None \<Rightarrow> sym_name smb)"

definition InternFakeSymbol :: "'g Host \<Rightarrow> nat option \<Rightarrow> Object \<Rightarrow> 'g \<Rightarrow> nat \<times> 'g" where
  "InternFakeSymbol h ns smb g =
     (case ns of
        Some n \<Rightarrow> InternFake h n (Object None None (SymbolVal None (sym_name smb))) g
      | None \<Rightarrow>
          InternFake h (CurrentNamespace h g) (Object None None (SymbolVal None (ToString h smb))) g)"

definition MakeVarRefExpr :: "'g Host \<Rightarrow> nat \<Rightarrow> Object \<Rightarrow> (Expr, 'g) M" where
  "MakeVarRefExpr h vr obj s =
     (let g1 = setVarUsed h vr (GlobalEnv s) in
      case var_ns h g1 vr of
        None \<Rightarrow>
          (Panic (RuntimePanic ''invalid memory address or nil pointer dereference''),
           s\<lparr>GlobalEnv := g1\<rparr>)
      | Some n \<Rightarrow> (Return (VarRefExpr (GetPosition obj) vr), s\<lparr>GlobalEnv := setNsUsed h n g1\<rparr>))"

text \<open>The end of \<^verbatim>\<open>parseSymbol\<close>, from \<^verbatim>\<open>symNs := ...\<close> on (linter mode only).\<close>

definition parseSymbol_fake :: "'g Host \<Rightarrow> Object \<Rightarrow> (Expr, 'g) M" where
  "parseSymbol_fake h obj s =
     (let g = GlobalEnv s;
          symNs = NamespaceFor h g (CurrentNamespace h g) obj
      in
      if (symNs = None \<or> symNs = Some (CurrentNamespace h g))
          \<and> (isInteropSymbol obj \<or> isJavaSymbol h obj)
      then (Return (NewSurrogateExpr obj), s)
      else
        (let s1 =
           (if (symNs = None \<or> symNs = Some (CurrentNamespace h g))
                \<and> \<not> isUnknownCallableScope s \<and> GetBinding (linterBindings s) obj = None
            then printParseError (GetPosition obj)
                   (''Unable to resolve symbol: '' @ ToString h obj) s
            else s)
         in case InternFakeSymbol h symNs obj (GlobalEnv s1) of
              (vr, g') \<Rightarrow> MakeVarRefExpr h vr obj (s1\<lparr>GlobalEnv := g'\<rparr>)))"

text \<open>
  \<^verbatim>\<open>parseSymbol\<close>. It calls itself on a symbol that \<^verbatim>\<open>MakeSymbol\<close> builds from a
  shortened name; \<^verbatim>\<open>MakeSymbol\<close> belongs to the object model, so the recursion is
  bounded by fuel.
\<close>

fun parseSymbol :: "'g Host \<Rightarrow> nat \<Rightarrow> Object \<Rightarrow> (Expr, 'g) M" where
  "parseSymbol h 0 obj = (\<lambda>s. (Diverge, s))"
| "parseSymbol h (Suc n) obj = (\<lambda>s.
     if \<not> IsSymbol obj then (Panic (RuntimePanic ''interface conversion: Object is not Symbol''), s)
     else
     (case GetLocalBinding s obj of
        Some b \<Rightarrow>
          (Return (BindingExpr (GetPosition obj) (b\<lparr>isUsed := True\<rparr>)),
           s\<lparr>localBindings := map_option (\<lambda>env. markUsed_frame env obj) (localBindings s)\<rparr>)
      | None \<Rightarrow>
        (case Resolve h (GlobalEnv s) obj of
           Some vr \<Rightarrow> MakeVarRefExpr h vr obj s
         | None \<Rightarrow>
           (case (if sym_ns obj = None then TYPES h (sym_name obj) else None) of
              Some t \<Rightarrow> (Return (LiteralExpr (GetPosition obj) (Object None None (TypeVal t)) False), s)
            | None \<Rightarrow>
              if \<not> LINTER_MODE h
              then (Panic (ParseError obj (''Unable to resolve symbol: '' @ ToString h obj)), s)
              else if DIALECT_CLJS h \<and> sym_ns obj = None then
                (case (case FindNamespace h (GlobalEnv s) obj of
                         Some ns \<Rightarrow> Some ns
                       | None \<Rightarrow>
                           ns_alias h (GlobalEnv s) (CurrentNamespace h (GlobalEnv s)) (sym_name obj)) of
                   Some ns \<Rightarrow>
                     (Return (NewSurrogateExpr obj), s\<lparr>GlobalEnv := setNsUsed h ns (GlobalEnv s)\<rparr>)
                 | None \<Rightarrow>
                     (let parts = Split (sym_name obj) (CHR ''.'') in
                      if length parts > 1 \<and> hd parts \<noteq> [] \<and> last parts \<noteq> []
                      then parseSymbol h n
                             (DeriveReadObject h obj (MakeSymbol h (Join (butlast parts) ''.''))) s
                      else
                        (case (if length parts = 2 \<and> hd parts \<noteq> [] \<and> last parts = []
                               then Resolve h (GlobalEnv s) (MakeSymbol h (hd parts)) else None) of
                           Some vr \<Rightarrow> MakeVarRefExpr h vr obj s
                         | None \<Rightarrow> parseSymbol_fake h obj s)))
              else parseSymbol_fake h obj s))))"

section \<open>The Parse root\<close>

definition withMeta :: "(Object \<Rightarrow> (Expr, 'g) M) \<Rightarrow> Object \<Rightarrow> Position \<Rightarrow> Expr \<Rightarrow> (Expr, 'g) M" where
  "withMeta P obj pos res =
     (case GetMeta obj of
        Some meta \<Rightarrow> bindM (parseMap P meta pos) (\<lambda>m. returnM (MetaExpr pos m res))
      | None \<Rightarrow> returnM res)"

text \<open>
  \<^verbatim>\<open>Parse\<close> dispatches on the variant and the sub-parsers call it back. Macro expansion
  re-enters it on an object the evaluator made, so it need not return: the fuel \<open>n\<close>
  bounds the depth of the calls, and a parse that uses it up is \<open>Diverge\<close>.
\<close>

fun Parse :: "'g Host \<Rightarrow> nat \<Rightarrow> Object \<Rightarrow> (Expr, 'g) M" where
  "Parse h 0 = (\<lambda>obj s. (Diverge, s))"
| "Parse h (Suc n) = (\<lambda>obj.
     let pos = GetPosition obj in
     case val obj of
       NilVal \<Rightarrow> returnM (NewLiteralExpr obj)
     | VectorVal xs \<Rightarrow> bindM (parseVector (Parse h n) xs pos) (withMeta (Parse h n) obj pos)
     | ArrayMapVal kvs \<Rightarrow>
         bindM (parseMap (Parse h n) kvs pos) (\<lambda>m. withMeta (Parse h n) obj pos (MapExprE m))
     | MapSetVal xs \<Rightarrow> bindM (parseSet (Parse h n) xs pos) (withMeta (Parse h n) obj pos)
     | ListVal xs \<Rightarrow> parseList h (Parse h n) obj
     | SymbolVal ns nm \<Rightarrow> parseSymbol h (Suc n) obj
     | _ \<Rightarrow> returnM (NewLiteralExpr obj))"

text \<open>\<^verbatim>\<open>TryParse\<close>: the boundary of a top-level form counts the problem and hands the error back.\<close>

definition TryParse :: "'g Host \<Rightarrow> nat \<Rightarrow> Object \<Rightarrow> 'g ParseContext \<Rightarrow> (error + Expr) outcome \<times> 'g ParseContext" where
  "TryParse h n obj s =
     (case Parse h n obj s of
        (Return e, s') \<Rightarrow> (Return (Inr e), s')
      | (Panic (RuntimePanic m), s') \<Rightarrow> (Panic (RuntimePanic m), s'\<lparr>PROBLEM_COUNT := PROBLEM_COUNT s' + 1\<rparr>)
      | (Panic e, s') \<Rightarrow> (Return (Inl e), s'\<lparr>PROBLEM_COUNT := PROBLEM_COUNT s' + 1\<rparr>)
      | (Diverge, s') \<Rightarrow> (Diverge, s'))"

section \<open>Whole-program warnings\<close>

text \<open>
  \<^verbatim>\<open>GLOBAL_ENV.Namespaces\<close> and \<^verbatim>\<open>ns.mappings\<close> are Go maps: a \<^verbatim>\<open>range\<close> over them visits the
  entries in an order that changes from run to run. The functions below take the
  namespaces as the list in which one run visits them, each with its mappings in visiting
  order. \<^verbatim>\<open>sort.Strings\<close> sorts bytewise, which is the order of \<open>string\<close> here.
\<close>

definition isIgnoredUnusedNamespace :: "'g Host \<Rightarrow> Namespace \<Rightarrow> bool" where
  "isIgnoredUnusedNamespace h ns =
     (case ignoredUnusedNamespaces (WARNINGS h) of
        None \<Rightarrow> False
      | Some st \<Rightarrow> list_ex (\<lambda>e. Equals e (ns_Name ns)) st)"

definition isEntryPointNs :: "'g Host \<Rightarrow> Namespace \<Rightarrow> bool" where
  "isEntryPointNs h ns = list_ex (\<lambda>e. Equals e (ns_Name ns)) (entryPoints (WARNINGS h))"

definition isRecordConstructor :: "Object \<Rightarrow> bool" where
  "isRecordConstructor smb =
     (sym_ns smb = None \<and> (HasPrefix (sym_name smb) ''->'' \<or> HasPrefix (sym_name smb) ''map->''))"

text \<open>\<^verbatim>\<open>isEntryPointVar\<close> is only reached for a var that its namespace \<open>ns\<close> owns.\<close>

definition isEntryPointVar :: "'g Host \<Rightarrow> Namespace \<Rightarrow> Var \<Rightarrow> bool" where
  "isEntryPointVar h ns vr =
     (isEntryPointNs h ns \<or>
      list_ex (\<lambda>e. Equals e (Object None None (SymbolVal (Some (sym_name (ns_Name ns))) (sym_name (v_name vr)))))
        (entryPoints (WARNINGS h)))"

definition lookupPosition :: "(string \<Rightarrow> Position option) \<Rightarrow> string \<Rightarrow> Position" where
  "lookupPosition positions nm = (case positions nm of Some p \<Rightarrow> p | None \<Rightarrow> zeroPosition)"

definition unusedNamespaceStep ::
  "'g Host \<Rightarrow> nat \<Rightarrow> string list \<times> (string \<Rightarrow> Position option) \<Rightarrow> Namespace
     \<Rightarrow> string list \<times> (string \<Rightarrow> Position option)" where
  "unusedNamespaceStep h cur acc ns =
     (if ns_ptr ns \<noteq> cur \<and> \<not> ns_isUsed ns \<and> \<not> isIgnoredUnusedNamespace h ns then
        (case GetInfo (ns_Name ns) of
           Some pos \<Rightarrow>
             if Filename pos \<noteq> ''<joker.core>'' \<and> Filename pos \<noteq> ''<user>''
             then (fst acc @ [ToString h (ns_Name ns)], (snd acc)(ToString h (ns_Name ns) \<mapsto> pos))
             else acc
         | None \<Rightarrow> acc)
      else acc)"

definition WarnOnUnusedNamespaces ::
  "'g Host \<Rightarrow> Namespace list \<Rightarrow> nat \<Rightarrow> 'g ParseContext \<Rightarrow> 'g ParseContext" where
  "WarnOnUnusedNamespaces h nss cur s =
     (case foldl (unusedNamespaceStep h cur) ([], Map.empty) nss of
        (names, positions) \<Rightarrow>
          foldl (\<lambda>st nm. printParseWarning (lookupPosition positions nm) (''unused namespace '' @ nm) st)
            s (sort names))"

definition globallyUnusedVarStep ::
  "'g Host \<Rightarrow> Namespace \<Rightarrow> string list \<times> (string \<Rightarrow> Position option) \<Rightarrow> string \<times> Var
     \<Rightarrow> string list \<times> (string \<Rightarrow> Position option)" where
  "globallyUnusedVarStep h ns acc kv =
     (let vr = snd kv in
      if v_ns vr = ns_ptr ns \<and> \<not> v_isGloballyUsed vr \<and> \<not> v_isPrivate vr
           \<and> \<not> isRecordConstructor (v_name vr) \<and> \<not> isEntryPointVar h ns vr then
        (case v_info vr of
           Some pos \<Rightarrow> (fst acc @ [Var_Name h vr], (snd acc)(Var_Name h vr \<mapsto> pos))
         | None \<Rightarrow> acc)
      else acc)"

definition WarnOnGloballyUnusedVars ::
  "'g Host \<Rightarrow> Namespace list \<Rightarrow> nat \<Rightarrow> 'g ParseContext \<Rightarrow> 'g ParseContext" where
  "WarnOnGloballyUnusedVars h nss core s =
     (case foldl (\<lambda>acc ns. if ns_ptr ns = core then acc
                            else foldl (globallyUnusedVarStep h ns) acc (mappings ns))
             ([], Map.empty) nss of
        (names, positions) \<Rightarrow>
          foldl (\<lambda>st nm. printParseWarning (lookupPosition positions nm) (''globally unused var '' @ nm) st)
            s (sort names))"

section \<open>A concrete host and concrete forms\<close>

text \<open>
  The examples run the analyzer on a small host: the special-form names of the
  language, a registry (with no state) that resolves exactly the symbols of namespace
  \<^verbatim>\<open>user\<close> to the var 7 of namespace 1, one built-in type \<^verbatim>\<open>Error\<close>, no macros.
\<close>

definition jokerStr :: Str where
  "jokerStr =
     \<lparr>STR_if = ''if'', STR_quote = ''quote'', STR_fn' = ''fn*'', STR_let' = ''let*'',
      STR_letfn' = ''letfn*'', STR_loop' = ''loop*'', STR_recur = ''recur'',
      STR_setMacro' = ''set-macro__'', STR_def = ''def'', STR_defLinter = ''def-linter__'',
      STR_var = ''var'', STR_do = ''do'', STR_throw = ''throw'', STR_try = ''try'',
      STR_coreFilename = ''<joker.core>''\<rparr>"

definition exampleHost :: "bool \<Rightarrow> bool \<Rightarrow> unit Host" where
  "exampleHost linter elseWarning =
     \<lparr>LINTER_MODE = linter, DIALECT_CLJS = False,
      WARNINGS = \<lparr>ifWithoutElse = elseWarning, unusedFnParameters = False, fnWithEmptyBody = True,
                  ignoredUnusedNamespaces = None, entryPoints = []\<rparr>,
      STR_names = jokerStr,
      TYPES = (\<lambda>n. if n = ''Error'' then Some (Type ''Error'') else None),
      ToString = (\<lambda>ob. (case sym_ns ob of None \<Rightarrow> sym_name ob | Some n \<Rightarrow> n @ ''/'' @ sym_name ob)),
      generateSymbol = (\<lambda>prefix g. (MakeSymbolObj (prefix @ ''__1''), g)),
      Resolve = (\<lambda>g ob. if sym_ns ob = Some ''user'' then Some 7 else None),
      var_isMacro = (\<lambda>g v. False),
      var_hasValue = (\<lambda>g v. False),
      var_ns = (\<lambda>g v. Some 1),
      var_nameString = (\<lambda>g v. ''v''),
      Var_Name = (\<lambda>v. sym_name (v_name v)),
      setVarUsed = (\<lambda>v g. g),
      setNsUsed = (\<lambda>n g. g),
      CurrentNamespace = (\<lambda>g. 1),
      FindNamespace = (\<lambda>g ob. None),
      ns_alias = (\<lambda>g n a. None),
      NamespaceFor = (\<lambda>g n ob. None),
      InternFake = (\<lambda>n ob g. (8, g)),
      MakeSymbol = MakeSymbolObj,
      fullClassNameRe = (\<lambda>str. False),
      EvalMacro = (\<lambda>v ob b g. (Return ob, g)),
      DeriveReadObject = (\<lambda>ob n. Object (GetInfo ob) (GetMeta n) (val n)),
      parseDef = (\<lambda>P ob l. panicM (ParseError ob ''def'')),
      parseVar = (\<lambda>P ob. panicM (ParseError ob ''var'')),
      parseSetMacro = (\<lambda>P ob. panicM (ParseError ob ''set-macro__'')),
      InferType = (\<lambda>e. None),
      linterCall = (\<lambda>P ob callable.
        bindM (parseSeq P (Rest ob)) (\<lambda>args. returnM (CallExpr (GetPosition ob) callable args)))\<rparr>"

definition emptyContext :: "unit ParseContext" where
  "emptyContext =
     \<lparr>GlobalEnv = (), localBindings = None, loopBindings = [], linterBindings = None,
      recur = False, noRecurAllowed = False, isUnknownCallableScope = False,
      Stderr = [], PROBLEM_COUNT = 0\<rparr>"

definition at :: "string \<Rightarrow> nat \<Rightarrow> nat \<Rightarrow> Position option" where
  "at file line col =
     Some \<lparr>endLine = line, endColumn = col, startLine = line, startColumn = col,
           filename = Some file\<rparr>"

definition symb :: "string \<Rightarrow> Object" where
  "symb n = Object None None (SymbolVal None n)"

definition qsymb :: "string \<Rightarrow> string \<Rightarrow> Object" where
  "qsymb n k = Object None None (SymbolVal (Some n) k)"

definition num :: "int \<Rightarrow> Object" where
  "num k = Object None None (IntVal k)"

definition lst :: "Object list \<Rightarrow> Object" where
  "lst xs = Object None None (ListVal xs)"

definition vec :: "Object list \<Rightarrow> Object" where
  "vec xs = Object None None (VectorVal xs)"

section \<open>Properties stated about the analyzer\<close>

text \<open>
  The arities of a function: no two fixed arities of the same length, at most one
  variadic arity, and every fixed arity shorter than it. An \<^verbatim>\<open>FnExpr\<close> holds its variadic
  arity in a pointer; \<open>variadics\<close> reads it as a list of at most one.
\<close>

definition fn_arities_ok :: "FnArityExpr list \<Rightarrow> FnArityExpr list \<Rightarrow> bool" where
  "fn_arities_ok fixed vs =
     (distinct (map (\<lambda>a. length (arity_args a)) fixed) \<and> length vs \<le> 1 \<and>
      list_all (\<lambda>v. list_all (\<lambda>a. length (arity_args a) < length (arity_args v)) fixed) vs)"

definition variadics :: "FnExpr \<Rightarrow> FnArityExpr list" where
  "variadics fn = (case variadic fn of None \<Rightarrow> [] | Some v \<Rightarrow> [v])"

definition fn_ok :: "FnExpr \<Rightarrow> bool" where
  "fn_ok fn = fn_arities_ok (arities fn) (variadics fn)"

text \<open>The \<^verbatim>\<open>FnExpr\<close> that \<^verbatim>\<open>parseFn\<close> returns, bare or wrapped in a \<^verbatim>\<open>MetaExpr\<close>.\<close>

definition fnOf :: "Expr \<Rightarrow> FnExpr option" where
  "fnOf e = (case e of FnExprE fn \<Rightarrow> Some fn | MetaExpr pos m (FnExprE fn) \<Rightarrow> Some fn | _ \<Rightarrow> None)"

text \<open>
  The children of a \<^verbatim>\<open>try\<close> form read from the left: the regular expressions up to the
  first clause, then the catch clauses, then what is left.
\<close>

definition isRegular :: "Object \<Rightarrow> bool" where
  "isRegular x = (\<not> isCatch x \<and> \<not> isFinally x)"

definition try_regs :: "Object list \<Rightarrow> Object list" where
  "try_regs xs = takeWhile isRegular xs"

definition try_catches :: "Object list \<Rightarrow> Object list" where
  "try_catches xs = takeWhile isCatch (dropWhile isRegular xs)"

definition try_rest :: "Object list \<Rightarrow> Object list" where
  "try_rest xs = dropWhile isCatch (dropWhile isRegular xs)"

definition isReturn :: "'a outcome \<Rightarrow> bool" where
  "isReturn r = (case r of Return x \<Rightarrow> True | _ \<Rightarrow> False)"

text \<open>A parser that makes a literal of everything; it always returns.\<close>

definition literalParser :: "Object \<Rightarrow> (Expr, 'g) M" where
  "literalParser ob = returnM (NewLiteralExpr ob)"

text \<open>The names that \<^verbatim>\<open>parseList\<close> switches on, in the order of its cases.\<close>

definition formNames :: "Str \<Rightarrow> string list" where
  "formNames st =
     [STR_quote st, STR_if st, STR_fn' st, STR_let' st, STR_letfn' st, STR_loop' st,
      STR_recur st, STR_setMacro' st, STR_def st, STR_defLinter st, STR_var st, STR_do st,
      STR_throw st, STR_try st]"

text \<open>
  What the whole-program warnings say about one namespace or one var when they visit it:
  the name to warn about and its position, if it is to be warned about at all. For the
  vars, \<open>varVisits\<close> is the sequence of (namespace, var) pairs that the two nested loops
  visit; the namespace is paired without its mappings, so that two runs that differ only
  in the order of the mappings visit the same pairs.
\<close>

definition unusedNamespaceEntry :: "'g Host \<Rightarrow> nat \<Rightarrow> Namespace \<Rightarrow> (string \<times> Position) option" where
  "unusedNamespaceEntry h cur ns =
     (if ns_ptr ns \<noteq> cur \<and> \<not> ns_isUsed ns \<and> \<not> isIgnoredUnusedNamespace h ns then
        (case GetInfo (ns_Name ns) of
           Some pos \<Rightarrow>
             if Filename pos \<noteq> ''<joker.core>'' \<and> Filename pos \<noteq> ''<user>''
             then Some (ToString h (ns_Name ns), pos) else None
         | None \<Rightarrow> None)
      else None)"

definition globallyUnusedVarEntry :: "'g Host \<Rightarrow> Namespace \<times> Var \<Rightarrow> (string \<times> Position) option" where
  "globallyUnusedVarEntry h nv =
     (case nv of (ns, vr) \<Rightarrow>
        if v_ns vr = ns_ptr ns \<and> \<not> v_isGloballyUsed vr \<and> \<not> v_isPrivate vr
             \<and> \<not> isRecordConstructor (v_name vr) \<and> \<not> isEntryPointVar h ns vr then
          (case v_info vr of Some pos \<Rightarrow> Some (Var_Name h vr, pos) | None \<Rightarrow> None)
        else None)"

definition varVisits :: "nat \<Rightarrow> Namespace list \<Rightarrow> (Namespace \<times> Var) list" where
  "varVisits core nss =
     concat (map (\<lambda>ns. if ns_ptr ns = core then []
                       else map (\<lambda>kv. (ns\<lparr>mappings := []\<rparr>, snd kv)) (mappings ns)) nss)"

text \<open>The lines printed for the names \<open>names\<close>, each at the position recorded for it.\<close>

definition warningLines :: "string \<Rightarrow> (string \<times> Position) list \<Rightarrow> string list \<Rightarrow> string list" where
  "warningLines what entries names =
     map (\<lambda>nm. errorLine (lookupPosition (map_of (rev entries)) nm)
                  (''Parse warning: '' @ what @ nm)) names"

definition exampleNamespace :: "nat \<Rightarrow> string \<Rightarrow> (string \<times> Var) list \<Rightarrow> Namespace" where
  "exampleNamespace p n ms =
     \<lparr>ns_ptr = p, ns_Name = Object (at (n @ ''.clj'') 1 1) None (SymbolVal None n),
      ns_isUsed = False, ns_isGloballyUsed = False, mappings = ms\<rparr>"

definition exampleVar :: "nat \<Rightarrow> string \<Rightarrow> nat \<Rightarrow> Var" where
  "exampleVar p n line =
     \<lparr>v_ns = p, v_name = symb n, v_isUsed = False, v_isGloballyUsed = False,
      v_isPrivate = False, v_info = at ''a.clj'' line 1\<rparr>"

section \<open>Sequencing lemmas\<close>

lemma bindM_returnM [simp]: "bindM (returnM x) f = f x"
  by (rule ext) (simp add: bindM_def returnM_def)

lemma bindM_panicM [simp]: "bindM (panicM e) f = panicM e"
  by (rule ext) (simp add: bindM_def panicM_def)

lemma bindM_Return:
  "bindM m f s = (Return y, s') \<longleftrightarrow> (\<exists>x s1. m s = (Return x, s1) \<and> f x s1 = (Return y, s'))"
  by (auto simp: bindM_def split: prod.splits outcome.splits)

lemma deferM_Return:
  "deferM g m s = (Return y, s') \<longleftrightarrow> (\<exists>s1. m s = (Return y, s1) \<and> s' = g s1)"
  by (auto simp: deferM_def split: prod.splits)

lemma modifyM_Return [simp]: "modifyM f s = (Return u, s') \<longleftrightarrow> s' = f s"
  by (auto simp: modifyM_def)

lemma returnM_Return [simp]: "returnM x s = (Return y, s') \<longleftrightarrow> x = y \<and> s' = s"
  by (auto simp: returnM_def)

lemma panicM_Return [simp]: "panicM e s \<noteq> (Return y, s')"
  by (simp add: panicM_def)

lemma sum_case_Return:
  "(case x of Inl e \<Rightarrow> panicM e | Inr v \<Rightarrow> f v) s = (Return y, s') \<longleftrightarrow>
   (\<exists>v. x = Inr v \<and> f v s = (Return y, s'))"
  by (cases x) auto

lemma isReturn_obtain:
  assumes "isReturn (fst (m s))"
  obtains x s' where "m s = (Return x, s')"
  using assms by (cases "m s"; cases "fst (m s)") (auto simp: isReturn_def)

lemma seq_simps [simp]:
  "First (Object i m (ListVal (x # xs))) = x"
  "First (Object i m (ListVal [])) = NIL"
  "Rest (Object i m (ListVal xs)) = Object None None (ListVal (tl xs))"
  "SeqCount (Object i m (ListVal xs)) = length xs"
  by (simp_all add: First_def Rest_def SeqCount_def)

section \<open>Parameter vectors: a trailing \<^verbatim>\<open>&\<close>\<close>





section \<open>The arities of a function\<close>

lemma addArity_check_exact:
  assumes "fn_ok fn"
  shows "case addArity_check fn params arity isVariadic of
           Inr fn' \<Rightarrow>
             fn_ok fn' \<and>
             arities fn' = (if isVariadic then arities fn else arities fn @ [arity]) \<and>
             variadics fn' = (if isVariadic then variadics fn @ [arity] else variadics fn)
         | Inl err \<Rightarrow>
             (\<exists>msg. err = ParseError params msg) \<and>
             \<not> fn_arities_ok (if isVariadic then arities fn else arities fn @ [arity])
                  (if isVariadic then variadics fn @ [arity] else variadics fn)"
proof (cases isVariadic)
  case True
  show ?thesis
  proof (cases "variadic fn")
    case None
    with True assms show ?thesis
      by (auto simp: addArity_check_def fn_ok_def fn_arities_ok_def variadics_def
            list_ex_iff list_all_iff not_le) (meson not_less)
  next
    case (Some v)
    with True assms show ?thesis
      by (simp add: addArity_check_def fn_ok_def fn_arities_ok_def variadics_def)
  qed
next
  case False
  show ?thesis
  proof (cases "variadic fn")
    case None
    with False assms show ?thesis
      by (auto simp: addArity_check_def fn_ok_def fn_arities_ok_def variadics_def
            list_ex_iff list_all_iff image_iff) metis
  next
    case (Some v)
    with False assms show ?thesis
      by (auto simp: addArity_check_def fn_ok_def fn_arities_ok_def variadics_def
            list_ex_iff list_all_iff not_le image_iff) metis+
  qed
qed

lemma addArity_check_ok:
  "fn_ok fn \<Longrightarrow> addArity_check fn params arity v = Inr fn' \<Longrightarrow> fn_ok fn'"
  using addArity_check_exact [where fn = fn and params = params and arity = arity and isVariadic = v]
  by simp

lemma addArity_ok:
  assumes "addArity h P fn sig s = (Return fn', s')" "fn_ok fn"
  shows "fn_ok fn'"
  using assms
  by (auto simp: addArity_def Let_def bindM_Return deferM_Return sum_case_Return split: prod.splits
           dest: addArity_check_ok)

lemma parseFn_loop_ok:
  "parseFn_loop h P bodies fn s = (Return fn', s') \<Longrightarrow> fn_ok fn \<Longrightarrow> fn_ok fn'"
proof (induction bodies arbitrary: fn s)
  case Nil
  then show ?case by simp
next
  case (Cons b bodies)
  then show ?case
    by (auto simp: Let_def bindM_Return split: if_splits dest: addArity_ok)
qed

lemma wrapWithMeta_fnOf: "wrapWithMeta P fn obj s = (Return e, s') \<Longrightarrow> fnOf e = Some fn"
  by (auto simp: wrapWithMeta_def fnOf_def bindM_Return split: option.splits)

lemma parseFn_arities_ok:
  "parseFn_arities h P obj fn bodies p s = (Return e, s') \<Longrightarrow> fn_ok fn \<Longrightarrow>
   \<exists>fn'. fnOf e = Some fn' \<and> fn_ok fn'"
  by (auto simp: parseFn_arities_def bindM_Return split: if_splits
           dest: addArity_ok parseFn_loop_ok wrapWithMeta_fnOf)

lemma fn_ok_init: "fn_ok (FnExpr pos [] None sf)"
  by (simp add: fn_ok_def fn_arities_ok_def variadics_def)

lemma parseFn_ok:
  "parseFn h P obj s = (Return e, s') \<Longrightarrow> \<exists>fn'. fnOf e = Some fn' \<and> fn_ok fn'"
  by (auto simp: parseFn_def Let_def bindM_Return deferM_Return assertSeq_def split: if_splits
           dest!: parseFn_arities_ok [OF _ fn_ok_init])

lemma addArity_run:
  assumes pp: "parseParams h (First sig) s = (Return (args, v), s1)"
    and pb: "parseBody h P (Rest sig)
               ((PushLoopBindings args (PushLocalFrame h args s1))\<lparr>noRecurAllowed := False\<rparr>)
             = (Return b, s2)"
  shows "\<exists>s'. addArity h P fn sig s =
      (case addArity_check fn (First sig)
              (FnArityExpr (GetPosition sig) args b (getTaggedType h (First sig))) v of
         Inl err \<Rightarrow> Panic err
       | Inr fn' \<Rightarrow> Return fn', s')"
  using pp pb
  by (simp add: addArity_def Let_def bindM_def deferM_def modifyM_def returnM_def panicM_def
        split: sum.splits)

lemma addArity_exact:
  assumes ok: "fn_ok fn"
    and pp: "parseParams h (First sig) s = (Return (args, v), s1)"
    and pb: "parseBody h P (Rest sig)
               ((PushLoopBindings args (PushLocalFrame h args s1))\<lparr>noRecurAllowed := False\<rparr>)
             = (Return b, s2)"
    and ar: "arity = FnArityExpr (GetPosition sig) args b (getTaggedType h (First sig))"
  shows "if fn_arities_ok (if v then arities fn else arities fn @ [arity])
              (if v then variadics fn @ [arity] else variadics fn)
         then \<exists>fn' s'. addArity h P fn sig s = (Return fn', s') \<and>
                arities fn' = (if v then arities fn else arities fn @ [arity]) \<and>
                variadics fn' = (if v then variadics fn @ [arity] else variadics fn)
         else \<exists>msg s'. addArity h P fn sig s = (Panic (ParseError (First sig) msg), s')"
proof -
  from addArity_run [OF pp pb, of fn] obtain s' where
    run: "addArity h P fn sig s =
      (case addArity_check fn (First sig) arity v of
         Inl err \<Rightarrow> Panic err
       | Inr fn' \<Rightarrow> Return fn', s')"
    unfolding ar by blast
  show ?thesis
  proof (cases "addArity_check fn (First sig) arity v")
    case (Inl err)
    with addArity_check_exact [OF ok, where params = "First sig" and arity = arity and isVariadic = v]
    have "(\<exists>msg. err = ParseError (First sig) msg) \<and>
          \<not> fn_arities_ok (if v then arities fn else arities fn @ [arity])
               (if v then variadics fn @ [arity] else variadics fn)"
      by simp
    with run Inl show ?thesis by auto
  next
    case (Inr fn')
    with addArity_check_exact [OF ok, where params = "First sig" and arity = arity and isVariadic = v]
    have "fn_ok fn' \<and>
          arities fn' = (if v then arities fn else arities fn @ [arity]) \<and>
          variadics fn' = (if v then variadics fn @ [arity] else variadics fn)"
      by simp
    with run Inr show ?thesis by (auto simp: fn_ok_def)
  qed
qed

lemma parseFn_loop_append:
  "parseFn_loop h P pre fn s = (Return fn1, s1) \<Longrightarrow>
   parseFn_loop h P (pre @ xs) fn s = parseFn_loop h P xs fn1 s1"
proof (induction pre arbitrary: fn s)
  case Nil
  then show ?case by simp
next
  case (Cons b pre)
  from Cons.prems obtain fn' s' where
    sq: "IsSeq b" "IsVector (First b)" and
    a: "addArity h P fn b s = (Return fn', s')" and
    r: "parseFn_loop h P pre fn' s' = (Return fn1, s1)"
    by (auto simp: Let_def bindM_Return split: if_splits)
  from Cons.IH [OF r] sq a show ?case by (simp add: bindM_def)
qed

lemma parseFn_raises:
  assumes seq: "IsSeq obj"
    and bodies: "bodies = (if IsSymbol (Second obj) then Rest (Rest obj) else Rest obj)"
    and fn0: "fn0 = FnExpr (GetPosition obj) [] None
                (if IsSymbol (Second obj) then Some (Second obj) else None)"
    and s0: "s0 = (if IsSymbol (Second obj) then PushLocalFrame h [Second obj] s else s)"
    and multi: "\<not> IsVector (First bodies)"
    and split: "elems bodies = pre @ body # rest"
    and before: "parseFn_loop h P pre fn0 s0 = (Return fn1, s1)"
    and body: "IsSeq body" "IsVector (First body)"
    and pp: "parseParams h (First body) s1 = (Return (args, v), s2)"
    and pb: "parseBody h P (Rest body)
               ((PushLoopBindings args (PushLocalFrame h args s2))\<lparr>noRecurAllowed := False\<rparr>)
             = (Return b, s3)"
    and ar: "arity = FnArityExpr (GetPosition body) args b (getTaggedType h (First body))"
    and bad: "\<not> fn_arities_ok (if v then arities fn1 else arities fn1 @ [arity])
                (if v then variadics fn1 @ [arity] else variadics fn1)"
  shows "\<exists>msg s'. parseFn h P obj s = (Panic (ParseError (First body) msg), s')"
proof -
  have "fn_ok fn0" unfolding fn0 by (rule fn_ok_init)
  with before have ok1: "fn_ok fn1" by (rule parseFn_loop_ok)
  from addArity_exact [OF ok1 pp pb ar] bad obtain msg s4 where
    a: "addArity h P fn1 body s1 = (Panic (ParseError (First body) msg), s4)"
    by auto
  have "parseFn_loop h P (elems bodies) fn0 s0 = parseFn_loop h P (body # rest) fn1 s1"
    unfolding split by (rule parseFn_loop_append [OF before])
  with a body have loop: "parseFn_loop h P (elems bodies) fn0 s0
      = (Panic (ParseError (First body) msg), s4)"
    by (simp add: bindM_def)
  from split have ne: "\<not> IsEmpty bodies" by (simp add: IsEmpty_def)
  from loop multi ne have ar: "parseFn_arities h P obj fn0 bodies (First bodies) s0
      = (Panic (ParseError (First body) msg), s4)"
    by (simp add: parseFn_arities_def bindM_def)
  show ?thesis
  proof (cases "IsSymbol (Second obj)")
    case True
    with ar seq bodies fn0 s0 show ?thesis
      by (simp add: parseFn_def Let_def assertSeq_def bindM_def returnM_def modifyM_def
            deferM_def Second_def)
  next
    case False
    with ar seq bodies fn0 s0 show ?thesis
      by (simp add: parseFn_def Let_def assertSeq_def bindM_def returnM_def Second_def)
  qed
qed

text \<open>
  Claim C1. Whatever parser \<open>P\<close> the fn parser recurses with: when \<^verbatim>\<open>parseFn\<close> returns,
  the \<^verbatim>\<open>FnExpr\<close> it returns (bare or under a \<^verbatim>\<open>MetaExpr\<close>) has no two fixed arities with the
  same number of parameters, at most one variadic arity, and a variadic arity with
  strictly more parameters than every fixed one. The check that \<^verbatim>\<open>addArity\<close> makes on
  each arity is exact: on a well-formed \<^verbatim>\<open>FnExpr\<close> it adds the arity when the result is
  well-formed again, and otherwise gives a \<^verbatim>\<open>ParseError\<close> on the parameter vector.
  So does \<^verbatim>\<open>addArity\<close> itself: once the parameter vector and the body of an overload
  have parsed, it returns the \<^verbatim>\<open>FnExpr\<close> with the arity added when that is well-formed,
  and raises a \<^verbatim>\<open>ParseError\<close> on the parameter vector when it is not. And so does
  \<^verbatim>\<open>parseFn\<close>: in a form \<^verbatim>\<open>(fn name? overload ...)\<close>, when the overloads before \<open>body\<close>
  were accepted and \<open>body\<close>, whose parameter vector and body parse, breaks the rule,
  \<^verbatim>\<open>parseFn\<close> raises a \<^verbatim>\<open>ParseError\<close> on the parameter vector of \<open>body\<close>.
\<close>

theorem fn_arity_invariant:
  "(parseFn h P obj s = (Return e, s') \<longrightarrow> (\<exists>fn. fnOf e = Some fn \<and> fn_ok fn)) \<and>
   (fn_ok fn0 \<longrightarrow>
      (case addArity_check fn0 params arity isVariadic of
         Inr fn' \<Rightarrow>
           fn_ok fn' \<and>
           arities fn' = (if isVariadic then arities fn0 else arities fn0 @ [arity]) \<and>
           variadics fn' = (if isVariadic then variadics fn0 @ [arity] else variadics fn0)
       | Inl err \<Rightarrow>
           (\<exists>msg. err = ParseError params msg) \<and>
           \<not> fn_arities_ok (if isVariadic then arities fn0 else arities fn0 @ [arity])
                (if isVariadic then variadics fn0 @ [arity] else variadics fn0))) \<and>
   (fn_ok fn0 \<and>
    parseParams h (First sig) s = (Return (args, v), s1) \<and>
    parseBody h P (Rest sig)
      ((PushLoopBindings args (PushLocalFrame h args s1))\<lparr>noRecurAllowed := False\<rparr>)
      = (Return b, s2) \<and>
    ar = FnArityExpr (GetPosition sig) args b (getTaggedType h (First sig)) \<longrightarrow>
      (if fn_arities_ok (if v then arities fn0 else arities fn0 @ [ar])
            (if v then variadics fn0 @ [ar] else variadics fn0)
       then \<exists>fn' s''. addArity h P fn0 sig s = (Return fn', s'') \<and>
              arities fn' = (if v then arities fn0 else arities fn0 @ [ar]) \<and>
              variadics fn' = (if v then variadics fn0 @ [ar] else variadics fn0)
       else \<exists>msg s''. addArity h P fn0 sig s = (Panic (ParseError (First sig) msg), s''))) \<and>
   (IsSeq obj \<and>
    bodies = (if IsSymbol (Second obj) then Rest (Rest obj) else Rest obj) \<and>
    fnI = FnExpr (GetPosition obj) [] None
            (if IsSymbol (Second obj) then Some (Second obj) else None) \<and>
    sI = (if IsSymbol (Second obj) then PushLocalFrame h [Second obj] s else s) \<and>
    \<not> IsVector (First bodies) \<and>
    elems bodies = pre @ body # rest \<and>
    parseFn_loop h P pre fnI sI = (Return fn1, t1) \<and>
    IsSeq body \<and> IsVector (First body) \<and>
    parseParams h (First body) t1 = (Return (args1, v1), t2) \<and>
    parseBody h P (Rest body)
      ((PushLoopBindings args1 (PushLocalFrame h args1 t2))\<lparr>noRecurAllowed := False\<rparr>)
      = (Return b1, t3) \<and>
    ar1 = FnArityExpr (GetPosition body) args1 b1 (getTaggedType h (First body)) \<and>
    \<not> fn_arities_ok (if v1 then arities fn1 else arities fn1 @ [ar1])
         (if v1 then variadics fn1 @ [ar1] else variadics fn1) \<longrightarrow>
      (\<exists>msg s''. parseFn h P obj s = (Panic (ParseError (First body) msg), s'')))"
proof (intro conjI impI)
  assume "parseFn h P obj s = (Return e, s')"
  then show "\<exists>fn. fnOf e = Some fn \<and> fn_ok fn" by (rule parseFn_ok)
next
  assume "fn_ok fn0"
  then show "case addArity_check fn0 params arity isVariadic of
         Inr fn' \<Rightarrow>
           fn_ok fn' \<and>
           arities fn' = (if isVariadic then arities fn0 else arities fn0 @ [arity]) \<and>
           variadics fn' = (if isVariadic then variadics fn0 @ [arity] else variadics fn0)
       | Inl err \<Rightarrow>
           (\<exists>msg. err = ParseError params msg) \<and>
           \<not> fn_arities_ok (if isVariadic then arities fn0 else arities fn0 @ [arity])
                (if isVariadic then variadics fn0 @ [arity] else variadics fn0)"
    by (rule addArity_check_exact)
next
  assume a: "fn_ok fn0 \<and>
    parseParams h (First sig) s = (Return (args, v), s1) \<and>
    parseBody h P (Rest sig)
      ((PushLoopBindings args (PushLocalFrame h args s1))\<lparr>noRecurAllowed := False\<rparr>)
      = (Return b, s2) \<and>
    ar = FnArityExpr (GetPosition sig) args b (getTaggedType h (First sig))"
  then have ok: "fn_ok fn0"
    and pp: "parseParams h (First sig) s = (Return (args, v), s1)"
    and pb: "parseBody h P (Rest sig)
      ((PushLoopBindings args (PushLocalFrame h args s1))\<lparr>noRecurAllowed := False\<rparr>)
      = (Return b, s2)"
    and ar: "ar = FnArityExpr (GetPosition sig) args b (getTaggedType h (First sig))"
    by simp_all
  show "if fn_arities_ok (if v then arities fn0 else arities fn0 @ [ar])
            (if v then variadics fn0 @ [ar] else variadics fn0)
       then \<exists>fn' s''. addArity h P fn0 sig s = (Return fn', s'') \<and>
              arities fn' = (if v then arities fn0 else arities fn0 @ [ar]) \<and>
              variadics fn' = (if v then variadics fn0 @ [ar] else variadics fn0)
       else \<exists>msg s''. addArity h P fn0 sig s = (Panic (ParseError (First sig) msg), s'')"
    by (rule addArity_exact [OF ok pp pb ar])
next
  assume a: "IsSeq obj \<and>
    bodies = (if IsSymbol (Second obj) then Rest (Rest obj) else Rest obj) \<and>
    fnI = FnExpr (GetPosition obj) [] None
            (if IsSymbol (Second obj) then Some (Second obj) else None) \<and>
    sI = (if IsSymbol (Second obj) then PushLocalFrame h [Second obj] s else s) \<and>
    \<not> IsVector (First bodies) \<and>
    elems bodies = pre @ body # rest \<and>
    parseFn_loop h P pre fnI sI = (Return fn1, t1) \<and>
    IsSeq body \<and> IsVector (First body) \<and>
    parseParams h (First body) t1 = (Return (args1, v1), t2) \<and>
    parseBody h P (Rest body)
      ((PushLoopBindings args1 (PushLocalFrame h args1 t2))\<lparr>noRecurAllowed := False\<rparr>)
      = (Return b1, t3) \<and>
    ar1 = FnArityExpr (GetPosition body) args1 b1 (getTaggedType h (First body)) \<and>
    \<not> fn_arities_ok (if v1 then arities fn1 else arities fn1 @ [ar1])
         (if v1 then variadics fn1 @ [ar1] else variadics fn1)"
  from a show "\<exists>msg s''. parseFn h P obj s = (Panic (ParseError (First body) msg), s'')"
    by (elim conjE)
       (rule parseFn_raises [where bodies = bodies and ?fn0.0 = fnI and ?s0.0 = sI and pre = pre
          and rest = rest and ?fn1.0 = fn1 and ?s1.0 = t1 and args = args1 and v = v1
          and ?s2.0 = t2 and b = b1 and ?s3.0 = t3 and arity = ar1], assumption+)
qed

theorem fn_arity_invariant_witness:
  "(\<exists>e s'. parseFn (exampleHost False True) (Parse (exampleHost False True) 4)
        (lst [symb ''fn*'', symb ''f'', lst [vec [symb ''x''], symb ''x''],
              lst [vec [symb ''x'', symb ''y''], symb ''x''],
              lst [vec [symb ''x'', symb ''y'', symb ''&'', symb ''r'']]]) emptyContext
        = (Return e, s') \<and>
      (\<exists>fn. fnOf e = Some fn \<and> fn_ok fn \<and> length (arities fn) = 2 \<and> variadic fn \<noteq> None)) \<and>
   fn_ok (FnExpr zeroPosition [FnArityExpr zeroPosition [symb ''x''] [] None] None None) \<and>
   (\<exists>msg. addArity_check
             (FnExpr zeroPosition [FnArityExpr zeroPosition [symb ''x''] [] None] None None)
             (vec [symb ''y'']) (FnArityExpr zeroPosition [symb ''y''] [] None) False
           = Inl (ParseError (vec [symb ''y'']) msg)) \<and>
   (\<exists>msg s'. addArity (exampleHost False True) (Parse (exampleHost False True) 4)
        (FnExpr zeroPosition [FnArityExpr zeroPosition [symb ''x''] [] None] None None)
        (lst [vec [symb ''y''], symb ''y'']) emptyContext
      = (Panic (ParseError (vec [symb ''y'']) msg), s')) \<and>
   (\<exists>fn' s'. addArity (exampleHost False True) (Parse (exampleHost False True) 4)
        (FnExpr zeroPosition [FnArityExpr zeroPosition [symb ''x''] [] None] None None)
        (lst [vec [symb ''y'', symb ''z''], symb ''y'']) emptyContext
      = (Return fn', s') \<and> length (arities fn') = 2) \<and>
   (\<exists>msg s'. parseFn (exampleHost False True) (Parse (exampleHost False True) 4)
        (lst [symb ''fn*'', lst [vec [symb ''x''], symb ''x''], lst [vec [symb ''y''], symb ''y'']])
        emptyContext
      = (Panic (ParseError (vec [symb ''y'']) msg), s')) \<and>
   fst (Parse (exampleHost False True) 5
          (lst [symb ''fn*'', lst [vec [symb ''x''], symb ''x''], lst [vec [symb ''y''], symb ''y'']])
          emptyContext)
     = Panic (ParseError (vec [symb ''y'']) ''Can't have 2 overloads with same arity'')"
proof -
  let ?h = "exampleHost False True"
  let ?P = "Parse ?h 4"
  let ?form = "lst [symb ''fn*'', symb ''f'', lst [vec [symb ''x''], symb ''x''],
              lst [vec [symb ''x'', symb ''y''], symb ''x''],
              lst [vec [symb ''x'', symb ''y'', symb ''&'', symb ''r'']]]"
  let ?fn0 = "FnExpr zeroPosition [FnArityExpr zeroPosition [symb ''x''] [] None] None None"
  let ?bx = "lst [vec [symb ''x''], symb ''x'']"
  let ?by = "lst [vec [symb ''y''], symb ''y'']"
  let ?byz = "lst [vec [symb ''y'', symb ''z''], symb ''y'']"
  let ?dup = "lst [symb ''fn*'', ?bx, ?by]"
  let ?use = "\<lambda>n. BindingExpr zeroPosition
      \<lparr>b_name = symb n, b_index = 0, b_frame = 0, isUsed = True, inferredType = None\<rparr>"
  have "isReturn (fst (parseFn ?h ?P ?form emptyContext))"
    by code_simp
  then obtain e s' where ret: "parseFn ?h ?P ?form emptyContext = (Return e, s')"
    by (rule isReturn_obtain)
  have shape: "case fst (parseFn ?h ?P ?form emptyContext) of
                 Return (FnExprE fn) \<Rightarrow> length (arities fn) = 2 \<and> variadic fn \<noteq> None
               | _ \<Rightarrow> False"
    by code_simp
  from fn_arity_invariant [where h = ?h and P = ?P and obj = ?form
        and s = emptyContext and e = e and s' = s', THEN conjunct1] ret
  obtain fn where fn: "fnOf e = Some fn" "fn_ok fn" by blast
  from shape ret fn have "length (arities fn) = 2 \<and> variadic fn \<noteq> None"
    by (auto simp: fnOf_def split: Expr.splits)
  with ret fn have first: "\<exists>e s'. parseFn ?h ?P ?form emptyContext = (Return e, s') \<and>
      (\<exists>fn. fnOf e = Some fn \<and> fn_ok fn \<and> length (arities fn) = 2 \<and> variadic fn \<noteq> None)"
    by blast
  have ok0: "fn_ok ?fn0"
    by (simp add: fn_ok_def fn_arities_ok_def variadics_def)
  have isl: "isl (addArity_check ?fn0 (vec [symb ''y'']) (FnArityExpr zeroPosition [symb ''y''] [] None) False)"
    by (simp add: addArity_check_def)
  from fn_arity_invariant [where h = ?h and P = ?P and obj = ?form
        and s = emptyContext and e = e and s' = s' and ?fn0.0 = ?fn0
        and params = "vec [symb ''y'']"
        and arity = "FnArityExpr zeroPosition [symb ''y''] [] None" and isVariadic = False,
        THEN conjunct2, THEN conjunct1]
    ok0 isl
  have chk: "\<exists>msg. addArity_check ?fn0 (vec [symb ''y'']) (FnArityExpr zeroPosition [symb ''y''] [] None) False
           = Inl (ParseError (vec [symb ''y'']) msg)"
    by (auto simp: isl_def)
  \<comment> \<open>the overload \<open>([y] y)\<close> after \<open>([x] ...)\<close>\<close>
  have fy: "First ?by = vec [symb ''y'']" and py: "GetPosition ?by = zeroPosition"
    and ty: "getTaggedType ?h (vec [symb ''y'']) = None"
    by code_simp+
  have ppy: "parseParams ?h (First ?by) emptyContext = (Return ([symb ''y''], False), emptyContext)"
    by code_simp
  let ?sy = "(PushLoopBindings [symb ''y''] (PushLocalFrame ?h [symb ''y''] emptyContext))
      \<lparr>noRecurAllowed := False\<rparr>"
  have "fst (parseBody ?h ?P (Rest ?by) ?sy) = Return [?use ''y'']"
    by code_simp
  then have pby: "parseBody ?h ?P (Rest ?by) ?sy
      = (Return [?use ''y''], snd (parseBody ?h ?P (Rest ?by) ?sy))"
    by (simp add: prod_eq_iff)
  have bad0: "\<not> fn_arities_ok (arities ?fn0 @ [FnArityExpr zeroPosition [symb ''y''] [?use ''y''] None])
      (variadics ?fn0)"
    by (simp add: fn_arities_ok_def)
  from fn_arity_invariant [where h = ?h and P = ?P and obj = ?form
        and s = emptyContext and e = e and s' = s' and ?fn0.0 = ?fn0
        and sig = ?by and args = "[symb ''y'']" and v = False and ?s1.0 = emptyContext
        and b = "[?use ''y'']" and ?s2.0 = "snd (parseBody ?h ?P (Rest ?by) ?sy)"
        and ar = "FnArityExpr zeroPosition [symb ''y''] [?use ''y''] None",
        THEN conjunct2, THEN conjunct2, THEN conjunct1]
    ok0 ppy pby bad0
  have raise: "\<exists>msg s'. addArity ?h ?P ?fn0 ?by emptyContext
      = (Panic (ParseError (vec [symb ''y'']) msg), s')"
    by (simp add: fy py ty)
  \<comment> \<open>the overload \<open>([y z] y)\<close> after \<open>([x] ...)\<close>\<close>
  have fyz: "First ?byz = vec [symb ''y'', symb ''z'']" and pyz: "GetPosition ?byz = zeroPosition"
    and tyz: "getTaggedType ?h (vec [symb ''y'', symb ''z'']) = None"
    by code_simp+
  have ppyz: "parseParams ?h (First ?byz) emptyContext
      = (Return ([symb ''y'', symb ''z''], False), emptyContext)"
    by code_simp
  let ?syz = "(PushLoopBindings [symb ''y'', symb ''z'']
      (PushLocalFrame ?h [symb ''y'', symb ''z''] emptyContext))\<lparr>noRecurAllowed := False\<rparr>"
  have "fst (parseBody ?h ?P (Rest ?byz) ?syz) = Return [?use ''y'']"
    by code_simp
  then have pbyz: "parseBody ?h ?P (Rest ?byz) ?syz
      = (Return [?use ''y''], snd (parseBody ?h ?P (Rest ?byz) ?syz))"
    by (simp add: prod_eq_iff)
  have good0: "fn_arities_ok
      (arities ?fn0 @ [FnArityExpr zeroPosition [symb ''y'', symb ''z''] [?use ''y''] None])
      (variadics ?fn0)"
    by (simp add: fn_arities_ok_def variadics_def)
  from fn_arity_invariant [where h = ?h and P = ?P and obj = ?form
        and s = emptyContext and e = e and s' = s' and ?fn0.0 = ?fn0
        and sig = ?byz and args = "[symb ''y'', symb ''z'']" and v = False and ?s1.0 = emptyContext
        and b = "[?use ''y'']" and ?s2.0 = "snd (parseBody ?h ?P (Rest ?byz) ?syz)"
        and ar = "FnArityExpr zeroPosition [symb ''y'', symb ''z''] [?use ''y''] None",
        THEN conjunct2, THEN conjunct2, THEN conjunct1]
    ok0 ppyz pbyz good0
  have accept: "\<exists>fn' s'. addArity ?h ?P ?fn0 ?byz emptyContext = (Return fn', s') \<and>
      length (arities fn') = 2"
    by (simp add: fyz pyz tyz) (metis length_Cons list.size(3) numeral_2_eq_2)
  \<comment> \<open>the form \<open>(fn* ([x] x) ([y] y))\<close>\<close>
  let ?fn1 = "FnExpr zeroPosition [FnArityExpr zeroPosition [symb ''x''] [?use ''x''] None] None None"
  have d1: "IsSeq ?dup" and d2: "\<not> IsSymbol (Second ?dup)" and d3: "\<not> IsVector (First (Rest ?dup))"
    and d4: "elems (Rest ?dup) = [?bx] @ ?by # []" and d5: "GetPosition ?dup = zeroPosition"
    and d6: "IsSeq ?by" and d7: "IsVector (First ?by)"
    by code_simp+
  have d8: "parseFn_loop ?h ?P [?bx] (FnExpr zeroPosition [] None None) emptyContext
      = (Return ?fn1, emptyContext)"
    by code_simp
  have bad1: "\<not> fn_arities_ok (arities ?fn1 @ [FnArityExpr zeroPosition [symb ''y''] [?use ''y''] None])
      (variadics ?fn1)"
    by (simp add: fn_arities_ok_def)
  from fn_arity_invariant [where h = ?h and P = ?P and obj = ?dup
        and s = emptyContext and e = e and s' = s'
        and bodies = "Rest ?dup" and fnI = "FnExpr zeroPosition [] None None" and sI = emptyContext
        and pre = "[?bx]" and body = ?by and rest = "[]" and ?fn1.0 = ?fn1 and ?t1.0 = emptyContext
        and ?args1.0 = "[symb ''y'']" and ?v1.0 = False and ?t2.0 = emptyContext
        and ?b1.0 = "[?use ''y'']" and ?t3.0 = "snd (parseBody ?h ?P (Rest ?by) ?sy)"
        and ?ar1.0 = "FnArityExpr zeroPosition [symb ''y''] [?use ''y''] None",
        THEN conjunct2, THEN conjunct2, THEN conjunct2]
    d1 d2 d3 d4 d6 d7 d8 ppy pby bad1
  have form: "\<exists>msg s'. parseFn ?h ?P ?dup emptyContext = (Panic (ParseError (vec [symb ''y'']) msg), s')"
    by (simp add: fy py ty d5)
  have whole: "fst (Parse ?h 5 ?dup emptyContext)
     = Panic (ParseError (vec [symb ''y'']) ''Can't have 2 overloads with same arity'')"
    by code_simp
  show ?thesis
    by (intro conjI) (rule first, rule ok0, rule chk, rule raise, rule accept, rule form, rule whole)
qed


section \<open>recur\<close>

lemma GetLoopBindings_last:
  "GetLoopBindings s = (if loopBindings s = [] then None else Some (last (loopBindings s)))"
  by (simp add: GetLoopBindings_def Let_def last_conv_nth)

text \<open>
  Claim C2. \<^verbatim>\<open>parseRecur\<close> on a form \<open>obj\<close>, in this order: with \<^verbatim>\<open>noRecurAllowed\<close> set
  (inside a \<^verbatim>\<open>try\<close>) it raises the \<^verbatim>\<open>ParseError\<close> "Cannot recur across try"; otherwise,
  with no loop-bindings entry, it raises "No recursion point for recur"; otherwise, once
  the arguments are parsed, it raises a \<^verbatim>\<open>ParseError\<close> when their number differs from the
  size of the innermost loop-bindings vector; otherwise it returns a \<^verbatim>\<open>RecurExpr\<close> with
  the parsed arguments (and sets the \<^verbatim>\<open>recur\<close> flag).
\<close>

theorem parseRecur_cases:
  "(noRecurAllowed s \<longrightarrow>
      parseRecur h P obj s = (Panic (ParseError obj ''Cannot recur across try''), s)) \<and>
   (\<not> noRecurAllowed s \<and> loopBindings s = [] \<longrightarrow>
      parseRecur h P obj s = (Panic (ParseError obj ''No recursion point for recur''), s)) \<and>
   (\<not> noRecurAllowed s \<and> loopBindings s \<noteq> [] \<and> IsSeq obj \<and>
    parseSeq P (Rest obj) s = (Return args, s1) \<and>
    length (last (loopBindings s)) \<noteq> length args \<longrightarrow>
      parseRecur h P obj s =
        (Panic (ParseError obj
           (''Mismatched argument count to recur, expected: ''
              @ showNat (length (last (loopBindings s))) @ '' args, got: ''
              @ showNat (length args))), s1)) \<and>
   (\<not> noRecurAllowed s \<and> loopBindings s \<noteq> [] \<and> IsSeq obj \<and>
    parseSeq P (Rest obj) s = (Return args, s1) \<and>
    length (last (loopBindings s)) = length args \<longrightarrow>
      parseRecur h P obj s = (Return (RecurExpr (GetPosition obj) args), s1\<lparr>recur := True\<rparr>))"
  by (simp add: parseRecur_def GetLoopBindings_last assertSeq_def bindM_def returnM_def panicM_def
        modifyM_def)

theorem parseRecur_cases_witness:
  "parseRecur (exampleHost False True) (Parse (exampleHost False True) 3)
      (lst [symb ''recur'', num 1]) (emptyContext\<lparr>loopBindings := [[symb ''n'']], noRecurAllowed := True\<rparr>)
     = (Panic (ParseError (lst [symb ''recur'', num 1]) ''Cannot recur across try''),
        emptyContext\<lparr>loopBindings := [[symb ''n'']], noRecurAllowed := True\<rparr>) \<and>
   parseRecur (exampleHost False True) (Parse (exampleHost False True) 3)
      (lst [symb ''recur'', num 1]) emptyContext
     = (Panic (ParseError (lst [symb ''recur'', num 1]) ''No recursion point for recur''),
        emptyContext) \<and>
   parseRecur (exampleHost False True) (Parse (exampleHost False True) 3)
      (lst [symb ''recur'', num 1]) (emptyContext\<lparr>loopBindings := [[symb ''m'', symb ''n'']]\<rparr>)
     = (Panic (ParseError (lst [symb ''recur'', num 1])
          ''Mismatched argument count to recur, expected: 2 args, got: 1''),
        emptyContext\<lparr>loopBindings := [[symb ''m'', symb ''n'']]\<rparr>) \<and>
   parseRecur (exampleHost False True) (Parse (exampleHost False True) 3)
      (lst [symb ''recur'', num 1]) (emptyContext\<lparr>loopBindings := [[], [symb ''n'']]\<rparr>)
     = (Return (RecurExpr zeroPosition [LiteralExpr zeroPosition (num 1) False]),
        emptyContext\<lparr>loopBindings := [[], [symb ''n'']], recur := True\<rparr>)"
proof -
  let ?h = "exampleHost False True"
  let ?P = "Parse ?h 3"
  let ?obj = "lst [symb ''recur'', num 1]"
  let ?args = "[LiteralExpr zeroPosition (num 1) False]"
  have args: "parseSeq ?P (Rest ?obj) st = (Return ?args, st)" for st :: "unit ParseContext"
    by (simp add: parseSeq_def lst_def num_def numeral_3_eq_3 bindM_def returnM_def
          NewLiteralExpr_def GetPosition_def)
  have sq: "IsSeq ?obj" and pos: "GetPosition ?obj = zeroPosition"
    by (simp_all add: lst_def GetPosition_def)
  have n2: "showNat (Suc (Suc 0)) = ''2''" and n1: "showNat (Suc 0) = ''1''"
    by code_simp+
  show ?thesis
    using
      parseRecur_cases [where s = "emptyContext\<lparr>loopBindings := [[symb ''n'']], noRecurAllowed := True\<rparr>"
        and h = ?h and P = ?P and obj = ?obj and args = ?args
        and ?s1.0 = "emptyContext\<lparr>loopBindings := [[symb ''n'']], noRecurAllowed := True\<rparr>"]
      parseRecur_cases [where s = emptyContext and h = ?h and P = ?P and obj = ?obj
        and args = ?args and ?s1.0 = emptyContext]
      parseRecur_cases [where s = "emptyContext\<lparr>loopBindings := [[symb ''m'', symb ''n'']]\<rparr>"
        and h = ?h and P = ?P and obj = ?obj and args = ?args
        and ?s1.0 = "emptyContext\<lparr>loopBindings := [[symb ''m'', symb ''n'']]\<rparr>"]
      parseRecur_cases [where s = "emptyContext\<lparr>loopBindings := [[], [symb ''n'']]\<rparr>"
        and h = ?h and P = ?P and obj = ?obj and args = ?args
        and ?s1.0 = "emptyContext\<lparr>loopBindings := [[], [symb ''n'']]\<rparr>"]
    by (simp add: args sq pos n1 n2 emptyContext_def del: Parse.simps)
qed

section \<open>recur in tail position\<close>

lemma parseBody_loop_linter_total:
  assumes lint: "LINTER_MODE h"
    and tot: "\<forall>ob st. \<exists>e st'. P ob st = (Return e, st')"
  shows "\<exists>es s'. parseBody_loop h P seq res s = (Return es, s') \<and> length es = length res + length seq"
proof (induction seq arbitrary: res s)
  case Nil
  show ?case by (simp add: returnM_def)
next
  case (Cons ro seq)
  obtain e s1 where pe: "P ro s = (Return e, s1)" using tot by blast
  from Cons.IH [of "res @ [e]" "bodyWarnings h ro e s1"]
  show ?case using lint pe by (simp add: bindM_def)
qed

text \<open>
  Claim C3. In the loop of \<^verbatim>\<open>parseBody\<close>, when the expression \<open>ro\<close> has been parsed, the
  \<^verbatim>\<open>recur\<close> flag is set and more expressions follow: in strict mode the loop raises the
  \<^verbatim>\<open>ParseError\<close> "Can only recur from tail position" on \<open>ro\<close>; in linter mode it raises
  nothing and goes on with the expressions that follow. So in linter mode a body whose
  expressions all parse is parsed to its end, whatever the flag.
\<close>

theorem recur_tail_position:
  "(P ro s = (Return expr, s1) \<and> recur s1 \<and> seq \<noteq> [] \<and> \<not> LINTER_MODE h \<longrightarrow>
      parseBody_loop h P (ro # seq) res s =
        (Panic (ParseError ro ''Can only recur from tail position''), s1)) \<and>
   (P ro s = (Return expr, s1) \<and> recur s1 \<and> seq \<noteq> [] \<and> LINTER_MODE h \<longrightarrow>
      parseBody_loop h P (ro # seq) res s =
        parseBody_loop h P seq (res @ [expr]) (bodyWarnings h ro expr s1)) \<and>
   (LINTER_MODE h \<and> (\<forall>ob st. \<exists>e st'. P ob st = (Return e, st')) \<longrightarrow>
      (\<exists>es s'. parseBody h P body s = (Return es, s') \<and> length es = length (elems body)))"
proof (intro conjI impI)
  assume "LINTER_MODE h \<and> (\<forall>ob st. \<exists>e st'. P ob st = (Return e, st'))"
  then obtain es s' where
    "parseBody_loop h P (elems body) [] (s\<lparr>recur := False\<rparr>) = (Return es, s')"
    "length es = length (elems body)"
    using parseBody_loop_linter_total [of h P "elems body" "[]" "s\<lparr>recur := False\<rparr>"]
    by (elim conjE) auto
  then show "\<exists>es s'. parseBody h P body s = (Return es, s') \<and> length es = length (elems body)"
    by (simp add: parseBody_def deferM_def)
qed (simp_all add: bindM_def)

theorem recur_tail_position_witness:
  "parseBody_loop (exampleHost False True) (Parse (exampleHost False True) 3)
      [lst [symb ''recur''], num 1] [] (emptyContext\<lparr>loopBindings := [[]]\<rparr>)
     = (Panic (ParseError (lst [symb ''recur'']) ''Can only recur from tail position''),
        emptyContext\<lparr>loopBindings := [[]], recur := True\<rparr>) \<and>
   parseBody_loop (exampleHost True True) (Parse (exampleHost True True) 3)
      [lst [symb ''recur''], num 1] [] (emptyContext\<lparr>loopBindings := [[]]\<rparr>)
     = (Return [RecurExpr zeroPosition [], LiteralExpr zeroPosition (num 1) False],
        emptyContext\<lparr>loopBindings := [[]], recur := True\<rparr>) \<and>
   (\<exists>es s'. parseBody (exampleHost True True) literalParser (lst [lst [symb ''recur''], num 1])
        (emptyContext\<lparr>recur := True\<rparr>) = (Return es, s') \<and> length es = 2)"
proof -
  let ?s = "emptyContext\<lparr>loopBindings := [[]]\<rparr>"
  let ?s1 = "emptyContext\<lparr>loopBindings := [[]], recur := True\<rparr>"
  let ?ro = "lst [symb ''recur'']"
  let ?e = "RecurExpr zeroPosition []"
  have p: "Parse (exampleHost lint True) 3 ?ro ?s = (Return ?e, ?s1)" for lint
    by code_simp
  have r: "recur ?s1" and ne: "[num 1] \<noteq> []"
    by (simp_all add: emptyContext_def)
  have strict: "\<not> LINTER_MODE (exampleHost False True)" and lint: "LINTER_MODE (exampleHost True True)"
    by (simp_all add: exampleHost_def)
  have tail: "parseBody_loop (exampleHost True True) (Parse (exampleHost True True) 3) [num 1] [?e]
       (bodyWarnings (exampleHost True True) ?ro ?e ?s1)
     = (Return [?e, LiteralExpr zeroPosition (num 1) False], ?s1)"
    by code_simp
  have tot: "\<forall>ob st. \<exists>e st'. literalParser ob (st::unit ParseContext) = (Return e, st')"
    by (simp add: literalParser_def returnM_def)
  have len: "length (elems (lst [lst [symb ''recur''], num 1])) = 2"
    by (simp add: lst_def)
  show ?thesis
    using
      recur_tail_position [where P = "Parse (exampleHost False True) 3" and ro = ?ro and s = ?s
        and expr = ?e and ?s1.0 = ?s1 and seq = "[num 1]" and h = "exampleHost False True"
        and res = "[]" and body = "lst []"]
      recur_tail_position [where P = "Parse (exampleHost True True) 3" and ro = ?ro and s = ?s
        and expr = ?e and ?s1.0 = ?s1 and seq = "[num 1]" and h = "exampleHost True True"
        and res = "[]" and body = "lst []"]
      recur_tail_position [where P = literalParser and ro = ?ro and s = "emptyContext\<lparr>recur := True\<rparr>"
        and expr = ?e and ?s1.0 = ?s1 and seq = "[num 1]" and h = "exampleHost True True"
        and res = "[]" and body = "lst [lst [symb ''recur''], num 1]"]
      p [of False] p [of True] r ne strict lint tail tot len
    by (simp del: Parse.simps parseBody_loop.simps)
qed

section \<open>The order of the clauses of try\<close>

lemma parseCatch_Return:
  "parseCatch h P obj s = (Return c, s') \<Longrightarrow>
   excSymbol c = Second (Rest obj) \<and> catch_pos c = GetPosition obj"
  by (auto simp: parseCatch_def assertSeq_def Let_def bindM_Return deferM_Return split: if_splits)

lemma parseTry_loop_Finally:
  "parseTry_loop h P xs Finally res s = (Return t, s') \<Longrightarrow> xs = [] \<and> t = res"
  by (cases xs) auto

lemma parseTry_loop_Catch:
  "parseTry_loop h P xs Catch res s = (Return t, s') \<Longrightarrow>
   (dropWhile isCatch xs = [] \<and> finallyExpr t = finallyExpr res \<or>
    (\<exists>f. dropWhile isCatch xs = [f] \<and> isFinally f \<and> finallyExpr t \<noteq> None)) \<and>
   try_body t = try_body res \<and>
   map excSymbol (catches t) = map excSymbol (catches res) @ map (\<lambda>c. Second (Rest c)) (takeWhile isCatch xs) \<and>
   map catch_pos (catches t) = map catch_pos (catches res) @ map GetPosition (takeWhile isCatch xs)"
proof (induction xs arbitrary: res s)
  case Nil
  then show ?case by simp
next
  case (Cons x xs)
  show ?case
  proof (cases "isCatch x")
    case True
    with Cons.prems obtain c s1 where
      c: "parseCatch h P x s = (Return c, s1)" and
      rest: "parseTry_loop h P xs Catch
               (TryExpr (try_pos res) (try_body res) (catches res @ [c]) (finallyExpr res)) s1 = (Return t, s')"
      by (auto simp: bindM_Return)
    from Cons.IH [OF rest] parseCatch_Return [OF c] True show ?thesis by simp
  next
    case False
    show ?thesis
    proof (cases "isFinally x")
      case True
      with False Cons.prems obtain f s1 where
        rest: "parseTry_loop h P xs Finally
                 (TryExpr (try_pos res) (try_body res) (catches res) (Some f)) s1 = (Return t, s')"
        by (auto simp: bindM_Return)
      from parseTry_loop_Finally [OF rest] False True show ?thesis by simp
    next
      case nf: False
      with False Cons.prems show ?thesis by simp
    qed
  qed
qed

lemma parseTry_loop_Regular:
  "parseTry_loop h P xs Regular res s = (Return t, s') \<Longrightarrow>
   (try_rest xs = [] \<and> finallyExpr t = finallyExpr res \<or>
    (\<exists>f. try_rest xs = [f] \<and> isFinally f \<and> finallyExpr t \<noteq> None)) \<and>
   length (try_body t) = length (try_body res) + length (try_regs xs) \<and>
   map excSymbol (catches t) = map excSymbol (catches res) @ map (\<lambda>c. Second (Rest c)) (try_catches xs) \<and>
   map catch_pos (catches t) = map catch_pos (catches res) @ map GetPosition (try_catches xs)"
proof (induction xs arbitrary: res s)
  case Nil
  then show ?case by (simp add: try_rest_def try_regs_def try_catches_def)
next
  case (Cons x xs)
  show ?case
  proof (cases "isCatch x")
    case True
    with Cons.prems obtain c s1 where
      c: "parseCatch h P x s = (Return c, s1)" and
      rest: "parseTry_loop h P xs Catch
               (TryExpr (try_pos res) (try_body res) (catches res @ [c]) (finallyExpr res)) s1 = (Return t, s')"
      by (auto simp: bindM_Return)
    from parseTry_loop_Catch [OF rest] parseCatch_Return [OF c] True show ?thesis
      by (simp add: try_rest_def try_regs_def try_catches_def isRegular_def)
  next
    case False
    show ?thesis
    proof (cases "isFinally x")
      case True
      with False Cons.prems obtain f s1 where
        rest: "parseTry_loop h P xs Finally
                 (TryExpr (try_pos res) (try_body res) (catches res) (Some f)) s1 = (Return t, s')"
        by (auto simp: bindM_Return)
      from parseTry_loop_Finally [OF rest] False True show ?thesis
        by (simp add: try_rest_def try_regs_def try_catches_def isRegular_def)
    next
      case nf: False
      with False Cons.prems obtain e s1 where
        rest: "parseTry_loop h P xs Regular
                 (TryExpr (try_pos res) (try_body res @ [e]) (catches res) (finallyExpr res)) s1 = (Return t, s')"
        by (auto simp: bindM_Return)
      from Cons.IH [OF rest] False nf show ?thesis
        by (simp add: try_rest_def try_regs_def try_catches_def isRegular_def)
    qed
  qed
qed

lemma try_children_split: "xs = try_regs xs @ try_catches xs @ try_rest xs"
  by (simp add: try_regs_def try_catches_def try_rest_def)

lemma parseBody_linter_returns:
  assumes "LINTER_MODE h" and "\<forall>ob st. \<exists>e st'. P ob st = (Return e, st')"
  shows "\<exists>es s'. parseBody h P body s = (Return es, s')"
proof -
  from parseBody_loop_linter_total [OF assms, of "elems body" "[]" "s\<lparr>recur := False\<rparr>"]
  obtain es s' where "parseBody_loop h P (elems body) [] (s\<lparr>recur := False\<rparr>) = (Return es, s')"
    by blast
  then show ?thesis by (simp add: parseBody_def deferM_def)
qed

lemma parseCatch_linter_returns:
  assumes lint: "LINTER_MODE h" and tot: "\<forall>ob st. \<exists>e st'. P ob st = (Return e, st')"
    and form: "c = Object i m (ListVal (kw # ty # sy # body))" and sy: "IsSymbol sy"
  shows "\<exists>ce s'. parseCatch h P c s = (Return ce, s')"
proof -
  obtain e s1 where e: "P ty s = (Return e, s1)" using tot by blast
  have "\<exists>t s2. resolveType h P ty s = (Return t, s2)"
    using e lint by (simp add: resolveType_def bindM_def returnM_def split: option.splits)
  then obtain t s2 where t: "resolveType h P ty s = (Return t, s2)" by blast
  obtain b s3 where b: "parseBody h P (Object None None (ListVal body)) (PushLocalFrame h [sy] s2)
      = (Return b, s3)"
    using parseBody_linter_returns [OF lint tot] by blast
  show ?thesis
    using t b sy
    by (simp add: parseCatch_def form assertSeq_def IsEmpty_def Second_def Let_def bindM_def
          deferM_def modifyM_def returnM_def)
qed

lemma parseTry_loop_Catch_returns:
  assumes C: "\<forall>c\<in>set (takeWhile isCatch xs). \<forall>st. I st \<longrightarrow>
                (\<exists>ce st'. parseCatch h P c st = (Return ce, st') \<and> I st')"
    and F: "\<forall>f\<in>set (dropWhile isCatch xs). \<forall>st. I st \<longrightarrow>
                (\<exists>b st'. parseFinally h P (Rest f) st = (Return b, st') \<and> I st')"
    and shape: "dropWhile isCatch xs = [] \<or> (\<exists>f. dropWhile isCatch xs = [f] \<and> isFinally f)"
    and inv: "I s"
    and lt: "lt \<noteq> Finally"
  shows "\<exists>t s'. parseTry_loop h P xs lt res s = (Return t, s')"
  using C F shape inv lt
proof (induction xs arbitrary: res s lt)
  case Nil
  show ?case by (simp add: returnM_def)
next
  case (Cons x xs)
  show ?case
  proof (cases "isCatch x")
    case True
    with Cons.prems(1,4) obtain ce s1 where
      c: "parseCatch h P x s = (Return ce, s1)" and i1: "I s1"
      by auto
    have C': "\<forall>c\<in>set (takeWhile isCatch xs). \<forall>st. I st \<longrightarrow>
                (\<exists>ce st'. parseCatch h P c st = (Return ce, st') \<and> I st')"
      using Cons.prems(1) True by simp
    have F': "\<forall>f\<in>set (dropWhile isCatch xs). \<forall>st. I st \<longrightarrow>
                (\<exists>b st'. parseFinally h P (Rest f) st = (Return b, st') \<and> I st')"
      using Cons.prems(2) True by simp
    have sh': "dropWhile isCatch xs = [] \<or> (\<exists>f. dropWhile isCatch xs = [f] \<and> isFinally f)"
      using Cons.prems(3) True by simp
    have "Catch \<noteq> Finally" by simp
    from Cons.IH [OF C' F' sh' i1 this]
    obtain t s' where "parseTry_loop h P xs Catch
        (TryExpr (try_pos res) (try_body res) (catches res @ [ce]) (finallyExpr res)) s1 = (Return t, s')"
      by blast
    with True c Cons.prems(5) show ?thesis by (simp add: bindM_def)
  next
    case False
    with Cons.prems(3) have fin: "isFinally x" and nil: "xs = []" by auto
    from False Cons.prems(2,4) obtain b s1 where "parseFinally h P (Rest x) s = (Return b, s1)"
      by auto
    with False fin nil Cons.prems(5) show ?thesis
      by (simp add: bindM_def assertSeq_def isFinally_def returnM_def)
  qed
qed

lemma parseTry_loop_Regular_returns:
  assumes R: "\<forall>y\<in>set (try_regs xs). \<forall>st. I st \<longrightarrow>
                (\<exists>e st'. P y st = (Return e, st') \<and> I st')"
    and C: "\<forall>c\<in>set (try_catches xs). \<forall>st. I st \<longrightarrow>
                (\<exists>ce st'. parseCatch h P c st = (Return ce, st') \<and> I st')"
    and F: "\<forall>f\<in>set (try_rest xs). \<forall>st. I st \<longrightarrow>
                (\<exists>b st'. parseFinally h P (Rest f) st = (Return b, st') \<and> I st')"
    and shape: "try_rest xs = [] \<or> (\<exists>f. try_rest xs = [f] \<and> isFinally f)"
    and inv: "I s"
  shows "\<exists>t s'. parseTry_loop h P xs Regular res s = (Return t, s')"
  using R C F shape inv
proof (induction xs arbitrary: res s)
  case Nil
  show ?case by (simp add: returnM_def)
next
  case (Cons x xs)
  show ?case
  proof (cases "isRegular x")
    case True
    with Cons.prems(1,5) obtain e s1 where
      e: "P x s = (Return e, s1)" and i1: "I s1"
      by (auto simp: try_regs_def)
    have R': "\<forall>y\<in>set (try_regs xs). \<forall>st. I st \<longrightarrow>
                (\<exists>e st'. P y st = (Return e, st') \<and> I st')"
      using Cons.prems(1) True by (simp add: try_regs_def)
    have C': "\<forall>c\<in>set (try_catches xs). \<forall>st. I st \<longrightarrow>
                (\<exists>ce st'. parseCatch h P c st = (Return ce, st') \<and> I st')"
      using Cons.prems(2) True by (simp add: try_catches_def)
    have F': "\<forall>f\<in>set (try_rest xs). \<forall>st. I st \<longrightarrow>
                (\<exists>b st'. parseFinally h P (Rest f) st = (Return b, st') \<and> I st')"
      using Cons.prems(3) True by (simp add: try_rest_def)
    have sh': "try_rest xs = [] \<or> (\<exists>f. try_rest xs = [f] \<and> isFinally f)"
      using Cons.prems(4) True by (simp add: try_rest_def)
    from Cons.IH [OF R' C' F' sh' i1]
    obtain t s' where "parseTry_loop h P xs Regular
        (TryExpr (try_pos res) (try_body res @ [e]) (catches res) (finallyExpr res)) s1 = (Return t, s')"
      by blast
    with True e show ?thesis by (simp add: bindM_def isRegular_def)
  next
    case False
    have C': "\<forall>c\<in>set (takeWhile isCatch (x # xs)). \<forall>st. I st \<longrightarrow>
                (\<exists>ce st'. parseCatch h P c st = (Return ce, st') \<and> I st')"
      using Cons.prems(2) False by (simp add: try_catches_def)
    have F': "\<forall>f\<in>set (dropWhile isCatch (x # xs)). \<forall>st. I st \<longrightarrow>
                (\<exists>b st'. parseFinally h P (Rest f) st = (Return b, st') \<and> I st')"
      using Cons.prems(3) False by (simp add: try_rest_def)
    have sh': "dropWhile isCatch (x # xs) = [] \<or>
        (\<exists>f. dropWhile isCatch (x # xs) = [f] \<and> isFinally f)"
      using Cons.prems(4) False by (simp add: try_rest_def)
    have "Regular \<noteq> Finally" by simp
    from parseTry_loop_Catch_returns [OF C' F' sh' Cons.prems(5) this]
    show ?thesis by blast
  qed
qed

lemma parseTry_returns:
  assumes seq: "IsSeq obj"
    and R: "\<forall>y\<in>set (try_regs (elems (Rest obj))). \<forall>st. I st \<longrightarrow>
                (\<exists>e st'. P y st = (Return e, st') \<and> I st')"
    and C: "\<forall>c\<in>set (try_catches (elems (Rest obj))). \<forall>st. I st \<longrightarrow>
                (\<exists>ce st'. parseCatch h P c st = (Return ce, st') \<and> I st')"
    and F: "\<forall>f\<in>set (try_rest (elems (Rest obj))). \<forall>st. I st \<longrightarrow>
                (\<exists>b st'. parseFinally h P (Rest f) st = (Return b, st') \<and> I st')"
    and shape: "try_rest (elems (Rest obj)) = [] \<or>
                (\<exists>f. try_rest (elems (Rest obj)) = [f] \<and> isFinally f)"
    and inv: "I (s\<lparr>noRecurAllowed := True\<rparr>)"
  shows "\<exists>t s'. parseTry h P obj s = (Return t, s')"
proof -
  from parseTry_loop_Regular_returns [OF R C F shape inv]
  obtain t s1 where
    "parseTry_loop h P (elems (Rest obj)) Regular (TryExpr (GetPosition obj) [] [] None)
       (s\<lparr>noRecurAllowed := True\<rparr>) = (Return t, s1)"
    by blast
  with seq show ?thesis
    by (simp add: parseTry_def assertSeq_def bindM_def deferM_def returnM_def modifyM_def)
qed

text \<open>
  Claim C4. \<^verbatim>\<open>parseTry\<close> classifies the children of the form in order. After a finally
  clause any child raises the \<^verbatim>\<open>ParseError\<close> "finally clause must be last in try
  expression"; after a catch clause a child that is neither a catch nor a finally
  clause raises "Only catch or finally clause can follow catch in try expression".
  Hence, whatever parser \<open>P\<close> it recurses with, when \<^verbatim>\<open>parseTry\<close> returns the children are
  regular expressions, then catch clauses, then at most one finally clause, and the
  \<^verbatim>\<open>TryExpr\<close> has one body expression for each regular child, the catch clauses in their
  order (with their binding symbols and positions), and a finally body exactly when the
  last child is the finally clause. And a try form whose children are in that order does
  yield a \<^verbatim>\<open>TryExpr\<close>, provided each child parses where it is reached: \<open>I\<close> is any
  property of the parse state that holds when the loop over the children starts and
  that the parse of each regular child, catch clause and finally clause of this form
  keeps, returning.
\<close>

theorem try_clause_order:
  "(parseTry h P obj s = (Return t, s') \<longrightarrow>
      (try_rest (elems (Rest obj)) = [] \<or>
       (\<exists>f. try_rest (elems (Rest obj)) = [f] \<and> isFinally f)) \<and>
      elems (Rest obj) =
        try_regs (elems (Rest obj)) @ try_catches (elems (Rest obj)) @ try_rest (elems (Rest obj)) \<and>
      length (try_body t) = length (try_regs (elems (Rest obj))) \<and>
      map excSymbol (catches t) = map (\<lambda>c. Second (Rest c)) (try_catches (elems (Rest obj))) \<and>
      map catch_pos (catches t) = map GetPosition (try_catches (elems (Rest obj))) \<and>
      (finallyExpr t = None \<longleftrightarrow> try_rest (elems (Rest obj)) = [])) \<and>
   parseTry_loop h P (x # xs) Finally res s =
     (Panic (ParseError x ''finally clause must be last in try expression''), s) \<and>
   (\<not> isCatch x \<and> \<not> isFinally x \<longrightarrow>
      parseTry_loop h P (x # xs) Catch res s =
        (Panic (ParseError x ''Only catch or finally clause can follow catch in try expression''), s)) \<and>
   (IsSeq obj \<and>
    (try_rest (elems (Rest obj)) = [] \<or>
       (\<exists>f. try_rest (elems (Rest obj)) = [f] \<and> isFinally f)) \<and>
    I (s\<lparr>noRecurAllowed := True\<rparr>) \<and>
    (\<forall>y\<in>set (try_regs (elems (Rest obj))). \<forall>st. I st \<longrightarrow>
       (\<exists>e st'. P y st = (Return e, st') \<and> I st')) \<and>
    (\<forall>c\<in>set (try_catches (elems (Rest obj))). \<forall>st. I st \<longrightarrow>
       (\<exists>ce st'. parseCatch h P c st = (Return ce, st') \<and> I st')) \<and>
    (\<forall>f\<in>set (try_rest (elems (Rest obj))). \<forall>st. I st \<longrightarrow>
       (\<exists>b st'. parseFinally h P (Rest f) st = (Return b, st') \<and> I st')) \<longrightarrow>
      (\<exists>t' s''. parseTry h P obj s = (Return t', s'')))"
proof (intro conjI impI)
  assume a: "IsSeq obj \<and>
    (try_rest (elems (Rest obj)) = [] \<or>
       (\<exists>f. try_rest (elems (Rest obj)) = [f] \<and> isFinally f)) \<and>
    I (s\<lparr>noRecurAllowed := True\<rparr>) \<and>
    (\<forall>y\<in>set (try_regs (elems (Rest obj))). \<forall>st. I st \<longrightarrow>
       (\<exists>e st'. P y st = (Return e, st') \<and> I st')) \<and>
    (\<forall>c\<in>set (try_catches (elems (Rest obj))). \<forall>st. I st \<longrightarrow>
       (\<exists>ce st'. parseCatch h P c st = (Return ce, st') \<and> I st')) \<and>
    (\<forall>f\<in>set (try_rest (elems (Rest obj))). \<forall>st. I st \<longrightarrow>
       (\<exists>b st'. parseFinally h P (Rest f) st = (Return b, st') \<and> I st'))"
  from a show "\<exists>t' s''. parseTry h P obj s = (Return t', s'')"
    by (elim conjE) (rule parseTry_returns [where I = I], assumption+)
next
  assume ret: "parseTry h P obj s = (Return t, s')"
  then obtain s1 where
    loop: "parseTry_loop h P (elems (Rest obj)) Regular (TryExpr (GetPosition obj) [] [] None)
             (s\<lparr>noRecurAllowed := True\<rparr>) = (Return t, s1)"
    by (auto simp: parseTry_def assertSeq_def bindM_Return deferM_Return split: if_splits)
  note L = parseTry_loop_Regular [OF loop]
  from L show "try_rest (elems (Rest obj)) = [] \<or> (\<exists>f. try_rest (elems (Rest obj)) = [f] \<and> isFinally f)"
    by auto
  from L show "length (try_body t) = length (try_regs (elems (Rest obj)))" by simp
  from L show "map excSymbol (catches t) = map (\<lambda>c. Second (Rest c)) (try_catches (elems (Rest obj)))"
    by simp
  from L show "map catch_pos (catches t) = map GetPosition (try_catches (elems (Rest obj)))" by simp
  from L show "finallyExpr t = None \<longleftrightarrow> try_rest (elems (Rest obj)) = []" by auto
  show "elems (Rest obj) =
        try_regs (elems (Rest obj)) @ try_catches (elems (Rest obj)) @ try_rest (elems (Rest obj))"
    by (rule try_children_split)
qed (simp_all add: panicM_def)

theorem try_clause_order_witness:
  "(\<exists>t s'. parseTry (exampleHost False True) (Parse (exampleHost False True) 5)
        (lst [symb ''try'', num 1, lst [symb ''catch'', symb ''Error'', symb ''e'', num 2],
              lst [symb ''finally'', num 3]]) emptyContext = (Return t, s') \<and>
      length (try_body t) = 1 \<and> map excSymbol (catches t) = [symb ''e''] \<and>
      finallyExpr t \<noteq> None) \<and>
   parseTry_loop (exampleHost False True) (Parse (exampleHost False True) 5) [num 1] Finally
      (TryExpr zeroPosition [] [] (Some [])) emptyContext
     = (Panic (ParseError (num 1) ''finally clause must be last in try expression''),
        emptyContext) \<and>
   \<not> isCatch (num 1) \<and> \<not> isFinally (num 1) \<and>
   parseTry_loop (exampleHost False True) (Parse (exampleHost False True) 5) [num 1] Catch
      (TryExpr zeroPosition [] [] None) emptyContext
     = (Panic (ParseError (num 1)
          ''Only catch or finally clause can follow catch in try expression''), emptyContext) \<and>
   (\<exists>t s'. parseTry (exampleHost True True) literalParser
        (lst [symb ''try'', num 1, lst [symb ''catch'', symb ''Error'', symb ''e'', num 2],
              lst [symb ''finally'', num 3]]) emptyContext = (Return t, s'))"
proof -
  let ?h = "exampleHost False True"
  let ?P = "Parse ?h 5"
  let ?c = "lst [symb ''catch'', symb ''Error'', symb ''e'', num 2]"
  let ?f = "lst [symb ''finally'', num 3]"
  let ?form = "lst [symb ''try'', num 1, ?c, ?f]"
  let ?s0 = "emptyContext\<lparr>noRecurAllowed := True\<rparr> :: unit ParseContext"
  have seq: "IsSeq ?form" by (simp add: lst_def)
  have regs: "try_regs (elems (Rest ?form)) = [num 1]"
    and cats: "try_catches (elems (Rest ?form)) = [?c]"
    and fins: "try_rest (elems (Rest ?form)) = [?f]"
    and isf: "isFinally ?f"
    by code_simp+
  have shape: "try_rest (elems (Rest ?form)) = [] \<or>
       (\<exists>f. try_rest (elems (Rest ?form)) = [f] \<and> isFinally f)"
    using fins isf by simp
  \<comment> \<open>each child parses in the state in which the loop reaches it\<close>
  have "fst (?P (num 1) ?s0) = Return (NewLiteralExpr (num 1))" "snd (?P (num 1) ?s0) = ?s0"
    by code_simp+
  then have p1: "?P (num 1) ?s0 = (Return (NewLiteralExpr (num 1)), ?s0)"
    by (simp add: prod_eq_iff)
  have "fst (parseCatch ?h ?P ?c ?s0)
      = Return (CatchExpr zeroPosition (Type ''Error'') (symb ''e'') [NewLiteralExpr (num 2)])"
    "snd (parseCatch ?h ?P ?c ?s0) = ?s0"
    by code_simp+
  then have p2: "parseCatch ?h ?P ?c ?s0
      = (Return (CatchExpr zeroPosition (Type ''Error'') (symb ''e'') [NewLiteralExpr (num 2)]), ?s0)"
    by (simp add: prod_eq_iff)
  have "fst (parseFinally ?h ?P (Rest ?f) ?s0) = Return [NewLiteralExpr (num 3)]"
    "snd (parseFinally ?h ?P (Rest ?f) ?s0) = ?s0"
    by code_simp+
  then have p3: "parseFinally ?h ?P (Rest ?f) ?s0 = (Return [NewLiteralExpr (num 3)], ?s0)"
    by (simp add: prod_eq_iff)
  have R: "\<forall>y\<in>set (try_regs (elems (Rest ?form))). \<forall>st. st = ?s0 \<longrightarrow>
       (\<exists>e st'. ?P y st = (Return e, st') \<and> st' = ?s0)"
    unfolding regs using p1 by simp
  have C: "\<forall>c\<in>set (try_catches (elems (Rest ?form))). \<forall>st. st = ?s0 \<longrightarrow>
       (\<exists>ce st'. parseCatch ?h ?P c st = (Return ce, st') \<and> st' = ?s0)"
    unfolding cats using p2 by simp
  have F: "\<forall>f\<in>set (try_rest (elems (Rest ?form))). \<forall>st. st = ?s0 \<longrightarrow>
       (\<exists>b st'. parseFinally ?h ?P (Rest f) st = (Return b, st') \<and> st' = ?s0)"
    unfolding fins using p3 by simp
  have start: "emptyContext\<lparr>noRecurAllowed := True\<rparr> = ?s0" by simp
  from try_clause_order [where h = ?h and P = ?P and obj = ?form and s = emptyContext
      and I = "\<lambda>st. st = ?s0", THEN conjunct2, THEN conjunct2, THEN conjunct2]
    seq shape start R C F
  obtain t s' where ret: "parseTry ?h ?P ?form emptyContext = (Return t, s')"
    by blast
  have reg: "\<not> isCatch (num 1) \<and> \<not> isFinally (num 1)"
    by (simp add: isCatch_def isFinally_def num_def)
  have regl: "length (try_regs (elems (Rest ?form))) = 1"
    and cs: "map (\<lambda>c. Second (Rest c)) (try_catches (elems (Rest ?form))) = [symb ''e'']"
    and fin: "try_rest (elems (Rest ?form)) \<noteq> []"
    by code_simp+
  from try_clause_order [where h = ?h and P = ?P and obj = ?form and s = emptyContext
      and t = t and s' = s', THEN conjunct1] ret regl cs fin
  have a: "length (try_body t) = 1 \<and> map excSymbol (catches t) = [symb ''e''] \<and>
      finallyExpr t \<noteq> None"
    by simp
  from try_clause_order [where h = ?h and P = ?P and s = emptyContext
      and x = "num 1" and xs = "[]"
      and res = "TryExpr zeroPosition [] [] (Some [])", THEN conjunct2, THEN conjunct1]
  have b: "parseTry_loop ?h ?P [num 1] Finally (TryExpr zeroPosition [] [] (Some [])) emptyContext
     = (Panic (ParseError (num 1) ''finally clause must be last in try expression''),
        emptyContext)"
    by simp
  from try_clause_order [where h = ?h and P = ?P and s = emptyContext
      and x = "num 1" and xs = "[]"
      and res = "TryExpr zeroPosition [] [] None", THEN conjunct2, THEN conjunct2, THEN conjunct1] reg
  have c: "parseTry_loop ?h ?P [num 1] Catch (TryExpr zeroPosition [] [] None) emptyContext
     = (Panic (ParseError (num 1)
          ''Only catch or finally clause can follow catch in try expression''), emptyContext)"
    by blast
  from ret a have first: "\<exists>t s'. parseTry ?h ?P ?form emptyContext = (Return t, s') \<and>
      length (try_body t) = 1 \<and> map excSymbol (catches t) = [symb ''e''] \<and>
      finallyExpr t \<noteq> None"
    by - (rule exI [of _ t], rule exI [of _ s'], intro conjI, (elim conjE, assumption)+)
  from reg have r1: "\<not> isCatch (num 1)" and r2: "\<not> isFinally (num 1)" by simp_all
  \<comment> \<open>linter mode, with a parser that returns on everything\<close>
  let ?l = "exampleHost True True"
  have lint: "LINTER_MODE ?l" by (simp add: exampleHost_def)
  have tot: "\<forall>ob st. \<exists>e st'. literalParser ob (st::unit ParseContext) = (Return e, st')"
    by (simp add: literalParser_def returnM_def)
  have R': "\<forall>y\<in>set (try_regs (elems (Rest ?form))). \<forall>st::unit ParseContext. True \<longrightarrow>
       (\<exists>e st'. literalParser y st = (Return e, st') \<and> True)"
    using tot by simp
  have C': "\<forall>c\<in>set (try_catches (elems (Rest ?form))). \<forall>st. True \<longrightarrow>
       (\<exists>ce st'. parseCatch ?l literalParser c st = (Return ce, st') \<and> True)"
    unfolding cats
  proof (intro ballI impI allI)
    fix c and st :: "unit ParseContext"
    assume "c \<in> set [?c]"
    then have c: "c = Object None None (ListVal [symb ''catch'', symb ''Error'', symb ''e'', num 2])"
      by (simp add: lst_def)
    have "\<exists>ce st'. parseCatch ?l literalParser c st = (Return ce, st')"
      by (rule parseCatch_linter_returns [OF lint tot c]) (simp add: symb_def)
    then show "\<exists>ce st'. parseCatch ?l literalParser c st = (Return ce, st') \<and> True" by simp
  qed
  have F': "\<forall>f\<in>set (try_rest (elems (Rest ?form))). \<forall>st. True \<longrightarrow>
       (\<exists>b st'. parseFinally ?l literalParser (Rest f) st = (Return b, st') \<and> True)"
    unfolding parseFinally_def using parseBody_linter_returns [OF lint tot] by simp
  from try_clause_order [where h = ?l and P = literalParser and obj = ?form and s = emptyContext
      and I = "\<lambda>st. True", THEN conjunct2, THEN conjunct2, THEN conjunct2]
    seq shape R' C' F'
  have total: "\<exists>t s'. parseTry ?l literalParser ?form emptyContext = (Return t, s')"
    by blast
  show ?thesis
    by (intro conjI) (rule first, rule b, rule r1, rule r2, rule c, rule total)
qed

section \<open>Special forms of parseList: if, quote, do\<close>

lemma parseList_no_macro:
  assumes "macroexpand1 h obj s = (Return None, s)" "obj = Object i m (ListVal (head # args))"
  shows "parseList h P obj s =
     deferM (\<lambda>s'. s'\<lparr>isUnknownCallableScope := isUnknownCallableScope s\<rparr>)
       (parseList_dispatch h P obj (isUnknownCallableScope s))
       (s\<lparr>isUnknownCallableScope := False\<rparr>)"
  using assms by (simp add: parseList_def assertSeq_def bindM_def returnM_def IsEmpty_def)

lemma Parse_NIL: "Parse h (Suc n) NIL s = (Return (LiteralExpr zeroPosition NIL False), s)"
  by (simp add: NIL_def NewLiteralExpr_def GetPosition_def returnM_def)

text \<open>
  Claim C5. Let \<open>obj\<close> be a list whose head is the unqualified symbol \<^verbatim>\<open>if\<close> and that is
  no macro call. With fewer than 3 or more than 4 elements \<^verbatim>\<open>parseList\<close> raises a
  \<^verbatim>\<open>ParseError\<close>. With 3 elements \<^verbatim>\<open>(if c p)\<close> it parses \<open>c\<close>, \<open>p\<close> and then \<^verbatim>\<open>NIL\<close> (what
  \<^verbatim>\<open>Fourth\<close> gives) into an \<^verbatim>\<open>IfExpr\<close>, starting from a state in which the diagnostics hold
  exactly one more line, the warning "missing else branch", when linter mode and the
  \<^verbatim>\<open>ifWithoutElse\<close> toggle are on, and no more line otherwise. With \<^verbatim>\<open>Parse\<close> itself as
  the parser, the negative branch of every \<^verbatim>\<open>IfExpr\<close> so returned is the nil literal.
\<close>

theorem if_form:
  assumes macro: "macroexpand1 h obj s = (Return None, s)"
    and form: "obj = Object i m (ListVal (head # args))"
    and head: "IsSymbol head" "sym_ns head = None" "sym_name head = STR_if (STR_names h)"
    and names: "STR_if (STR_names h) \<noteq> STR_quote (STR_names h)"
  shows
    "(length args < 2 \<longrightarrow>
        parseList h P obj s =
          (Panic (ParseError obj (''Too few arguments to '' @ ToString h head)), s)) \<and>
     (length args > 3 \<longrightarrow>
        parseList h P obj s =
          (Panic (ParseError obj (''Too many arguments to '' @ ToString h head)), s)) \<and>
     (args = [c, p] \<longrightarrow>
        parseList h P obj s =
          deferM (\<lambda>s'. s'\<lparr>isUnknownCallableScope := isUnknownCallableScope s\<rparr>)
            (bindM (P c) (\<lambda>c'. bindM (P p) (\<lambda>p'. bindM (P NIL) (\<lambda>n'.
               returnM (IfExpr (GetPosition obj) c' p' n')))))
            (if LINTER_MODE h \<and> ifWithoutElse (WARNINGS h)
             then (s\<lparr>isUnknownCallableScope := False\<rparr>)
                    \<lparr>PROBLEM_COUNT := PROBLEM_COUNT s + 1,
                     Stderr := Stderr s @
                       [errorLine (GetPosition obj) ''Parse warning: missing else branch'']\<rparr>
             else s\<lparr>isUnknownCallableScope := False\<rparr>)) \<and>
     (args = [c, p] \<and> parseList h (Parse h n) obj s = (Return e, s') \<longrightarrow>
        (\<exists>c' p'. e = IfExpr (GetPosition obj) c' p' (LiteralExpr zeroPosition NIL False)))"
proof -
  have disp: "parseList h Q obj s =
     deferM (\<lambda>s'. s'\<lparr>isUnknownCallableScope := isUnknownCallableScope s\<rparr>)
       (parseList_dispatch h Q obj (isUnknownCallableScope s))
       (s\<lparr>isUnknownCallableScope := False\<rparr>)" for Q
    by (rule parseList_no_macro [OF macro form])
  have few: "length args < 2 \<longrightarrow>
        parseList h P obj s =
          (Panic (ParseError obj (''Too few arguments to '' @ ToString h head)), s)"
    using head names unfolding disp
    by (simp add: parseList_dispatch_def form checkForm_def assertSeq_def deferM_def
          bindM_def panicM_def returnM_def Let_def)
  have many: "length args > 3 \<longrightarrow>
        parseList h P obj s =
          (Panic (ParseError obj (''Too many arguments to '' @ ToString h head)), s)"
    using head names unfolding disp
    by (simp add: parseList_dispatch_def form checkForm_def assertSeq_def deferM_def
          bindM_def panicM_def returnM_def Let_def)
  have three: "args = [c, p] \<longrightarrow>
        parseList h Q obj s =
          deferM (\<lambda>s'. s'\<lparr>isUnknownCallableScope := isUnknownCallableScope s\<rparr>)
            (bindM (Q c) (\<lambda>c'. bindM (Q p) (\<lambda>p'. bindM (Q NIL) (\<lambda>n'.
               returnM (IfExpr (GetPosition obj) c' p' n')))))
            (if LINTER_MODE h \<and> ifWithoutElse (WARNINGS h)
             then (s\<lparr>isUnknownCallableScope := False\<rparr>)
                    \<lparr>PROBLEM_COUNT := PROBLEM_COUNT s + 1,
                     Stderr := Stderr s @
                       [errorLine (GetPosition obj) ''Parse warning: missing else branch'']\<rparr>
             else s\<lparr>isUnknownCallableScope := False\<rparr>)" for Q
    using head names unfolding disp
    by (simp add: parseList_dispatch_def form checkForm_def assertSeq_def deferM_def
          bindM_def returnM_def modifyM_def Let_def Second_def Third_def Fourth_def
          printParseWarning_def printError_def)
  have nil: "args = [c, p] \<and> parseList h (Parse h n) obj s = (Return e, s') \<longrightarrow>
        (\<exists>c' p'. e = IfExpr (GetPosition obj) c' p' (LiteralExpr zeroPosition NIL False))"
  proof
    assume a: "args = [c, p] \<and> parseList h (Parse h n) obj s = (Return e, s')"
    with three [of "Parse h n"] have run:
      "deferM (\<lambda>s'. s'\<lparr>isUnknownCallableScope := isUnknownCallableScope s\<rparr>)
            (bindM (Parse h n c) (\<lambda>c'. bindM (Parse h n p) (\<lambda>p'.
               bindM (Parse h n NIL) (\<lambda>n'.
               returnM (IfExpr (GetPosition obj) c' p' n')))))
            (if LINTER_MODE h \<and> ifWithoutElse (WARNINGS h)
             then (s\<lparr>isUnknownCallableScope := False\<rparr>)
                    \<lparr>PROBLEM_COUNT := PROBLEM_COUNT s + 1,
                     Stderr := Stderr s @
                       [errorLine (GetPosition obj) ''Parse warning: missing else branch'']\<rparr>
             else s\<lparr>isUnknownCallableScope := False\<rparr>) = (Return e, s')"
      by simp
    show "\<exists>c' p'. e = IfExpr (GetPosition obj) c' p' (LiteralExpr zeroPosition NIL False)"
    proof (cases n)
      case 0
      with run show ?thesis by (simp add: deferM_Return bindM_Return)
    next
      case (Suc k)
      with run show ?thesis
        unfolding Suc deferM_Return bindM_Return Parse_NIL by auto
    qed
  qed
  from few many three [of P] nil show ?thesis by blast
qed

theorem if_form_witness:
  "Parse (exampleHost True True) 3
      (Object (at ''f.clj'' 3 4) None (ListVal [symb ''if'', symb ''Error'', num 1])) emptyContext
     = (Return (IfExpr \<lparr>endLine = 3, endColumn = 4, startLine = 3, startColumn = 4,
                         filename = Some ''f.clj''\<rparr>
                  (LiteralExpr zeroPosition (Object None None (TypeVal (Type ''Error''))) False)
                  (LiteralExpr zeroPosition (num 1) False)
                  (LiteralExpr zeroPosition NIL False)),
        emptyContext\<lparr>Stderr := [''f.clj:3:4: Parse warning: missing else branch'' @ [CHR 0x0A]],
                      PROBLEM_COUNT := 1\<rparr>) \<and>
   Parse (exampleHost True False) 3
      (Object (at ''f.clj'' 3 4) None (ListVal [symb ''if'', symb ''Error'', num 1])) emptyContext
     = (Return (IfExpr \<lparr>endLine = 3, endColumn = 4, startLine = 3, startColumn = 4,
                         filename = Some ''f.clj''\<rparr>
                  (LiteralExpr zeroPosition (Object None None (TypeVal (Type ''Error''))) False)
                  (LiteralExpr zeroPosition (num 1) False)
                  (LiteralExpr zeroPosition NIL False)),
        emptyContext) \<and>
   (\<exists>msg. Parse (exampleHost False True) 3 (lst [symb ''if'', num 1]) emptyContext
          = (Panic (ParseError (lst [symb ''if'', num 1]) msg), emptyContext)) \<and>
   (\<exists>msg. Parse (exampleHost False True) 3 (lst [symb ''if'', num 1, num 2, num 3, num 4])
            emptyContext
          = (Panic (ParseError (lst [symb ''if'', num 1, num 2, num 3, num 4]) msg),
             emptyContext))"
proof -
  let ?obj = "Object (at ''f.clj'' 3 4) None (ListVal [symb ''if'', symb ''Error'', num 1])"
  let ?short = "lst [symb ''if'', num 1]"
  let ?long = "lst [symb ''if'', num 1, num 2, num 3, num 4]"
  have macro: "macroexpand1 (exampleHost lint tog) ?obj emptyContext = (Return None, emptyContext)"
       "macroexpand1 (exampleHost lint tog) ?short emptyContext = (Return None, emptyContext)"
       "macroexpand1 (exampleHost lint tog) ?long emptyContext = (Return None, emptyContext)"
    for lint tog
    by code_simp+
  have head: "IsSymbol (symb ''if'')" "sym_ns (symb ''if'') = None"
       "sym_name (symb ''if'') = STR_if (STR_names (exampleHost lint tog))"
       "STR_if (STR_names (exampleHost lint tog)) \<noteq> STR_quote (STR_names (exampleHost lint tog))"
    for lint tog
    by (simp_all add: symb_def exampleHost_def jokerStr_def)
  have list: "Parse (exampleHost lint tog) 3 (Object i m (ListVal xs)) =
        parseList (exampleHost lint tog) (Parse (exampleHost lint tog) (Suc (Suc 0))) (Object i m (ListVal xs))"
    for lint tog i m xs
    by (simp add: numeral_3_eq_3 Let_def)
  have on: "deferM (\<lambda>s'. s'\<lparr>isUnknownCallableScope := isUnknownCallableScope emptyContext\<rparr>)
            (bindM (Parse (exampleHost True True) (Suc (Suc 0)) (symb ''Error'')) (\<lambda>c'.
             bindM (Parse (exampleHost True True) (Suc (Suc 0)) (num 1)) (\<lambda>p'.
             bindM (Parse (exampleHost True True) (Suc (Suc 0)) NIL) (\<lambda>n'.
               returnM (IfExpr (GetPosition ?obj) c' p' n')))))
            (if LINTER_MODE (exampleHost True True) \<and> ifWithoutElse (WARNINGS (exampleHost True True))
             then (emptyContext\<lparr>isUnknownCallableScope := False\<rparr>)
                    \<lparr>PROBLEM_COUNT := PROBLEM_COUNT emptyContext + 1,
                     Stderr := Stderr emptyContext @
                       [errorLine (GetPosition ?obj) ''Parse warning: missing else branch'']\<rparr>
             else emptyContext\<lparr>isUnknownCallableScope := False\<rparr>)
       = (Return (IfExpr \<lparr>endLine = 3, endColumn = 4, startLine = 3, startColumn = 4,
                         filename = Some ''f.clj''\<rparr>
                  (LiteralExpr zeroPosition (Object None None (TypeVal (Type ''Error''))) False)
                  (LiteralExpr zeroPosition (num 1) False)
                  (LiteralExpr zeroPosition NIL False)),
        emptyContext\<lparr>Stderr := [''f.clj:3:4: Parse warning: missing else branch'' @ [CHR 0x0A]],
                      PROBLEM_COUNT := 1\<rparr>)"
    by code_simp
  have off: "deferM (\<lambda>s'. s'\<lparr>isUnknownCallableScope := isUnknownCallableScope emptyContext\<rparr>)
            (bindM (Parse (exampleHost True False) (Suc (Suc 0)) (symb ''Error'')) (\<lambda>c'.
             bindM (Parse (exampleHost True False) (Suc (Suc 0)) (num 1)) (\<lambda>p'.
             bindM (Parse (exampleHost True False) (Suc (Suc 0)) NIL) (\<lambda>n'.
               returnM (IfExpr (GetPosition ?obj) c' p' n')))))
            (if LINTER_MODE (exampleHost True False) \<and> ifWithoutElse (WARNINGS (exampleHost True False))
             then (emptyContext\<lparr>isUnknownCallableScope := False\<rparr>)
                    \<lparr>PROBLEM_COUNT := PROBLEM_COUNT emptyContext + 1,
                     Stderr := Stderr emptyContext @
                       [errorLine (GetPosition ?obj) ''Parse warning: missing else branch'']\<rparr>
             else emptyContext\<lparr>isUnknownCallableScope := False\<rparr>)
       = (Return (IfExpr \<lparr>endLine = 3, endColumn = 4, startLine = 3, startColumn = 4,
                         filename = Some ''f.clj''\<rparr>
                  (LiteralExpr zeroPosition (Object None None (TypeVal (Type ''Error''))) False)
                  (LiteralExpr zeroPosition (num 1) False)
                  (LiteralExpr zeroPosition NIL False)),
        emptyContext)"
    by code_simp
  note w1 = if_form [OF macro(1) refl head, where lint1 = True and tog1 = True
      and P = "Parse (exampleHost True True) (Suc (Suc 0))" and c = "symb ''Error''" and p = "num 1"
      and n = 1]
  note w2 = if_form [OF macro(1) refl head, where lint1 = True and tog1 = False
      and P = "Parse (exampleHost True False) (Suc (Suc 0))" and c = "symb ''Error''" and p = "num 1"
      and n = 1]
  note w3 = if_form [OF macro(2) [unfolded lst_def] refl head, where lint1 = False and tog1 = True
      and P = "Parse (exampleHost False True) (Suc (Suc 0))" and c = "num 1" and p = "num 1"
      and n = 1]
  note w4 = if_form [OF macro(3) [unfolded lst_def] refl head, where lint1 = False and tog1 = True
      and P = "Parse (exampleHost False True) (Suc (Suc 0))" and c = "num 1" and p = "num 1"
      and n = 1]
  have a: "Parse (exampleHost True True) 3 ?obj emptyContext
     = (Return (IfExpr \<lparr>endLine = 3, endColumn = 4, startLine = 3, startColumn = 4,
                         filename = Some ''f.clj''\<rparr>
                  (LiteralExpr zeroPosition (Object None None (TypeVal (Type ''Error''))) False)
                  (LiteralExpr zeroPosition (num 1) False)
                  (LiteralExpr zeroPosition NIL False)),
        emptyContext\<lparr>Stderr := [''f.clj:3:4: Parse warning: missing else branch'' @ [CHR 0x0A]],
                      PROBLEM_COUNT := 1\<rparr>)"
    unfolding list using w1 on by simp
  have b: "Parse (exampleHost True False) 3 ?obj emptyContext
     = (Return (IfExpr \<lparr>endLine = 3, endColumn = 4, startLine = 3, startColumn = 4,
                         filename = Some ''f.clj''\<rparr>
                  (LiteralExpr zeroPosition (Object None None (TypeVal (Type ''Error''))) False)
                  (LiteralExpr zeroPosition (num 1) False)
                  (LiteralExpr zeroPosition NIL False)),
        emptyContext)"
    unfolding list using w2 off by simp
  have c: "\<exists>msg. Parse (exampleHost False True) 3 ?short emptyContext
          = (Panic (ParseError ?short msg), emptyContext)"
    unfolding lst_def list using w3 by simp
  have d: "\<exists>msg. Parse (exampleHost False True) 3 ?long emptyContext
          = (Panic (ParseError ?long msg), emptyContext)"
    unfolding lst_def list using w4 by simp
  show ?thesis
    by (intro conjI) (rule a, rule b, rule c, rule d)
qed

text \<open>
  Claim C6, as stated, fails: \<^verbatim>\<open>parseList\<close> makes no check of the number of elements
  of a quote form. The three-element \<^verbatim>\<open>(quote 1 2)\<close> parses, to the literal \<^verbatim>\<open>1\<close>.
\<close>

theorem quote_arity_counterexample:
  "SeqCount (lst [symb ''quote'', num 1, num 2]) = 3 \<and>
   Parse (exampleHost False True) 2 (lst [symb ''quote'', num 1, num 2]) emptyContext
     = (Return (LiteralExpr zeroPosition (num 1) False), emptyContext)"
  by code_simp

text \<open>
  Claim C6, amended. For every list \<open>obj\<close> whose head is the unqualified symbol \<^verbatim>\<open>quote\<close>
  and that is no macro call, of any length, \<^verbatim>\<open>parseList\<close> returns the literal of the
  second element (what \<^verbatim>\<open>Second\<close> gives), and leaves the state as it was. The parser \<open>P\<close>
  for nested forms is arbitrary and the result does not depend on it: the quoted object
  is not parsed.
\<close>

theorem quote_form:
  assumes macro: "macroexpand1 h obj s = (Return None, s)"
    and form: "obj = Object i m (ListVal (head # args))"
    and head: "IsSymbol head" "sym_ns head = None" "sym_name head = STR_quote (STR_names h)"
  shows "parseList h P obj s = (Return (LiteralExpr (GetPosition (Second obj)) (Second obj) False), s)"
  using head unfolding parseList_no_macro [OF macro form]
  by (simp add: parseList_dispatch_def deferM_def returnM_def Let_def form NewLiteralExpr_def)

theorem quote_form_witness:
  "parseList (exampleHost False True) (\<lambda>ob. panicM (EvalError ''never called''))
      (lst [symb ''quote'', lst [symb ''unresolved'', num 2]]) emptyContext
     = (Return (LiteralExpr zeroPosition (lst [symb ''unresolved'', num 2]) False), emptyContext)"
proof -
  let ?h = "exampleHost False True"
  let ?obj = "Object None None (ListVal [symb ''quote'', lst [symb ''unresolved'', num 2]])"
  have macro: "macroexpand1 ?h ?obj emptyContext = (Return None, emptyContext)"
    by code_simp
  have head: "IsSymbol (symb ''quote'')" "sym_ns (symb ''quote'') = None"
       "sym_name (symb ''quote'') = STR_quote (STR_names ?h)"
    by (simp_all add: symb_def exampleHost_def jokerStr_def)
  have snd: "Second ?obj = lst [symb ''unresolved'', num 2]"
    and pos: "GetPosition (lst [symb ''unresolved'', num 2]) = zeroPosition"
    by (simp_all add: Second_def lst_def GetPosition_def)
  show ?thesis
    using quote_form [OF macro refl head, of "\<lambda>ob. panicM (EvalError ''never called'')"]
    by (simp add: snd pos) (simp add: lst_def)
qed

lemma do_form:
  assumes macro: "macroexpand1 h obj s = (Return None, s)"
    and form: "obj = Object i m (ListVal (head # args))"
    and head: "IsSymbol head" "sym_ns head = None" "sym_name head = STR_do (STR_names h)"
      "GetInfo head = Some hinfo"
    and names: "distinct (formNames (STR_names h))"
  shows "parseList h P obj s =
     deferM (\<lambda>s'. s'\<lparr>isUnknownCallableScope := isUnknownCallableScope s\<rparr>)
       (bindM (parseBody h P (Object None None (ListVal args))) (\<lambda>b.
        bindM (modifyM (doWarnings h (GetPosition obj) b)) (\<lambda>_.
          returnM (DoExpr (GetPosition obj) b
                     (filename hinfo = Some (STR_coreFilename (STR_names h)))))))
       (s\<lparr>isUnknownCallableScope := False\<rparr>)"
proof -
  from names head(3) have ne:
    "sym_name head \<noteq> STR_quote (STR_names h)" "sym_name head \<noteq> STR_if (STR_names h)"
    "sym_name head \<noteq> STR_fn' (STR_names h)" "sym_name head \<noteq> STR_let' (STR_names h)"
    "sym_name head \<noteq> STR_letfn' (STR_names h)" "sym_name head \<noteq> STR_loop' (STR_names h)"
    "sym_name head \<noteq> STR_recur (STR_names h)" "sym_name head \<noteq> STR_setMacro' (STR_names h)"
    "sym_name head \<noteq> STR_def (STR_names h)" "sym_name head \<noteq> STR_defLinter (STR_names h)"
    "sym_name head \<noteq> STR_var (STR_names h)"
    by (auto simp: formNames_def)
  show ?thesis
    unfolding parseList_no_macro [OF macro form]
    using head(1,2,4) ne
    by (simp add: parseList_dispatch_def Let_def form head(3) [symmetric] isCreatedByMacro_def)
qed

text \<open>
  Claim C7, at a do form made by a macro. In linter mode \<^verbatim>\<open>(do 1)\<close> whose \<^verbatim>\<open>do\<close> symbol
  was read from the core file parses to a \<^verbatim>\<open>DoExpr\<close> with \<^verbatim>\<open>isCreatedByMacro\<close> true, and
  \<^verbatim>\<open>parseList\<close> prints "redundant do form" nevertheless: the flag it has just computed
  takes no part in its warning. (The same warning of \<^verbatim>\<open>parseBody\<close>, for a do form that is
  an expression of a body, is guarded by the flag: nothing is printed for this \<^verbatim>\<open>DoExpr\<close>
  there.) With the flag false the warning is printed as the claim says, and an empty
  body gets "do form with empty body".
\<close>

theorem do_created_by_macro_still_warns:
  "Parse (exampleHost True True) 3
      (Object (at ''f.clj'' 7 1) None
         (ListVal [Object (at ''<joker.core>'' 120 5) None (SymbolVal None ''do''), num 1]))
      emptyContext
     = (Return (DoExpr \<lparr>endLine = 7, endColumn = 1, startLine = 7, startColumn = 1,
                         filename = Some ''f.clj''\<rparr>
                  [LiteralExpr zeroPosition (num 1) False] True),
        emptyContext\<lparr>Stderr := [''f.clj:7:1: Parse warning: redundant do form'' @ [CHR 0x0A]],
                      PROBLEM_COUNT := 1\<rparr>) \<and>
   bodyWarnings (exampleHost True True) (lst [symb ''do'', num 1])
      (DoExpr zeroPosition [LiteralExpr zeroPosition (num 1) False] True) emptyContext
     = emptyContext \<and>
   Parse (exampleHost True True) 3
      (Object (at ''f.clj'' 7 1) None
         (ListVal [Object (at ''f.clj'' 7 2) None (SymbolVal None ''do''), num 1]))
      emptyContext
     = (Return (DoExpr \<lparr>endLine = 7, endColumn = 1, startLine = 7, startColumn = 1,
                         filename = Some ''f.clj''\<rparr>
                  [LiteralExpr zeroPosition (num 1) False] False),
        emptyContext\<lparr>Stderr := [''f.clj:7:1: Parse warning: redundant do form'' @ [CHR 0x0A]],
                      PROBLEM_COUNT := 1\<rparr>) \<and>
   Parse (exampleHost True True) 3
      (Object (at ''f.clj'' 7 1) None
         (ListVal [Object (at ''f.clj'' 7 2) None (SymbolVal None ''do'')]))
      emptyContext
     = (Return (DoExpr \<lparr>endLine = 7, endColumn = 1, startLine = 7, startColumn = 1,
                         filename = Some ''f.clj''\<rparr> [] False),
        emptyContext\<lparr>Stderr := [''f.clj:7:1: Parse warning: do form with empty body'' @ [CHR 0x0A]],
                      PROBLEM_COUNT := 1\<rparr>)"
  by code_simp


section \<open>Whole-program warnings are sorted\<close>

lemma collect_fold:
  "foldl (\<lambda>acc x. case e x of None \<Rightarrow> acc
                   | Some np \<Rightarrow> (fst acc @ [fst np], (snd acc)(fst np \<mapsto> snd np))) (ns0, m0) xs
   = (ns0 @ map fst (List.map_filter e xs), m0 ++ map_of (rev (List.map_filter e xs)))"
    (is "foldl ?F (ns0, m0) xs = _")
proof (induction xs arbitrary: ns0 m0)
  case Nil
  show ?case by (simp add: List.map_filter_simps)
next
  case (Cons x xs)
  show ?case
  proof (cases "e x")
    case None
    with Cons.IH [of ns0 m0] show ?thesis by (simp add: List.map_filter_simps)
  next
    case (Some np)
    obtain n p where np: "np = (n, p)" by (cases np)
    have "foldl ?F (ns0, m0) (x # xs) = foldl ?F (ns0 @ [n], m0(n \<mapsto> p)) xs"
      using Some np by simp
    also have "\<dots> = ((ns0 @ [n]) @ map fst (List.map_filter e xs),
                     m0(n \<mapsto> p) ++ map_of (rev (List.map_filter e xs)))"
      by (rule Cons.IH)
    also have "m0(n \<mapsto> p) ++ map_of (rev (List.map_filter e xs))
        = m0 ++ map_of (rev (List.map_filter e (x # xs)))"
      using Some np
      by (auto simp: List.map_filter_simps map_add_def fun_eq_iff split: option.splits)
    finally show ?thesis
      using Some np by (simp add: List.map_filter_simps)
  qed
qed

lemma print_fold:
  "foldl (\<lambda>st nm. printParseWarning (f nm) (g nm) st) s names
   = s\<lparr>PROBLEM_COUNT := PROBLEM_COUNT s + length names,
       Stderr := Stderr s @ map (\<lambda>nm. errorLine (f nm) (''Parse warning: '' @ g nm)) names\<rparr>"
  by (induction names arbitrary: s) (simp_all add: printParseWarning_def printError_def)

lemma unusedNamespaceStep_entry:
  "unusedNamespaceStep h cur = (\<lambda>acc ns. case unusedNamespaceEntry h cur ns of None \<Rightarrow> acc
       | Some np \<Rightarrow> (fst acc @ [fst np], (snd acc)(fst np \<mapsto> snd np)))"
  by (intro ext) (simp add: unusedNamespaceStep_def unusedNamespaceEntry_def split: option.splits)

lemma WarnOnUnusedNamespaces_eq:
  "WarnOnUnusedNamespaces h nss cur s =
     s\<lparr>PROBLEM_COUNT := PROBLEM_COUNT s + length (List.map_filter (unusedNamespaceEntry h cur) nss),
       Stderr := Stderr s @
         warningLines ''unused namespace '' (List.map_filter (unusedNamespaceEntry h cur) nss)
           (sort (map fst (List.map_filter (unusedNamespaceEntry h cur) nss)))\<rparr>"
  by (simp add: WarnOnUnusedNamespaces_def unusedNamespaceStep_entry collect_fold print_fold
        warningLines_def)

lemma var_fold_flat:
  "foldl (\<lambda>acc ns. if ns_ptr ns = core then acc
                    else foldl (globallyUnusedVarStep h ns) acc (mappings ns)) acc0 nss
   = foldl (\<lambda>acc nv. case globallyUnusedVarEntry h nv of None \<Rightarrow> acc
       | Some np \<Rightarrow> (fst acc @ [fst np], (snd acc)(fst np \<mapsto> snd np))) acc0 (varVisits core nss)"
proof (induction nss arbitrary: acc0)
  case Nil
  show ?case by (simp add: varVisits_def)
next
  case (Cons ns nss)
  have inner: "foldl (globallyUnusedVarStep h ns) acc kvs
      = foldl (\<lambda>acc nv. case globallyUnusedVarEntry h nv of None \<Rightarrow> acc
          | Some np \<Rightarrow> (fst acc @ [fst np], (snd acc)(fst np \<mapsto> snd np))) acc
          (map (\<lambda>kv. (ns\<lparr>mappings := []\<rparr>, snd kv)) kvs)" for acc kvs
    by (induction kvs arbitrary: acc)
       (simp_all add: globallyUnusedVarStep_def globallyUnusedVarEntry_def Let_def
          isEntryPointVar_def isEntryPointNs_def split: option.splits)
  have vv: "varVisits core (ns # nss) =
      (if ns_ptr ns = core then [] else map (\<lambda>kv. (ns\<lparr>mappings := []\<rparr>, snd kv)) (mappings ns))
        @ varVisits core nss"
    by (simp add: varVisits_def)
  show ?case
    unfolding vv using Cons.IH by (simp add: inner)
qed

lemma WarnOnGloballyUnusedVars_eq:
  "WarnOnGloballyUnusedVars h nss core s =
     s\<lparr>PROBLEM_COUNT := PROBLEM_COUNT s
          + length (List.map_filter (globallyUnusedVarEntry h) (varVisits core nss)),
       Stderr := Stderr s @
         warningLines ''globally unused var ''
           (List.map_filter (globallyUnusedVarEntry h) (varVisits core nss))
           (sort (map fst (List.map_filter (globallyUnusedVarEntry h) (varVisits core nss))))\<rparr>"
  by (simp add: WarnOnGloballyUnusedVars_def var_fold_flat collect_fold print_fold warningLines_def)

lemma mset_map_filter:
  "mset xs = mset ys \<Longrightarrow> mset (List.map_filter e xs) = mset (List.map_filter e ys)"
proof -
  assume "mset xs = mset ys"
  then have "mset (filter (\<lambda>x. e x \<noteq> None) xs) = mset (filter (\<lambda>x. e x \<noteq> None) ys)"
    by simp
  then have "mset (map (the \<circ> e) (filter (\<lambda>x. e x \<noteq> None) xs))
           = mset (map (the \<circ> e) (filter (\<lambda>x. e x \<noteq> None) ys))"
    by (metis mset_map)
  then show ?thesis by (simp add: List.map_filter_def)
qed

lemma sort_mset_eq: "mset (xs::string list) = mset ys \<Longrightarrow> sort xs = sort ys"
  by (metis properties_for_sort sorted_sort mset_sort)

lemma entries_perm:
  assumes m: "mset (es::(string \<times> Position) list) = mset es'"
  shows "sort (map fst es) = sort (map fst es')"
    and "distinct (map fst es) \<Longrightarrow> map_of (rev es) = map_of (rev es')"
    and "length es = length es'"
proof -
  from m have mf: "mset (map fst es) = mset (map fst es')" by (metis mset_map)
  then show "sort (map fst es) = sort (map fst es')" by (rule sort_mset_eq)
  from m show "length es = length es'" by (metis size_mset)
  assume d: "distinct (map fst es)"
  with mf have d': "distinct (map fst es')" by (metis mset_eq_imp_distinct_iff)
  from m have "set (rev es) = set (rev es')" by (metis mset_eq_setD set_rev)
  moreover from d d' have "distinct (map fst (rev es))" "distinct (map fst (rev es'))"
    by (simp_all add: rev_map [symmetric])
  ultimately show "map_of (rev es) = map_of (rev es')"
    by (simp add: map_of_inject_set)
qed

text \<open>
  Claim C8. \<^verbatim>\<open>WarnOnUnusedNamespaces\<close> and \<^verbatim>\<open>WarnOnGloballyUnusedVars\<close> print one warning
  for each name they collect, in the sorted order of the names (\<open>names\<close> below is the
  sorted list with the same elements as the names collected). Two runs that visit the
  same namespaces, and the same vars of them, in different orders print their warnings
  for the same sequence of names; and as the names collected are distinct (the
  namespaces and vars are entries of maps keyed by name), the two runs print the same
  lines and leave the same state.
\<close>

theorem whole_program_warnings_sorted:
  "(\<exists>names.
      sorted names \<and>
      mset names = mset (map fst (List.map_filter (unusedNamespaceEntry h cur) nss)) \<and>
      Stderr (WarnOnUnusedNamespaces h nss cur s)
        = Stderr s @ warningLines ''unused namespace ''
            (List.map_filter (unusedNamespaceEntry h cur) nss) names \<and>
      (mset nss = mset nss' \<longrightarrow>
         Stderr (WarnOnUnusedNamespaces h nss' cur s)
           = Stderr s @ warningLines ''unused namespace ''
               (List.map_filter (unusedNamespaceEntry h cur) nss') names)) \<and>
   (\<exists>names.
      sorted names \<and>
      mset names = mset (map fst (List.map_filter (globallyUnusedVarEntry h) (varVisits core nss))) \<and>
      Stderr (WarnOnGloballyUnusedVars h nss core s)
        = Stderr s @ warningLines ''globally unused var ''
            (List.map_filter (globallyUnusedVarEntry h) (varVisits core nss)) names \<and>
      (mset (varVisits core nss) = mset (varVisits core nss') \<longrightarrow>
         Stderr (WarnOnGloballyUnusedVars h nss' core s)
           = Stderr s @ warningLines ''globally unused var ''
               (List.map_filter (globallyUnusedVarEntry h) (varVisits core nss')) names)) \<and>
   (mset nss = mset nss' \<and>
    distinct (map fst (List.map_filter (unusedNamespaceEntry h cur) nss)) \<longrightarrow>
      WarnOnUnusedNamespaces h nss cur s = WarnOnUnusedNamespaces h nss' cur s) \<and>
   (mset (varVisits core nss) = mset (varVisits core nss') \<and>
    distinct (map fst (List.map_filter (globallyUnusedVarEntry h) (varVisits core nss))) \<longrightarrow>
      WarnOnGloballyUnusedVars h nss core s = WarnOnGloballyUnusedVars h nss' core s)"
proof (intro conjI impI)
  let ?en = "List.map_filter (unusedNamespaceEntry h cur)"
  let ?ev = "\<lambda>xs. List.map_filter (globallyUnusedVarEntry h) (varVisits core xs)"
  have n1: "sorted (sort (map fst (?en nss)))"
    and n0: "mset (sort (map fst (?en nss))) = mset (map fst (?en nss))" by simp_all
  have n2: "Stderr (WarnOnUnusedNamespaces h nss cur s)
        = Stderr s @ warningLines ''unused namespace '' (?en nss) (sort (map fst (?en nss)))"
    by (simp add: WarnOnUnusedNamespaces_eq)
  have n3: "mset nss = mset nss' \<longrightarrow>
         Stderr (WarnOnUnusedNamespaces h nss' cur s)
            = Stderr s @ warningLines ''unused namespace '' (?en nss') (sort (map fst (?en nss)))"
  proof
    assume "mset nss = mset nss'"
    then have "sort (map fst (?en nss)) = sort (map fst (?en nss'))"
      by (intro entries_perm(1) mset_map_filter)
    then show "Stderr (WarnOnUnusedNamespaces h nss' cur s)
            = Stderr s @ warningLines ''unused namespace '' (?en nss') (sort (map fst (?en nss)))"
      by (simp add: WarnOnUnusedNamespaces_eq)
  qed
  show "\<exists>names.
      sorted names \<and>
      mset names = mset (map fst (?en nss)) \<and>
      Stderr (WarnOnUnusedNamespaces h nss cur s)
        = Stderr s @ warningLines ''unused namespace '' (?en nss) names \<and>
      (mset nss = mset nss' \<longrightarrow>
         Stderr (WarnOnUnusedNamespaces h nss' cur s)
           = Stderr s @ warningLines ''unused namespace '' (?en nss') names)"
    by (rule exI [of _ "sort (map fst (?en nss))"], intro conjI, rule n1, rule n0, rule n2, rule n3)
  have v1: "sorted (sort (map fst (?ev nss)))"
    and v0: "mset (sort (map fst (?ev nss))) = mset (map fst (?ev nss))" by simp_all
  have v2: "Stderr (WarnOnGloballyUnusedVars h nss core s)
        = Stderr s @ warningLines ''globally unused var '' (?ev nss) (sort (map fst (?ev nss)))"
    by (simp add: WarnOnGloballyUnusedVars_eq)
  have v3: "mset (varVisits core nss) = mset (varVisits core nss') \<longrightarrow>
         Stderr (WarnOnGloballyUnusedVars h nss' core s)
            = Stderr s @ warningLines ''globally unused var '' (?ev nss') (sort (map fst (?ev nss)))"
  proof
    assume "mset (varVisits core nss) = mset (varVisits core nss')"
    then have "sort (map fst (?ev nss)) = sort (map fst (?ev nss'))"
      by (intro entries_perm(1) mset_map_filter)
    then show "Stderr (WarnOnGloballyUnusedVars h nss' core s)
            = Stderr s @ warningLines ''globally unused var '' (?ev nss') (sort (map fst (?ev nss)))"
      by (simp add: WarnOnGloballyUnusedVars_eq)
  qed
  show "\<exists>names.
      sorted names \<and>
      mset names = mset (map fst (?ev nss)) \<and>
      Stderr (WarnOnGloballyUnusedVars h nss core s)
        = Stderr s @ warningLines ''globally unused var '' (?ev nss) names \<and>
      (mset (varVisits core nss) = mset (varVisits core nss') \<longrightarrow>
         Stderr (WarnOnGloballyUnusedVars h nss' core s)
           = Stderr s @ warningLines ''globally unused var '' (?ev nss') names)"
    by (rule exI [of _ "sort (map fst (?ev nss))"], intro conjI, rule v1, rule v0, rule v2, rule v3)
next
  assume a: "mset nss = mset nss' \<and>
    distinct (map fst (List.map_filter (unusedNamespaceEntry h cur) nss))"
  then have m: "mset (List.map_filter (unusedNamespaceEntry h cur) nss)
      = mset (List.map_filter (unusedNamespaceEntry h cur) nss')"
    by (intro mset_map_filter) simp
  from entries_perm [OF m] a
  show "WarnOnUnusedNamespaces h nss cur s = WarnOnUnusedNamespaces h nss' cur s"
    by (simp add: WarnOnUnusedNamespaces_eq warningLines_def)
next
  assume a: "mset (varVisits core nss) = mset (varVisits core nss') \<and>
    distinct (map fst (List.map_filter (globallyUnusedVarEntry h) (varVisits core nss)))"
  then have m: "mset (List.map_filter (globallyUnusedVarEntry h) (varVisits core nss))
      = mset (List.map_filter (globallyUnusedVarEntry h) (varVisits core nss'))"
    by (intro mset_map_filter) simp
  from entries_perm [OF m] a
  show "WarnOnGloballyUnusedVars h nss core s = WarnOnGloballyUnusedVars h nss' core s"
    by (simp add: WarnOnGloballyUnusedVars_eq warningLines_def)
qed

theorem whole_program_warnings_sorted_witness:
  "WarnOnUnusedNamespaces (exampleHost True True)
      [exampleNamespace 2 ''b'' [], exampleNamespace 1 ''a'' []] 0 emptyContext
     = WarnOnUnusedNamespaces (exampleHost True True)
         [exampleNamespace 1 ''a'' [], exampleNamespace 2 ''b'' []] 0 emptyContext \<and>
   Stderr (WarnOnUnusedNamespaces (exampleHost True True)
      [exampleNamespace 2 ''b'' [], exampleNamespace 1 ''a'' []] 0 emptyContext)
     = [''a.clj:1:1: Parse warning: unused namespace a'' @ [CHR 0x0A],
        ''b.clj:1:1: Parse warning: unused namespace b'' @ [CHR 0x0A]] \<and>
   WarnOnGloballyUnusedVars (exampleHost True True)
      [exampleNamespace 2 ''b'' [(''z'', exampleVar 2 ''z'' 9)],
       exampleNamespace 1 ''a'' [(''y'', exampleVar 1 ''y'' 5), (''x'', exampleVar 1 ''x'' 7)]]
      0 emptyContext
     = WarnOnGloballyUnusedVars (exampleHost True True)
         [exampleNamespace 1 ''a'' [(''x'', exampleVar 1 ''x'' 7), (''y'', exampleVar 1 ''y'' 5)],
          exampleNamespace 2 ''b'' [(''z'', exampleVar 2 ''z'' 9)]]
         0 emptyContext \<and>
   Stderr (WarnOnGloballyUnusedVars (exampleHost True True)
      [exampleNamespace 2 ''b'' [(''z'', exampleVar 2 ''z'' 9)],
       exampleNamespace 1 ''a'' [(''y'', exampleVar 1 ''y'' 5), (''x'', exampleVar 1 ''x'' 7)]]
      0 emptyContext)
     = [''a.clj:7:1: Parse warning: globally unused var x'' @ [CHR 0x0A],
        ''a.clj:5:1: Parse warning: globally unused var y'' @ [CHR 0x0A],
        ''a.clj:9:1: Parse warning: globally unused var z'' @ [CHR 0x0A]]"
proof -
  let ?h = "exampleHost True True"
  let ?ba = "[exampleNamespace 2 ''b'' [], exampleNamespace 1 ''a'' []]"
  let ?ab = "[exampleNamespace 1 ''a'' [], exampleNamespace 2 ''b'' []]"
  let ?v1 = "[exampleNamespace 2 ''b'' [(''z'', exampleVar 2 ''z'' 9)],
       exampleNamespace 1 ''a'' [(''y'', exampleVar 1 ''y'' 5), (''x'', exampleVar 1 ''x'' 7)]]"
  let ?v2 = "[exampleNamespace 1 ''a'' [(''x'', exampleVar 1 ''x'' 7), (''y'', exampleVar 1 ''y'' 5)],
          exampleNamespace 2 ''b'' [(''z'', exampleVar 2 ''z'' 9)]]"
  have m1: "mset ?ba = mset ?ab" by simp
  have d1: "distinct (map fst (List.map_filter (unusedNamespaceEntry ?h 0) ?ba))"
    by code_simp
  have m2: "mset (varVisits 0 ?v1) = mset (varVisits 0 ?v2)"
    by (simp add: varVisits_def exampleNamespace_def)
  have d2: "distinct (map fst (List.map_filter (globallyUnusedVarEntry ?h) (varVisits 0 ?v1)))"
    by code_simp
  have o1: "Stderr (WarnOnUnusedNamespaces ?h ?ba 0 emptyContext)
     = [''a.clj:1:1: Parse warning: unused namespace a'' @ [CHR 0x0A],
        ''b.clj:1:1: Parse warning: unused namespace b'' @ [CHR 0x0A]]"
    by code_simp
  have o2: "Stderr (WarnOnGloballyUnusedVars ?h ?v1 0 emptyContext)
     = [''a.clj:7:1: Parse warning: globally unused var x'' @ [CHR 0x0A],
        ''a.clj:5:1: Parse warning: globally unused var y'' @ [CHR 0x0A],
        ''a.clj:9:1: Parse warning: globally unused var z'' @ [CHR 0x0A]]"
    by code_simp
  note w = whole_program_warnings_sorted [where h = ?h and nss = ?ba and nss' = ?ab and cur = 0
      and core = 0 and s = emptyContext]
  note v = whole_program_warnings_sorted [where h = ?h and nss = ?v1 and nss' = ?v2 and cur = 0
      and core = 0 and s = emptyContext]
  from w m1 d1 have e1: "WarnOnUnusedNamespaces ?h ?ba 0 emptyContext
     = WarnOnUnusedNamespaces ?h ?ab 0 emptyContext"
    by - (elim conjE, erule (1) impE [OF _ conjI])
  from v m2 d2 have e2: "WarnOnGloballyUnusedVars ?h ?v1 0 emptyContext
     = WarnOnGloballyUnusedVars ?h ?v2 0 emptyContext"
    by - (elim conjE, erule (1) impE [OF _ conjI])
  show ?thesis
    by (intro conjI) (rule e1, rule o1, rule e2, rule o2)
qed


section \<open>Namespace-qualified symbols\<close>

lemma MakeVarRefExpr_scope:
  "MakeVarRefExpr h vr obj (s\<lparr>localBindings := lb\<rparr>) =
     (case MakeVarRefExpr h vr obj s of (r, s') \<Rightarrow> (r, s'\<lparr>localBindings := lb\<rparr>))"
  by (simp add: MakeVarRefExpr_def Let_def split: option.splits)

lemma MakeVarRefExpr_scope_env:
  "MakeVarRefExpr h vr obj (s\<lparr>localBindings := lb, GlobalEnv := g\<rparr>) =
     (case MakeVarRefExpr h vr obj (s\<lparr>GlobalEnv := g\<rparr>) of
        (r, s') \<Rightarrow> (r, s'\<lparr>localBindings := lb\<rparr>))"
  by (simp add: MakeVarRefExpr_def Let_def split: option.splits)

lemma MakeVarRefExpr_not_binding:
  "MakeVarRefExpr h vr obj s \<noteq> (Return (BindingExpr pos b), s')"
  by (simp add: MakeVarRefExpr_def Let_def split: option.splits)

lemma printParseError_scope:
  "printParseError pos msg (s\<lparr>localBindings := lb\<rparr>)
     = (printParseError pos msg s)\<lparr>localBindings := lb\<rparr>"
  by (simp add: printParseError_def printError_def)

lemma parseSymbol_fake_scope_and_shape:
  "parseSymbol_fake h obj (s\<lparr>localBindings := lb\<rparr>) =
     (case parseSymbol_fake h obj s of (r, s') \<Rightarrow> (r, s'\<lparr>localBindings := lb\<rparr>)) \<and>
   parseSymbol_fake h obj s \<noteq> (Return (BindingExpr pos b), s')"
proof -
  let ?g = "GlobalEnv s"
  let ?symNs = "NamespaceFor h ?g (CurrentNamespace h ?g) obj"
  let ?own = "?symNs = None \<or> ?symNs = Some (CurrentNamespace h ?g)"
  show ?thesis
  proof (cases "?own \<and> (isInteropSymbol obj \<or> isJavaSymbol h obj)")
    case True
    then show ?thesis by (simp add: parseSymbol_fake_def Let_def NewSurrogateExpr_def)
  next
    case False
    define s1 where "s1 =
       (if ?own \<and> \<not> isUnknownCallableScope s \<and> GetBinding (linterBindings s) obj = None
        then printParseError (GetPosition obj) (''Unable to resolve symbol: '' @ ToString h obj) s
        else s)"
    have g1: "GlobalEnv s1 = ?g"
      by (simp add: s1_def printParseError_def printError_def)
    obtain vr g' where iv: "InternFakeSymbol h ?symNs obj ?g = (vr, g')"
      by (cases "InternFakeSymbol h ?symNs obj ?g")
    have a: "parseSymbol_fake h obj s = MakeVarRefExpr h vr obj (s1\<lparr>GlobalEnv := g'\<rparr>)"
      unfolding parseSymbol_fake_def Let_def if_not_P [OF False] s1_def [symmetric] g1 iv
      by simp
    let ?t = "s\<lparr>localBindings := lb\<rparr>"
    have gt: "GlobalEnv ?t = ?g" by simp
    have s1': "(if ?own \<and> \<not> isUnknownCallableScope ?t \<and> GetBinding (linterBindings ?t) obj = None
            then printParseError (GetPosition obj) (''Unable to resolve symbol: '' @ ToString h obj) ?t
            else ?t) = s1\<lparr>localBindings := lb\<rparr>"
      by (simp add: s1_def printParseError_scope)
    have g1': "GlobalEnv (s1\<lparr>localBindings := lb\<rparr>) = ?g" using g1 by simp
    have b: "parseSymbol_fake h obj ?t
        = MakeVarRefExpr h vr obj (s1\<lparr>localBindings := lb, GlobalEnv := g'\<rparr>)"
      unfolding parseSymbol_fake_def Let_def gt if_not_P [OF False] s1' g1' iv
      by simp
    show ?thesis
      unfolding a b by (intro conjI MakeVarRefExpr_scope_env MakeVarRefExpr_not_binding)
  qed
qed

lemmas parseSymbol_fake_scope = parseSymbol_fake_scope_and_shape [THEN conjunct1]
lemmas parseSymbol_fake_not_binding = parseSymbol_fake_scope_and_shape [THEN conjunct2]

text \<open>
  Claim C10. For a symbol \<open>obj\<close> with a namespace part, \<^verbatim>\<open>GetLocalBinding\<close> returns nil
  whatever the scope stack holds. So \<^verbatim>\<open>parseSymbol\<close> never returns a \<^verbatim>\<open>BindingExpr\<close> for it,
  its outcome is the same under every scope stack \<open>lb\<close> (which it leaves as it found
  it), and when the global environment resolves the symbol to a var (of some namespace)
  the outcome is the \<^verbatim>\<open>VarRefExpr\<close> of that var, also with a local binding of the same
  local name in scope.
\<close>

theorem qualified_symbol_never_local:
  assumes q: "sym_ns obj \<noteq> None"
  shows "GetLocalBinding s obj = None \<and>
     (\<forall>pos b s'. parseSymbol h n obj s \<noteq> (Return (BindingExpr pos b), s')) \<and>
     parseSymbol h n obj (s\<lparr>localBindings := lb\<rparr>) =
       (case parseSymbol h n obj s of (r, s') \<Rightarrow> (r, s'\<lparr>localBindings := lb\<rparr>)) \<and>
     (IsSymbol obj \<and> Resolve h (GlobalEnv s) obj = Some vr \<and>
      var_ns h (setVarUsed h vr (GlobalEnv s)) vr = Some nsid \<longrightarrow>
        parseSymbol h (Suc n) obj s =
          (Return (VarRefExpr (GetPosition obj) vr),
           s\<lparr>GlobalEnv := setNsUsed h nsid (setVarUsed h vr (GlobalEnv s))\<rparr>))"
proof (intro conjI allI impI)
  from q obtain nsn where nsn: "sym_ns obj = Some nsn" by auto
  show glb: "GetLocalBinding st obj = None" for st :: "'a ParseContext"
    using q by (simp add: GetLocalBinding_def)
  show "parseSymbol h n obj s \<noteq> (Return (BindingExpr pos b), s')" for pos b s'
  proof (cases n)
    case 0
    then show ?thesis by simp
  next
    case (Suc k)
    then show ?thesis
      by (simp add: nsn glb MakeVarRefExpr_not_binding parseSymbol_fake_not_binding
            split: option.splits)
  qed
  show "parseSymbol h n obj (s\<lparr>localBindings := lb\<rparr>) =
       (case parseSymbol h n obj s of (r, s') \<Rightarrow> (r, s'\<lparr>localBindings := lb\<rparr>))"
  proof (cases n)
    case 0
    then show ?thesis by simp
  next
    case (Suc k)
    then show ?thesis
      by (simp add: nsn glb MakeVarRefExpr_scope parseSymbol_fake_scope split: option.splits)
  qed
  assume "IsSymbol obj \<and> Resolve h (GlobalEnv s) obj = Some vr \<and>
      var_ns h (setVarUsed h vr (GlobalEnv s)) vr = Some nsid"
  then show "parseSymbol h (Suc n) obj s =
          (Return (VarRefExpr (GetPosition obj) vr),
           s\<lparr>GlobalEnv := setNsUsed h nsid (setVarUsed h vr (GlobalEnv s))\<rparr>)"
    by (simp add: glb MakeVarRefExpr_def Let_def)
qed

theorem qualified_symbol_never_local_witness:
  "GetLocalBinding (PushLocalFrame (exampleHost False True) [symb ''x''] emptyContext) (symb ''x'')
     \<noteq> None \<and>
   GetLocalBinding (PushLocalFrame (exampleHost False True) [symb ''x''] emptyContext)
      (qsymb ''user'' ''x'') = None \<and>
   parseSymbol (exampleHost False True) 1 (qsymb ''user'' ''x'')
      (PushLocalFrame (exampleHost False True) [symb ''x''] emptyContext)
     = (Return (VarRefExpr zeroPosition 7),
        PushLocalFrame (exampleHost False True) [symb ''x''] emptyContext) \<and>
   isReturn (fst (parseSymbol (exampleHost False True) 1 (symb ''x'')
      (PushLocalFrame (exampleHost False True) [symb ''x''] emptyContext)))"
proof -
  let ?h = "exampleHost False True"
  let ?s = "PushLocalFrame ?h [symb ''x''] emptyContext"
  have q: "sym_ns (qsymb ''user'' ''x'') \<noteq> None" and sy: "IsSymbol (qsymb ''user'' ''x'')"
    and pos: "GetPosition (qsymb ''user'' ''x'') = zeroPosition"
    by (simp_all add: qsymb_def GetPosition_def)
  have res: "Resolve ?h (GlobalEnv ?s) (qsymb ''user'' ''x'') = Some 7"
    and ns: "var_ns ?h (setVarUsed ?h 7 (GlobalEnv ?s)) 7 = Some 1"
    and upd: "?s\<lparr>GlobalEnv := setNsUsed ?h 1 (setVarUsed ?h 7 (GlobalEnv ?s))\<rparr> = ?s"
    by (simp_all add: exampleHost_def qsymb_def)
  have loc: "GetLocalBinding ?s (symb ''x'') \<noteq> None"
    and ret: "isReturn (fst (parseSymbol ?h 1 (symb ''x'') ?s))"
    by code_simp+
  from qualified_symbol_never_local [OF q, where s = ?s and h = ?h and vr = 7 and nsid = 1
      and n = 0 and lb = None] sy res ns
  have a: "GetLocalBinding ?s (qsymb ''user'' ''x'') = None"
    and b: "parseSymbol ?h 1 (qsymb ''user'' ''x'') ?s = (Return (VarRefExpr zeroPosition 7), ?s)"
    by (simp_all add: pos upd del: parseSymbol.simps)
  show ?thesis
    by (intro conjI) (rule loc, rule a, rule b, rule ret)
qed


end
